theory Spec2Isabelle
  imports Complex_Main "HOL-Library.Word" "HOL-Library.AList"
begin

unbundle bit_operations_syntax

section \<open>The CSS animation and transition engine of WebCore/page/AnimationController.cpp\<close>

text \<open>
  Conventions of the embedding.
  \<^item> A C++ \<^verbatim>\<open>double\<close> or \<^verbatim>\<open>float\<close> is a \<^typ>\<open>real\<close>: arithmetic is exact, and there
    is no NaN or infinity. Statements about values are made only where the C++ computation is
    exact as well (comparisons, sums and differences of small integers).
  \<^item> A C++ \<^verbatim>\<open>int\<close> is an \<^typ>\<open>int\<close>. Signed overflow is undefined in C++; the predicate
    \<open>fitsInt\<close> marks the values for which the C++ computation is defined, and the
    theorems assume it where an overflow could happen.
  \<^item> \<^verbatim>\<open>ASSERT\<close> is a debug-only check that is compiled out of release builds; the
    functions below do what the release build does.
  \<^item> \<^verbatim>\<open>currentTime()\<close> is the argument \<open>now\<close> of each operation.
\<close>

subsection \<open>Numbers\<close>

definition fitsInt :: "int \<Rightarrow> bool" where
  "fitsInt i \<longleftrightarrow> - 2147483648 \<le> i \<and> i \<le> 2147483647"

text \<open>The conversion \<^verbatim>\<open>(int) x\<close> of a double: truncation towards zero.\<close>

definition double_to_int :: "real \<Rightarrow> int" where
  "double_to_int x = (if 0 \<le> x then \<lfloor>x\<rfloor> else \<lceil>x\<rceil>)"

subsection \<open>Blend functions\<close>

definition blendFunc_int :: "int \<Rightarrow> int \<Rightarrow> real \<Rightarrow> int" where
  "blendFunc_int from to progress =
     double_to_int (of_int from + of_int (to - from) * progress)"

definition blendFunc_double :: "real \<Rightarrow> real \<Rightarrow> real \<Rightarrow> real" where
  "blendFunc_double from to progress = from + (to - from) * progress"

text \<open>
  \<^verbatim>\<open>Color\<close> is declared outside this file; it is taken as its four integer channels, and
  \<^verbatim>\<open>Color(r, g, b, a)\<close> as the colour with these channels.
\<close>

record Color =
  red :: int
  green :: int
  blue :: int
  alpha :: int

definition blendFunc_Color :: "Color \<Rightarrow> Color \<Rightarrow> real \<Rightarrow> Color" where
  "blendFunc_Color from to progress =
     \<lparr> red = blendFunc_int (red from) (red to) progress,
       green = blendFunc_int (green from) (green to) progress,
       blue = blendFunc_int (blue from) (blue to) progress,
       alpha = blendFunc_int (alpha from) (alpha to) progress \<rparr>"

text \<open>
  \<^verbatim>\<open>Length::blend\<close> is declared outside this file: it is the parameter \<open>Length_blend\<close>,
  called as \<^verbatim>\<open>to.blend(from, progress)\<close>.
\<close>

definition blendFunc_Length :: "('l \<Rightarrow> 'l \<Rightarrow> real \<Rightarrow> 'l) \<Rightarrow> 'l \<Rightarrow> 'l \<Rightarrow> real \<Rightarrow> 'l" where
  "blendFunc_Length Length_blend from to progress = Length_blend to from progress"

record IntSize =
  width :: int
  height :: int

definition blendFunc_IntSize :: "IntSize \<Rightarrow> IntSize \<Rightarrow> real \<Rightarrow> IntSize" where
  "blendFunc_IntSize from to progress =
     \<lparr> width = blendFunc_int (width from) (width to) progress,
       height = blendFunc_int (height from) (height to) progress \<rparr>"

text \<open>The fields \<^verbatim>\<open>x\<close>, \<^verbatim>\<open>y\<close>, \<^verbatim>\<open>blur\<close> and \<^verbatim>\<open>color\<close> of \<^verbatim>\<open>ShadowData\<close>.\<close>

record ShadowData =
  shadow_x :: int
  shadow_y :: int
  shadow_blur :: int
  shadow_color :: Color

definition blendFunc_ShadowData :: "ShadowData \<Rightarrow> ShadowData \<Rightarrow> real \<Rightarrow> ShadowData" where
  "blendFunc_ShadowData from to progress =
     \<lparr> shadow_x = blendFunc_int (shadow_x from) (shadow_x to) progress,
       shadow_y = blendFunc_int (shadow_y from) (shadow_y to) progress,
       shadow_blur = blendFunc_int (shadow_blur from) (shadow_blur to) progress,
       shadow_color = blendFunc_Color (shadow_color from) (shadow_color to) progress \<rparr>"

text \<open>
  A \<^verbatim>\<open>TransformOperations\<close> is the list of its operations.
  \<^verbatim>\<open>TransformOperation::blend(from, progress, blendToIdentity)\<close> is declared outside this
  file: it is the parameter \<open>op_blend\<close>, whose result may be a null pointer (\<open>None\<close>).
\<close>

definition blendFunc_TransformOperations ::
  "('t \<Rightarrow> 't option \<Rightarrow> real \<Rightarrow> bool \<Rightarrow> 't option) \<Rightarrow> 't list \<Rightarrow> 't list \<Rightarrow> real \<Rightarrow> 't list" where
  "blendFunc_TransformOperations op_blend from to progress =
     (let fromSize = length from;
          toSize = length to;
          size = max fromSize toSize
      in List.map_filter
           (\<lambda>i. let fromOp = (if i < fromSize then Some (from ! i) else None);
                    toOp = (if i < toSize then Some (to ! i) else None)
                in case toOp of
                     Some t \<Rightarrow> op_blend t fromOp progress False
                   | None \<Rightarrow> (case fromOp of
                                Some f \<Rightarrow> op_blend f None progress True
                              | None \<Rightarrow> None))
           [0 ..< size])"

datatype EVisibility = VISIBLE | HIDDEN | COLLAPSE

definition blendFunc_EVisibility :: "EVisibility \<Rightarrow> EVisibility \<Rightarrow> real \<Rightarrow> EVisibility" where
  "blendFunc_EVisibility from to progress =
     (let fromVal = (if from = VISIBLE then 1 else 0 :: real);
          toVal = (if to = VISIBLE then 1 else 0 :: real)
      in if fromVal = toVal then to
         else let result = blendFunc_double fromVal toVal progress
              in if result > 0 then VISIBLE else (if to \<noteq> VISIBLE then to else from))"


subsection \<open>Declarations made outside this file\<close>

text \<open>
  \<^verbatim>\<open>RenderStyle\<close> is an abstract type \<open>'s\<close>. The classes \<^verbatim>\<open>Animation\<close>,
  \<^verbatim>\<open>KeyframeList\<close>, \<^verbatim>\<open>Document\<close> and \<^verbatim>\<open>RenderObject\<close> are records of what this file
  reads from them, one field for each accessor.
\<close>

datatype TimingFunction =
    LinearTimingFunction
  | CubicBezierTimingFunction real real real real

datatype EAnimPlayState = AnimPlayStatePlaying | AnimPlayStatePaused

text \<open>
  A keyframe list: the \<^verbatim>\<open>KeyframeValue\<close>s (key and style) from \<^verbatim>\<open>beginKeyframes()\<close> to
  \<^verbatim>\<open>endKeyframes()\<close>, and the property set in its iteration order.
\<close>

record 's KeyframeList =
  keyframes :: "(real \<times> 's) list"
  properties :: "int list"

record 's Animation =
  duration :: real
  delay :: real
  iterationCount :: int
  direction :: bool
  timingFunction :: TimingFunction
  playState :: EAnimPlayState
  property :: int
  name :: string
  keyframeList :: "'s KeyframeList option"
  isValidAnimation :: bool

datatype ListenerType =
    TRANSITIONEND_LISTENER
  | ANIMATIONSTART_LISTENER
  | ANIMATIONEND_LISTENER
  | ANIMATIONITERATION_LISTENER

record Document =
  inPageCache :: bool
  hasListenerType :: "ListenerType \<Rightarrow> bool"

text \<open>
  A renderer: its document (may be null), whether its node is an element, and its current
  style (may be null).
\<close>

record 's RenderObject =
  document :: "Document option"
  isElementNode :: bool
  style :: "'s option"

text \<open>
  The constants of \<^verbatim>\<open>CSSPropertyNames.h\<close> and \<^verbatim>\<open>RenderStyle.h\<close>, the registered property
  wrappers, and the accessors of \<^verbatim>\<open>RenderStyle\<close>, \<^verbatim>\<open>Animation\<close> and \<^verbatim>\<open>UnitBezier\<close> that
  this file calls. None of them is defined in this file, so all are parameters, collected in
  one record.
\<close>

record 's PropertyWrapperBase =
  m_prop :: int
  equals :: "'s \<Rightarrow> 's \<Rightarrow> bool"
  blend :: "'s \<Rightarrow> 's \<Rightarrow> 's \<Rightarrow> real \<Rightarrow> 's"

record 's Env =
  firstCSSProperty :: int
  numCSSProperties :: int
  CSSPropertyInvalid :: int
  cAnimateAll :: int
  getPropertyName :: "int \<Rightarrow> string"
  registeredWrappers :: "'s PropertyWrapperBase list"
  animations :: "'s \<Rightarrow> 's Animation list option"
  transitions :: "'s \<Rightarrow> 's Animation list option"
  hasAutoZIndex :: "'s \<Rightarrow> bool"
  opacity :: "'s \<Rightarrow> real"
  hasTransform :: "'s \<Rightarrow> bool"
  setZIndex :: "int \<Rightarrow> 's \<Rightarrow> 's"
  animationsMatch :: "'s Animation \<Rightarrow> 's Animation \<Rightarrow> bool"
  animationListsEqual :: "'s Animation list \<Rightarrow> 's Animation list \<Rightarrow> bool"
  UnitBezier_solve :: "real \<Rightarrow> real \<Rightarrow> real \<Rightarrow> real \<Rightarrow> real \<Rightarrow> real \<Rightarrow> real"

definition hasAnimations :: "'s Env \<Rightarrow> 's \<Rightarrow> bool" where
  "hasAnimations env s = (case animations env s of None \<Rightarrow> False | Some l \<Rightarrow> l \<noteq> [])"

definition isEmpty :: "'s KeyframeList \<Rightarrow> bool" where
  "isEmpty kl \<longleftrightarrow> keyframes kl = []"

definition solveEpsilon :: "real \<Rightarrow> real" where
  "solveEpsilon dur = 1 / (200 * dur)"

definition solveCubicBezierFunction ::
  "'s Env \<Rightarrow> real \<Rightarrow> real \<Rightarrow> real \<Rightarrow> real \<Rightarrow> real \<Rightarrow> real \<Rightarrow> real" where
  "solveCubicBezierFunction env p1x p1y p2x p2y t dur =
     UnitBezier_solve env p1x p1y p2x p2y t (solveEpsilon dur)"

text \<open>\<^verbatim>\<open>fmod(a, b)\<close> of the C library, for \<open>b \<noteq> 0\<close>.\<close>

definition fmod :: "real \<Rightarrow> real \<Rightarrow> real" where
  "fmod a b = a - of_int (double_to_int (a / b)) * b"

subsection \<open>Timers\<close>

datatype EventName =
    webkitAnimationStartEvent
  | webkitAnimationIterationEvent
  | webkitAnimationEndEvent
  | webkitTransitionEndEvent

text \<open>
  A one-shot timer is pending (\<open>active\<close>) or not. The constructor of
  \<^verbatim>\<open>AnimationTimerBase\<close> starts it with delay 0, with no event type set yet.
\<close>

record AnimationTimerCallback =
  tc_active :: bool
  tc_timeout :: real
  tc_eventType :: "EventName option"
  tc_elapsedTime :: real

record AnimationEventDispatcher =
  ed_active :: bool
  ed_element :: bool
  ed_name :: string
  ed_property :: int
  ed_reset :: bool
  ed_eventType :: "EventName option"
  ed_elapsedTime :: real

definition new_AnimationTimerCallback :: AnimationTimerCallback where
  "new_AnimationTimerCallback =
     \<lparr> tc_active = True, tc_timeout = 0, tc_eventType = None, tc_elapsedTime = 0 \<rparr>"

definition new_AnimationEventDispatcher :: "'s Env \<Rightarrow> AnimationEventDispatcher" where
  "new_AnimationEventDispatcher env =
     \<lparr> ed_active = True, ed_element = False, ed_name = [], ed_property = CSSPropertyInvalid env,
       ed_reset = False, ed_eventType = None, ed_elapsedTime = - 1 \<rparr>"

definition startTimer_callback ::
  "real \<Rightarrow> EventName \<Rightarrow> real \<Rightarrow> AnimationTimerCallback \<Rightarrow> AnimationTimerCallback" where
  "startTimer_callback timeout eventType elapsedTime t =
     \<lparr> tc_active = True, tc_timeout = timeout, tc_eventType = Some eventType,
       tc_elapsedTime = elapsedTime \<rparr>"

definition startTimer_dispatcher ::
  "bool \<Rightarrow> string \<Rightarrow> int \<Rightarrow> bool \<Rightarrow> EventName \<Rightarrow> real \<Rightarrow> AnimationEventDispatcher
     \<Rightarrow> AnimationEventDispatcher" where
  "startTimer_dispatcher element nm prop reset eventType elapsedTime t =
     \<lparr> ed_active = True, ed_element = element, ed_name = nm, ed_property = prop,
       ed_reset = reset, ed_eventType = Some eventType, ed_elapsedTime = elapsedTime \<rparr>"

subsection \<open>AnimationBase, ImplicitAnimation, KeyframeAnimation, CompositeAnimation\<close>

datatype AnimState =
    STATE_NEW
  | STATE_START_WAIT_TIMER
  | STATE_START_WAIT_STYLE_AVAILABLE
  | STATE_START_WAIT_RESPONSE
  | STATE_LOOPING
  | STATE_ENDING
  | STATE_PAUSED_WAIT_TIMER
  | STATE_PAUSED_WAIT_RESPONSE
  | STATE_PAUSED_RUN
  | STATE_DONE

datatype AnimStateInput =
    STATE_INPUT_MAKE_NEW
  | STATE_INPUT_START_ANIMATION
  | STATE_INPUT_RESTART_ANIMATION
  | STATE_INPUT_START_TIMER_FIRED
  | STATE_INPUT_STYLE_AVAILABLE
  | STATE_INPUT_START_TIME_SET
  | STATE_INPUT_LOOP_TIMER_FIRED
  | STATE_INPUT_END_TIMER_FIRED
  | STATE_INPUT_PAUSE_OVERRIDE
  | STATE_INPUT_RESUME_OVERRIDE
  | STATE_INPUT_PLAY_STATE_RUNNING
  | STATE_INPUT_PLAY_STATE_PAUSED
  | STATE_INPUT_END_ANIMATION

record 's AnimationBase =
  m_animState :: AnimState
  m_iteration :: int
  m_animating :: bool
  m_waitedForResponse :: bool
  m_startTime :: real
  m_pauseTime :: real
  m_object :: "'s RenderObject"
  m_animationTimerCallback :: AnimationTimerCallback
  m_animationEventDispatcher :: AnimationEventDispatcher
  m_animation :: "'s Animation"
  m_waitingForEndEvent :: bool

record 's ImplicitAnimation = "'s AnimationBase" +
  m_transitionProperty :: int
  m_animatingProperty :: int
  m_overridden :: bool
  m_fromStyle :: "'s option"
  m_toStyle :: "'s option"

record 's KeyframeAnimation = "'s AnimationBase" +
  m_keyframes :: "'s KeyframeList option"
  m_name :: string
  m_index :: int

text \<open>
  What the animations of one renderer do to their collaborators and to each other, in the
  order in which it happens: the calls of \<^verbatim>\<open>Node::setChanged\<close>, of the controller's
  \<^verbatim>\<open>startUpdateRenderingDispatcher\<close> and \<^verbatim>\<open>setWaitingForStyleAvailable\<close>, and the calls
  of \<^verbatim>\<open>animate\<close> and the \<^verbatim>\<open>STATE_INPUT_STYLE_AVAILABLE\<close> inputs that the
  \<^verbatim>\<open>CompositeAnimation\<close> gives to its transitions (by property) and keyframe animations
  (by name).
\<close>

datatype Call =
    SetChanged
  | StartUpdateRenderingDispatcher
  | ControllerSetWaitingForStyleAvailable bool
  | AnimateTransition int
  | AnimateKeyframeAnimation string
  | StyleAvailableTransition int
  | StyleAvailableKeyframeAnimation string

text \<open>
  The two hash maps are association lists with distinct keys; the order of a list is the
  iteration order of the hash map, which C++ leaves open.
\<close>

record 's CompositeAnimation =
  m_transitions :: "(int \<times> 's ImplicitAnimation) list"
  m_keyframeAnimations :: "(string \<times> 's KeyframeAnimation) list"
  m_suspended :: bool
  m_numStyleAvailableWaiters :: "32 word"
  calls :: "Call list"

definition new_CompositeAnimation :: "'s CompositeAnimation" where
  "new_CompositeAnimation =
     \<lparr> m_transitions = [], m_keyframeAnimations = [], m_suspended = False,
       m_numStyleAvailableWaiters = 0, calls = [] \<rparr>"

definition call :: "Call \<Rightarrow> 's CompositeAnimation \<Rightarrow> 's CompositeAnimation" where
  "call e c = c\<lparr>calls := calls c @ [e]\<rparr>"

definition setChanged :: "'s CompositeAnimation \<Rightarrow> 's CompositeAnimation" where
  "setChanged c = call SetChanged c"

definition startUpdateRenderingDispatcher :: "'s CompositeAnimation \<Rightarrow> 's CompositeAnimation" where
  "startUpdateRenderingDispatcher c = call StartUpdateRenderingDispatcher c"

definition setWaitingForStyleAvailable ::
  "bool \<Rightarrow> 's CompositeAnimation \<Rightarrow> 's CompositeAnimation" where
  "setWaitingForStyleAvailable waiting c =
     call (ControllerSetWaitingForStyleAvailable waiting)
       (c\<lparr>m_numStyleAvailableWaiters :=
            (if waiting then m_numStyleAvailableWaiters c + 1
             else m_numStyleAvailableWaiters c - 1)\<rparr>)"

definition new_AnimationBase ::
  "'s Env \<Rightarrow> 's Animation \<Rightarrow> 's RenderObject \<Rightarrow> 's AnimationBase" where
  "new_AnimationBase env transition renderer =
     \<lparr> m_animState = STATE_NEW, m_iteration = 0, m_animating = False,
       m_waitedForResponse = False, m_startTime = 0, m_pauseTime = - 1, m_object = renderer,
       m_animationTimerCallback = new_AnimationTimerCallback,
       m_animationEventDispatcher = new_AnimationEventDispatcher env,
       m_animation = transition, m_waitingForEndEvent = False \<rparr>"

definition new_ImplicitAnimation ::
  "'s Env \<Rightarrow> 's Animation \<Rightarrow> int \<Rightarrow> 's RenderObject \<Rightarrow> 's ImplicitAnimation" where
  "new_ImplicitAnimation env transition animatingProperty renderer =
     AnimationBase.extend (new_AnimationBase env transition renderer)
       (ImplicitAnimation.fields (property transition) animatingProperty False None None)"

definition new_KeyframeAnimation ::
  "'s Env \<Rightarrow> 's Animation \<Rightarrow> 's RenderObject \<Rightarrow> int \<Rightarrow> 's KeyframeAnimation" where
  "new_KeyframeAnimation env animation renderer index =
     AnimationBase.extend (new_AnimationBase env animation renderer)
       (KeyframeAnimation.fields (keyframeList animation) (name animation) index)"

definition cancelTimers :: "('s, 'm) AnimationBase_scheme \<Rightarrow> ('s, 'm) AnimationBase_scheme" where
  "cancelTimers a =
     a\<lparr>m_animationTimerCallback := (m_animationTimerCallback a)\<lparr>tc_active := False\<rparr>,
       m_animationEventDispatcher := (m_animationEventDispatcher a)\<lparr>ed_active := False\<rparr>\<rparr>"

definition waitingToStart :: "('s, 'm) AnimationBase_scheme \<Rightarrow> bool" where
  "waitingToStart a \<longleftrightarrow> m_animState a = STATE_NEW \<or> m_animState a = STATE_START_WAIT_TIMER"

definition preactive :: "('s, 'm) AnimationBase_scheme \<Rightarrow> bool" where
  "preactive a \<longleftrightarrow>
     m_animState a = STATE_NEW \<or>
     m_animState a = STATE_START_WAIT_TIMER \<or>
     m_animState a = STATE_START_WAIT_STYLE_AVAILABLE \<or>
     m_animState a = STATE_START_WAIT_RESPONSE"

definition postactive :: "('s, 'm) AnimationBase_scheme \<Rightarrow> bool" where
  "postactive a \<longleftrightarrow> m_animState a = STATE_DONE"

definition active :: "('s, 'm) AnimationBase_scheme \<Rightarrow> bool" where
  "active a \<longleftrightarrow> \<not> postactive a \<and> \<not> preactive a"

definition isnew :: "('s, 'm) AnimationBase_scheme \<Rightarrow> bool" where
  "isnew a \<longleftrightarrow> m_animState a = STATE_NEW"

definition running :: "('s, 'm) AnimationBase_scheme \<Rightarrow> bool" where
  "running a \<longleftrightarrow> \<not> isnew a \<and> \<not> postactive a"

definition paused :: "('s, 'm) AnimationBase_scheme \<Rightarrow> bool" where
  "paused a \<longleftrightarrow> m_pauseTime a \<ge> 0"

definition waitingForStartTime :: "('s, 'm) AnimationBase_scheme \<Rightarrow> bool" where
  "waitingForStartTime a \<longleftrightarrow> m_animState a = STATE_START_WAIT_RESPONSE"


definition waitingForEndEvent :: "('s, 'm) AnimationBase_scheme \<Rightarrow> bool" where
  "waitingForEndEvent a \<longleftrightarrow> m_waitingForEndEvent a"

definition setAnimating :: "bool \<Rightarrow> ('s, 'm) AnimationBase_scheme \<Rightarrow> ('s, 'm) AnimationBase_scheme" where
  "setAnimating inAnimating a = a\<lparr>m_animating := inAnimating\<rparr>"

definition animating :: "('s, 'm) AnimationBase_scheme \<Rightarrow> bool" where
  "animating a \<longleftrightarrow> m_animating a"

definition playStatePlaying :: "('s, 'm) AnimationBase_scheme \<Rightarrow> bool" where
  "playStatePlaying a \<longleftrightarrow> playState (m_animation a) = AnimPlayStatePlaying"

definition elementForEventDispatch :: "('s, 'm) AnimationBase_scheme \<Rightarrow> bool" where
  "elementForEventDispatch a \<longleftrightarrow> isElementNode (m_object a)"

text \<open>
  \<^verbatim>\<open>m_object->document()->hasListenerType(t)\<close>. Animations exist only for renderers with
  a document (\<^verbatim>\<open>updateAnimations\<close> returns before it creates one otherwise); without a
  document nothing is sent.
\<close>

definition shouldSendEventForListener :: "ListenerType \<Rightarrow> ('s, 'm) AnimationBase_scheme \<Rightarrow> bool" where
  "shouldSendEventForListener inListenerType a =
     (case document (m_object a) of
        None \<Rightarrow> False
      | Some d \<Rightarrow> hasListenerType d inListenerType)"

subsection \<open>AnimationBase::progress\<close>

definition progress ::
  "'s Env \<Rightarrow> real \<Rightarrow> real \<Rightarrow> real \<Rightarrow> ('s, 'm) AnimationBase_scheme \<Rightarrow> real" where
  "progress env now scale offset a =
     (if preactive a then 0
      else
        let elapsedTime =
              (if running a then now - m_startTime a else m_pauseTime a - m_startTime a)
        in if running a \<and> elapsedTime < 0 then 0
           else
             let dur = duration (m_animation a);
                 dur = (if iterationCount (m_animation a) > 0
                        then dur * of_int (iterationCount (m_animation a)) else dur)
             in if postactive a \<or> duration (m_animation a) = 0 \<or>
                   (iterationCount (m_animation a) > 0 \<and> elapsedTime \<ge> dur)
                then 1
                else
                  let fractionalTime = elapsedTime / duration (m_animation a);
                      integralTime = double_to_int fractionalTime;
                      fractionalTime = fractionalTime - of_int integralTime;
                      fractionalTime =
                        (if direction (m_animation a) \<and> integralTime AND 1 \<noteq> 0
                         then 1 - fractionalTime else fractionalTime);
                      fractionalTime =
                        (if scale \<noteq> 1 \<or> offset \<noteq> 0
                         then (fractionalTime - offset) * scale else fractionalTime)
                  in case timingFunction (m_animation a) of
                       LinearTimingFunction \<Rightarrow> fractionalTime
                     | CubicBezierTimingFunction x1 y1 x2 y2 \<Rightarrow>
                         solveCubicBezierFunction env x1 y1 x2 y2 fractionalTime
                           (duration (m_animation a)))"

subsection \<open>AnimationBase::primeEventTimers\<close>

definition primeEventTimers ::
  "real \<Rightarrow> ('s, 'm) AnimationBase_scheme \<Rightarrow> ('s, 'm) AnimationBase_scheme" where
  "primeEventTimers now a =
     (let ct = now;
          elapsedDuration = ct - m_startTime a;
          totalDuration =
            (if iterationCount (m_animation a) > 0
             then duration (m_animation a) * of_int (iterationCount (m_animation a))
             else - 1);
          durationLeft =
            (if totalDuration < 0 \<or> elapsedDuration < totalDuration
             then duration (m_animation a) - fmod elapsedDuration (duration (m_animation a))
             else 0);
          nextIterationTime =
            (if totalDuration < 0 \<or> elapsedDuration < totalDuration
             then elapsedDuration + durationLeft
             else totalDuration)
      in if totalDuration < 0 \<or> nextIterationTime < totalDuration
         then a\<lparr>m_animState := STATE_LOOPING,
                m_animationTimerCallback :=
                  startTimer_callback durationLeft webkitAnimationIterationEvent nextIterationTime
                    (m_animationTimerCallback a)\<rparr>
         else a\<lparr>m_animState := STATE_ENDING,
                m_animationTimerCallback :=
                  startTimer_callback durationLeft webkitAnimationEndEvent nextIterationTime
                    (m_animationTimerCallback a)\<rparr>)"


subsection \<open>AnimationBase::updateStateMachine\<close>

text \<open>
  The virtual member functions of \<^verbatim>\<open>AnimationBase\<close>. A call of one of them goes through
  this table; \<open>ImplicitAnimation_vtable\<close> and \<open>KeyframeAnimation_vtable\<close> below are the
  tables of the two subclasses. The \<^verbatim>\<open>CompositeAnimation\<close> is the one \<^verbatim>\<open>m_compAnim\<close> points to.
\<close>

record ('a, 's) vtable =
  v_overridden :: "'a \<Rightarrow> bool"
  v_startAnimation :: "real \<Rightarrow> 'a \<Rightarrow> bool"
  v_endAnimation :: "bool \<Rightarrow> 'a \<Rightarrow> 's CompositeAnimation \<Rightarrow> 's CompositeAnimation"
  v_overrideAnimations :: "real \<Rightarrow> 'a \<Rightarrow> 's CompositeAnimation \<Rightarrow> 's CompositeAnimation"
  v_resumeOverriddenAnimations :: "real \<Rightarrow> 'a \<Rightarrow> 's CompositeAnimation \<Rightarrow> 's CompositeAnimation"
  v_onAnimationStart :: "real \<Rightarrow> 'a \<times> 's CompositeAnimation \<Rightarrow> 'a \<times> 's CompositeAnimation"
  v_onAnimationIteration :: "real \<Rightarrow> 'a \<times> 's CompositeAnimation \<Rightarrow> 'a \<times> 's CompositeAnimation"
  v_onAnimationEnd :: "real \<Rightarrow> 'a \<times> 's CompositeAnimation \<Rightarrow> 'a \<times> 's CompositeAnimation"

text \<open>
  \<open>updateStateMachine vt input param now (a, c)\<close>: the animation \<open>a\<close> takes \<open>input\<close>
  at time \<open>now\<close>; \<open>c\<close> is its \<^verbatim>\<open>CompositeAnimation\<close>. The recursive calls are those of the
  C++ function.
\<close>

function updateStateMachine ::
  "(('s, 'm) AnimationBase_scheme, 's) vtable \<Rightarrow> AnimStateInput \<Rightarrow> real \<Rightarrow> real \<Rightarrow>
   ('s, 'm) AnimationBase_scheme \<times> 's CompositeAnimation \<Rightarrow>
   ('s, 'm) AnimationBase_scheme \<times> 's CompositeAnimation" where
  "updateStateMachine vt input param now (a, c) =
    (if input = STATE_INPUT_MAKE_NEW then
       let c = (if m_animState a = STATE_START_WAIT_STYLE_AVAILABLE
                then setWaitingForStyleAvailable False c else c);
           a = a\<lparr>m_animState := STATE_NEW, m_startTime := 0, m_pauseTime := - 1,
                 m_waitedForResponse := False\<rparr>
       in (a, v_endAnimation vt False a c)
     else if input = STATE_INPUT_RESTART_ANIMATION then
       let a = cancelTimers a;
           c = (if m_animState a = STATE_START_WAIT_STYLE_AVAILABLE
                then setWaitingForStyleAvailable False c else c);
           a = a\<lparr>m_animState := STATE_NEW, m_startTime := 0, m_pauseTime := - 1\<rparr>;
           c = v_endAnimation vt False a c
       in if \<not> paused a
          then updateStateMachine vt STATE_INPUT_START_ANIMATION (- 1) now (a, c)
          else (a, c)
     else if input = STATE_INPUT_END_ANIMATION then
       let a = cancelTimers a;
           c = (if m_animState a = STATE_START_WAIT_STYLE_AVAILABLE
                then setWaitingForStyleAvailable False c else c);
           a = a\<lparr>m_animState := STATE_DONE\<rparr>
       in (a, v_endAnimation vt True a c)
     else if input = STATE_INPUT_PAUSE_OVERRIDE then
       (if m_animState a = STATE_START_WAIT_RESPONSE
        then updateStateMachine vt STATE_INPUT_START_TIME_SET now now
               (a, v_endAnimation vt False a c)
        else (a, c))
     else if input = STATE_INPUT_RESUME_OVERRIDE then
       (if m_animState a = STATE_LOOPING \<or> m_animState a = STATE_ENDING
        then let started = v_startAnimation vt (m_startTime a) a in (a, c)
        else (a, c))
     else
       case m_animState a of
         STATE_NEW \<Rightarrow>
           if input = STATE_INPUT_START_ANIMATION \<or> input = STATE_INPUT_PLAY_STATE_RUNNING
           then (a\<lparr>m_waitedForResponse := False,
                   m_animState := STATE_START_WAIT_TIMER,
                   m_animationTimerCallback :=
                     startTimer_callback (delay (m_animation a)) webkitAnimationStartEvent
                       (delay (m_animation a)) (m_animationTimerCallback a)\<rparr>, c)
           else (a, c)
       | STATE_START_WAIT_TIMER \<Rightarrow>
           if input = STATE_INPUT_START_TIMER_FIRED
           then (a\<lparr>m_animState := STATE_START_WAIT_STYLE_AVAILABLE\<rparr>,
                 startUpdateRenderingDispatcher
                   (setChanged (setWaitingForStyleAvailable True c)))
           else (cancelTimers (a\<lparr>m_pauseTime := now\<rparr>)\<lparr>m_animState := STATE_PAUSED_WAIT_TIMER\<rparr>, c)
       | STATE_START_WAIT_STYLE_AVAILABLE \<Rightarrow>
           let c = setWaitingForStyleAvailable False c
           in if input = STATE_INPUT_STYLE_AVAILABLE
              then
                let a = a\<lparr>m_animState := STATE_START_WAIT_RESPONSE\<rparr>;
                    c = v_overrideAnimations vt now a c;
                    (a, c) = v_onAnimationStart vt 0 (a, c)
                in if v_overridden vt a \<or> \<not> v_startAnimation vt 0 a
                   then updateStateMachine vt STATE_INPUT_START_TIME_SET now now
                          (a\<lparr>m_animState := STATE_START_WAIT_RESPONSE\<rparr>, c)
                   else (a\<lparr>m_waitedForResponse := True\<rparr>, c)
              else (a\<lparr>m_pauseTime := 0, m_animState := STATE_START_WAIT_RESPONSE\<rparr>, c)
       | STATE_START_WAIT_RESPONSE \<Rightarrow>
           if input = STATE_INPUT_START_TIME_SET
           then
             let a = (if m_startTime a \<le> 0 then a\<lparr>m_startTime := param\<rparr> else a);
                 a = primeEventTimers now a
             in (a, startUpdateRenderingDispatcher (setChanged c))
           else (a\<lparr>m_pauseTime := 0, m_animState := STATE_PAUSED_WAIT_RESPONSE\<rparr>,
                 v_endAnimation vt False (a\<lparr>m_pauseTime := 0\<rparr>) c)
       | STATE_LOOPING \<Rightarrow>
           if input = STATE_INPUT_LOOP_TIMER_FIRED
           then
             let (a, c) = v_onAnimationIteration vt param (a, c)
             in (primeEventTimers now a, c)
           else
             let a = cancelTimers (a\<lparr>m_pauseTime := now\<rparr>)
             in (a\<lparr>m_animState := STATE_PAUSED_RUN\<rparr>, v_endAnimation vt False a c)
       | STATE_ENDING \<Rightarrow>
           if input = STATE_INPUT_END_TIMER_FIRED
           then
             let (a, c) = v_onAnimationEnd vt param (a, c);
                 c = v_resumeOverriddenAnimations vt now a c;
                 c = setChanged c
             in (a\<lparr>m_animState := STATE_DONE\<rparr>, startUpdateRenderingDispatcher c)
           else
             let a = cancelTimers (a\<lparr>m_pauseTime := now\<rparr>)
             in (a\<lparr>m_animState := STATE_PAUSED_RUN\<rparr>, v_endAnimation vt False a c)
       | STATE_PAUSED_WAIT_TIMER \<Rightarrow>
           updateStateMachine vt STATE_INPUT_START_ANIMATION 0 now
             (a\<lparr>m_startTime := m_startTime a + (now - m_pauseTime a), m_pauseTime := - 1,
                m_animState := STATE_NEW\<rparr>, c)
       | STATE_PAUSED_WAIT_RESPONSE \<Rightarrow>
           let a = a\<lparr>m_startTime := 0, m_pauseTime := - 1,
                     m_animState := STATE_START_WAIT_RESPONSE\<rparr>
           in if v_overridden vt a \<or> \<not> v_startAnimation vt (m_startTime a) a
              then updateStateMachine vt STATE_INPUT_START_TIME_SET now now (a, c)
              else (a\<lparr>m_waitedForResponse := True\<rparr>, c)
       | STATE_PAUSED_RUN \<Rightarrow>
           let a = a\<lparr>m_startTime := m_startTime a + (now - m_pauseTime a), m_pauseTime := - 1,
                     m_animState := STATE_START_WAIT_RESPONSE\<rparr>
           in if v_overridden vt a \<or> \<not> v_startAnimation vt (m_startTime a) a
              then updateStateMachine vt STATE_INPUT_START_TIME_SET now now (a, c)
              else (a\<lparr>m_waitedForResponse := True\<rparr>, c)
       | STATE_DONE \<Rightarrow> (a, c))"
  by pat_completeness auto
termination
  by (relation "measure (\<lambda>(vt, input, param, now, (a, c)).
        if (input = STATE_INPUT_START_ANIMATION \<and> m_animState a = STATE_NEW) \<or>
           (input = STATE_INPUT_START_TIME_SET \<and> m_animState a = STATE_START_WAIT_RESPONSE)
        then 0 else 1)")
     (auto simp: cancelTimers_def)

declare updateStateMachine.simps [simp del]


definition updatePlayState ::
  "(('s, 'm) AnimationBase_scheme, 's) vtable \<Rightarrow> real \<Rightarrow> bool \<Rightarrow>
   ('s, 'm) AnimationBase_scheme \<times> 's CompositeAnimation \<Rightarrow>
   ('s, 'm) AnimationBase_scheme \<times> 's CompositeAnimation" where
  "updatePlayState vt now run ac =
     (if paused (fst ac) = run \<or> isnew (fst ac)
      then updateStateMachine vt
             (if run then STATE_INPUT_PLAY_STATE_RUNNING else STATE_INPUT_PLAY_STATE_PAUSED)
             (- 1) now ac
      else ac)"

text \<open>
  \<^verbatim>\<open>AnimationBase::isAnimatingProperty\<close>; the virtual \<^verbatim>\<open>affectsProperty\<close> is the first
  argument.
\<close>

definition isAnimatingProperty ::
  "(('s, 'm) AnimationBase_scheme \<Rightarrow> int \<Rightarrow> bool) \<Rightarrow> ('s, 'm) AnimationBase_scheme \<Rightarrow> int \<Rightarrow> bool
     \<Rightarrow> bool" where
  "isAnimatingProperty affectsProperty a prop isRunningNow =
     (if isRunningNow
      then (\<not> waitingToStart a \<and> \<not> postactive a) \<and> affectsProperty a prop
      else \<not> postactive a \<and> affectsProperty a prop)"

subsection \<open>The property wrappers\<close>

text \<open>
  A result \<open>None\<close> of a function below says that the C++ code dereferences a null pointer
  or leaves the bounds of an array there, so that its behaviour is undefined.

  \<^verbatim>\<open>gPropertyWrappers\<close> is the list \<open>registeredWrappers\<close>, in registration order.
  \<^verbatim>\<open>ensurePropertyMap\<close> fills the array \<^verbatim>\<open>gPropertyWrapperMap\<close> of \<open>numCSSProperties\<close>
  slots; the result is that array. \<open>registerWrapper env i\<close> is the body of its second loop:
  the slot of the \<open>i\<close>-th wrapper gets the value \<open>i\<close>.
\<close>

definition registerWrapper :: "'s Env \<Rightarrow> nat \<Rightarrow> int list option \<Rightarrow> int list option" where
  "registerWrapper env i m =
     (case m of
        None \<Rightarrow> None
      | Some arr \<Rightarrow>
          let slot = m_prop (registeredWrappers env ! i) - firstCSSProperty env
          in if 0 \<le> slot \<and> slot < numCSSProperties env
             then Some (arr[nat slot := int i])
             else None)"

definition ensurePropertyMap :: "'s Env \<Rightarrow> int list option" where
  "ensurePropertyMap env =
     fold (registerWrapper env) [0 ..< length (registeredWrappers env)]
       (Some (replicate (nat (numCSSProperties env)) (CSSPropertyInvalid env)))"

definition getNumProperties :: "'s Env \<Rightarrow> int" where
  "getNumProperties env = int (length (registeredWrappers env))"

definition getPropertyAtIndex :: "'s Env \<Rightarrow> int \<Rightarrow> int" where
  "getPropertyAtIndex env i =
     (if i < 0 \<or> i \<ge> int (length (registeredWrappers env)) then CSSPropertyInvalid env
      else m_prop (registeredWrappers env ! nat i))"

text \<open>\<^verbatim>\<open>(*gPropertyWrappers)[i]\<close> for an \<^verbatim>\<open>int\<close> \<open>i\<close> that the caller has found non-negative.\<close>

definition wrapperAt :: "'s Env \<Rightarrow> int \<Rightarrow> 's PropertyWrapperBase option" where
  "wrapperAt env i =
     (if 0 \<le> i \<and> i < int (length (registeredWrappers env))
      then Some (registeredWrappers env ! nat i) else None)"

text \<open>\<^verbatim>\<open>gPropertyWrapperMap[propIndex]\<close>.\<close>

definition gPropertyWrapperMap :: "'s Env \<Rightarrow> int \<Rightarrow> int option" where
  "gPropertyWrapperMap env propIndex =
     (case ensurePropertyMap env of
        None \<Rightarrow> None
      | Some arr \<Rightarrow>
          if 0 \<le> propIndex \<and> propIndex < int (length arr) then Some (arr ! nat propIndex)
          else None)"

text \<open>\<^verbatim>\<open>wrapper->equals(a, b)\<close> for two style pointers, each of which may be null.\<close>

definition wrapper_equals :: "'s PropertyWrapperBase \<Rightarrow> 's option \<Rightarrow> 's option \<Rightarrow> bool option" where
  "wrapper_equals w a b =
     (case a of
        None \<Rightarrow> None
      | Some a' \<Rightarrow> (case b of None \<Rightarrow> None | Some b' \<Rightarrow> Some (equals w a' b')))"

definition wrapper_blend ::
  "'s PropertyWrapperBase \<Rightarrow> 's \<Rightarrow> 's option \<Rightarrow> 's option \<Rightarrow> real \<Rightarrow> 's option" where
  "wrapper_blend w dst a b prog =
     (case a of
        None \<Rightarrow> None
      | Some a' \<Rightarrow> (case b of None \<Rightarrow> None | Some b' \<Rightarrow> Some (blend w dst a' b' prog)))"

fun allWrappersEqual :: "'s PropertyWrapperBase list \<Rightarrow> 's option \<Rightarrow> 's option \<Rightarrow> bool option" where
  "allWrappersEqual [] a b = Some True"
| "allWrappersEqual (w # ws) a b =
     (case wrapper_equals w a b of
        None \<Rightarrow> None
      | Some False \<Rightarrow> Some False
      | Some True \<Rightarrow> allWrappersEqual ws a b)"

definition propertiesEqual :: "'s Env \<Rightarrow> int \<Rightarrow> 's option \<Rightarrow> 's option \<Rightarrow> bool option" where
  "propertiesEqual env prop a b =
     (if prop = cAnimateAll env then allWrappersEqual (registeredWrappers env) a b
      else
        let propIndex = prop - firstCSSProperty env
        in if propIndex \<ge> 0 \<and> propIndex < numCSSProperties env
           then (case gPropertyWrapperMap env propIndex of
                   None \<Rightarrow> None
                 | Some i \<Rightarrow>
                     if i \<ge> 0
                     then (case wrapperAt env i of
                             None \<Rightarrow> None
                           | Some w \<Rightarrow> wrapper_equals w a b)
                     else Some True)
           else Some True)"

text \<open>
  The loop of \<^verbatim>\<open>blendProperties\<close> for \<^verbatim>\<open>cAnimateAll\<close>; the state is \<^verbatim>\<open>needsTimer\<close> and
  the destination style.
\<close>

fun blendAllWrappers ::
  "'s PropertyWrapperBase list \<Rightarrow> 's option \<Rightarrow> 's option \<Rightarrow> real \<Rightarrow> bool \<times> 's \<Rightarrow> (bool \<times> 's) option" where
  "blendAllWrappers [] a b prog st = Some st"
| "blendAllWrappers (w # ws) a b prog (needsTimer, dst) =
     (case wrapper_equals w a b of
        None \<Rightarrow> None
      | Some True \<Rightarrow> blendAllWrappers ws a b prog (needsTimer, dst)
      | Some False \<Rightarrow>
          (case wrapper_blend w dst a b prog of
             None \<Rightarrow> None
           | Some dst' \<Rightarrow> blendAllWrappers ws a b prog (True, dst')))"

text \<open>
  \<open>blendProperties env prop dst a b prog\<close>: the result of the C++ function and the style
  \<open>dst\<close> points to afterwards.
\<close>

definition blendProperties ::
  "'s Env \<Rightarrow> int \<Rightarrow> 's \<Rightarrow> 's option \<Rightarrow> 's option \<Rightarrow> real \<Rightarrow> (bool \<times> 's) option" where
  "blendProperties env prop dst a b prog =
     (if prop = cAnimateAll env
      then blendAllWrappers (registeredWrappers env) a b prog (False, dst)
      else
        let propIndex = prop - firstCSSProperty env
        in if propIndex \<ge> 0 \<and> propIndex < numCSSProperties env
           then (case gPropertyWrapperMap env propIndex of
                   None \<Rightarrow> None
                 | Some i \<Rightarrow>
                     if i \<ge> 0
                     then (case wrapperAt env i of
                             None \<Rightarrow> None
                           | Some w \<Rightarrow>
                               (case wrapper_blend w dst a b prog of
                                  None \<Rightarrow> None
                                | Some dst' \<Rightarrow> Some (True, dst')))
                     else Some (False, dst))
           else Some (False, dst))"

subsection \<open>ImplicitAnimation\<close>

definition sendTransitionEvent ::
  "'s Env \<Rightarrow> EventName \<Rightarrow> real \<Rightarrow> 's ImplicitAnimation \<Rightarrow> bool \<times> 's ImplicitAnimation" where
  "sendTransitionEvent env inEventType inElapsedTime a =
     (if inEventType = webkitTransitionEndEvent \<and>
         shouldSendEventForListener TRANSITIONEND_LISTENER a \<and>
         elementForEventDispatch a
      then
        let propertyName =
              (if m_transitionProperty a \<noteq> cAnimateAll env
               then getPropertyName env (m_transitionProperty a) else [])
        in (True,
            a\<lparr>m_waitingForEndEvent := True,
              m_animationEventDispatcher :=
                startTimer_dispatcher True propertyName (m_transitionProperty a) True
                  inEventType inElapsedTime (m_animationEventDispatcher a)\<rparr>)
      else (False, a))"

text \<open>
  \<^verbatim>\<open>ImplicitAnimation\<close> overrides \<^verbatim>\<open>onAnimationEnd\<close> and \<^verbatim>\<open>overridden\<close>; the other entries
  are the empty bodies of \<^verbatim>\<open>AnimationBase\<close>.
\<close>

definition AnimationBase_endAnimation ::
  "bool \<Rightarrow> ('s, 'm) AnimationBase_scheme \<Rightarrow> 's CompositeAnimation \<Rightarrow> 's CompositeAnimation" where
  "AnimationBase_endAnimation reset a c = c"

definition ImplicitAnimation_onAnimationEnd ::
  "'s Env \<Rightarrow> real \<Rightarrow> 's ImplicitAnimation \<times> 's CompositeAnimation \<Rightarrow>
   's ImplicitAnimation \<times> 's CompositeAnimation" where
  "ImplicitAnimation_onAnimationEnd env inElapsedTime ac =
     (case sendTransitionEvent env webkitTransitionEndEvent inElapsedTime (fst ac) of
        (sent, a) \<Rightarrow>
          if \<not> sent then (a, AnimationBase_endAnimation True a (snd ac))
          else (a, snd ac))"

definition ImplicitAnimation_vtable :: "'s Env \<Rightarrow> ('s ImplicitAnimation, 's) vtable" where
  "ImplicitAnimation_vtable env =
     \<lparr> v_overridden = m_overridden,
       v_startAnimation = (\<lambda>beginTime a. False),
       v_endAnimation = AnimationBase_endAnimation,
       v_overrideAnimations = (\<lambda>now a c. c),
       v_resumeOverriddenAnimations = (\<lambda>now a c. c),
       v_onAnimationStart = (\<lambda>elapsedTime ac. ac),
       v_onAnimationIteration = (\<lambda>elapsedTime ac. ac),
       v_onAnimationEnd = ImplicitAnimation_onAnimationEnd env \<rparr>"

definition ImplicitAnimation_affectsProperty :: "'s ImplicitAnimation \<Rightarrow> int \<Rightarrow> bool" where
  "ImplicitAnimation_affectsProperty a prop \<longleftrightarrow> m_animatingProperty a = prop"

definition hasStyle :: "'s ImplicitAnimation \<Rightarrow> bool" where
  "hasStyle a \<longleftrightarrow> m_fromStyle a \<noteq> None \<and> m_toStyle a \<noteq> None"

text \<open>
  \<^verbatim>\<open>reset(renderer, from, to)\<close>. The reference counts of the styles are not part of the
  model: \<open>m_fromStyle\<close> and \<open>m_toStyle\<close> hold the value of the style they point to.
\<close>

definition ImplicitAnimation_reset ::
  "'s Env \<Rightarrow> real \<Rightarrow> 's option \<Rightarrow> 's option \<Rightarrow>
   's ImplicitAnimation \<times> 's CompositeAnimation \<Rightarrow> 's ImplicitAnimation \<times> 's CompositeAnimation" where
  "ImplicitAnimation_reset env now from to ac =
     (let a = (fst ac)\<lparr>m_fromStyle := from, m_toStyle := to\<rparr>
      in if from \<noteq> None \<and> to \<noteq> None
         then updateStateMachine (ImplicitAnimation_vtable env) STATE_INPUT_RESTART_ANIMATION
                (- 1) now (a, snd ac)
         else (a, snd ac))"

definition setOverridden ::
  "'s Env \<Rightarrow> real \<Rightarrow> bool \<Rightarrow> 's ImplicitAnimation \<times> 's CompositeAnimation \<Rightarrow>
   's ImplicitAnimation \<times> 's CompositeAnimation" where
  "setOverridden env now b ac =
     (if b \<noteq> m_overridden (fst ac)
      then updateStateMachine (ImplicitAnimation_vtable env)
             (if b then STATE_INPUT_PAUSE_OVERRIDE else STATE_INPUT_RESUME_OVERRIDE)
             (- 1) now ((fst ac)\<lparr>m_overridden := b\<rparr>, snd ac)
      else ac)"

definition isTargetPropertyEqual :: "'s Env \<Rightarrow> int \<Rightarrow> 's \<Rightarrow> 's ImplicitAnimation \<Rightarrow> bool option" where
  "isTargetPropertyEqual env prop targetStyle a =
     propertiesEqual env prop (m_toStyle a) (Some targetStyle)"

text \<open>
  The destructor \<^verbatim>\<open>~ImplicitAnimation\<close>, followed by \<^verbatim>\<open>~AnimationBase\<close>; the result is what
  is left of the \<^verbatim>\<open>CompositeAnimation\<close>.
\<close>

definition delete_ImplicitAnimation ::
  "'s Env \<Rightarrow> real \<Rightarrow> 's ImplicitAnimation \<times> 's CompositeAnimation \<Rightarrow> 's CompositeAnimation" where
  "delete_ImplicitAnimation env now ac =
     (let (a, c) = (if \<not> postactive (fst ac)
                    then updateStateMachine (ImplicitAnimation_vtable env)
                           STATE_INPUT_END_ANIMATION (- 1) now ac
                    else ac)
      in if m_animState a = STATE_START_WAIT_STYLE_AVAILABLE
         then setWaitingForStyleAvailable False c else c)"

text \<open>
  The pointer \<^verbatim>\<open>animatedStyle\<close> that \<^verbatim>\<open>animate\<close> takes by reference is null, or the pointer
  \<^verbatim>\<open>targetStyle\<close> itself, or a style allocated by \<^verbatim>\<open>animate\<close>. A write through it changes the
  target style in the second case; so the functions below take and return the target style
  together with the pointer.
\<close>

datatype 's StylePtr = NullStyle | TargetStyle | NewStyle 's

text \<open>\<^verbatim>\<open>if (!animatedStyle) animatedStyle = new RenderStyle(*targetStyle)\<close>.\<close>

definition allocateAnimatedStyle :: "'s \<times> 's StylePtr \<Rightarrow> 's \<times> 's StylePtr" where
  "allocateAnimatedStyle st =
     (case snd st of NullStyle \<Rightarrow> (fst st, NewStyle (fst st)) | _ \<Rightarrow> st)"

text \<open>\<^verbatim>\<open>blendProperties(prop, animatedStyle, a, b, prog)\<close>.\<close>

definition blendPropertiesInto ::
  "'s Env \<Rightarrow> int \<Rightarrow> 's option \<Rightarrow> 's option \<Rightarrow> real \<Rightarrow> 's \<times> 's StylePtr \<Rightarrow>
   (bool \<times> 's \<times> 's StylePtr) option" where
  "blendPropertiesInto env prop a b prog st =
     (case snd st of
        NullStyle \<Rightarrow> None
      | TargetStyle \<Rightarrow>
          (case blendProperties env prop (fst st) a b prog of
             None \<Rightarrow> None
           | Some (r, dst) \<Rightarrow> Some (r, dst, TargetStyle))
      | NewStyle d \<Rightarrow>
          (case blendProperties env prop d a b prog of
             None \<Rightarrow> None
           | Some (r, dst) \<Rightarrow> Some (r, fst st, NewStyle dst)))"

definition ImplicitAnimation_animate ::
  "'s Env \<Rightarrow> real \<Rightarrow> 's \<Rightarrow> 's ImplicitAnimation \<times> 's CompositeAnimation \<times> 's \<times> 's StylePtr \<Rightarrow>
   ('s ImplicitAnimation \<times> 's CompositeAnimation \<times> 's \<times> 's StylePtr) option" where
  "ImplicitAnimation_animate env now currentStyle acs =
     (case acs of (a, c, st) \<Rightarrow>
        if paused a then Some (a, c, st)
        else if postactive a then Some (a, c, st)
        else
          let (a, c) = (if isnew a
                        then ImplicitAnimation_reset env now (Some currentStyle) (Some (fst st)) (a, c)
                        else (a, c));
              st = allocateAnimatedStyle st;
              prog = progress env now 1 0 a
          in case blendPropertiesInto env (m_animatingProperty a) (m_fromStyle a) (m_toStyle a) prog st of
               None \<Rightarrow> None
             | Some (needsAnim, st) \<Rightarrow>
                 Some (if needsAnim then setAnimating True a else a, c, st))"

subsection \<open>KeyframeAnimation\<close>

definition sendAnimationEvent ::
  "EventName \<Rightarrow> real \<Rightarrow> 's KeyframeAnimation \<Rightarrow> bool \<times> 's KeyframeAnimation" where
  "sendAnimationEvent inEventType inElapsedTime a =
     (let listenerType =
            (if inEventType = webkitAnimationIterationEvent then ANIMATIONITERATION_LISTENER
             else if inEventType = webkitAnimationEndEvent then ANIMATIONEND_LISTENER
             else ANIMATIONSTART_LISTENER)
      in if shouldSendEventForListener listenerType a \<and> elementForEventDispatch a
         then (True,
               a\<lparr>m_waitingForEndEvent := True,
                 m_animationEventDispatcher :=
                   startTimer_dispatcher True (m_name a) (- 1) True inEventType inElapsedTime
                     (m_animationEventDispatcher a)\<rparr>)
         else (False, a))"

definition KeyframeAnimation_endAnimation ::
  "bool \<Rightarrow> 's KeyframeAnimation \<Rightarrow> 's CompositeAnimation \<Rightarrow> 's CompositeAnimation" where
  "KeyframeAnimation_endAnimation reset a c = setChanged c"

definition KeyframeAnimation_onAnimationStart ::
  "real \<Rightarrow> 's KeyframeAnimation \<times> 's CompositeAnimation \<Rightarrow>
   's KeyframeAnimation \<times> 's CompositeAnimation" where
  "KeyframeAnimation_onAnimationStart inElapsedTime ac =
     (snd (sendAnimationEvent webkitAnimationStartEvent inElapsedTime (fst ac)), snd ac)"

definition KeyframeAnimation_onAnimationIteration ::
  "real \<Rightarrow> 's KeyframeAnimation \<times> 's CompositeAnimation \<Rightarrow>
   's KeyframeAnimation \<times> 's CompositeAnimation" where
  "KeyframeAnimation_onAnimationIteration inElapsedTime ac =
     (snd (sendAnimationEvent webkitAnimationIterationEvent inElapsedTime (fst ac)), snd ac)"

definition KeyframeAnimation_onAnimationEnd ::
  "real \<Rightarrow> 's KeyframeAnimation \<times> 's CompositeAnimation \<Rightarrow>
   's KeyframeAnimation \<times> 's CompositeAnimation" where
  "KeyframeAnimation_onAnimationEnd inElapsedTime ac =
     (case sendAnimationEvent webkitAnimationEndEvent inElapsedTime (fst ac) of
        (sent, a) \<Rightarrow>
          if \<not> sent then (a, KeyframeAnimation_endAnimation True a (snd ac))
          else (a, snd ac))"

text \<open>
  \<^verbatim>\<open>CompositeAnimation::overrideImplicitAnimations\<close> and
  \<^verbatim>\<open>resumeOverriddenImplicitAnimations\<close>: every transition of the map, in iteration order.
  \<open>forTransition key f c\<close> applies \<open>f\<close> to the transition stored under \<open>key\<close>.
\<close>

definition forTransition ::
  "int \<Rightarrow> ('s ImplicitAnimation \<times> 's CompositeAnimation \<Rightarrow> 's ImplicitAnimation \<times> 's CompositeAnimation)
     \<Rightarrow> 's CompositeAnimation \<Rightarrow> 's CompositeAnimation" where
  "forTransition key f c =
     (case map_of (m_transitions c) key of
        None \<Rightarrow> c
      | Some anim \<Rightarrow>
          (case f (anim, c) of
             (anim', c') \<Rightarrow> c'\<lparr>m_transitions := AList.update key anim' (m_transitions c')\<rparr>))"

definition forKeyframeAnimation ::
  "string \<Rightarrow> ('s KeyframeAnimation \<times> 's CompositeAnimation \<Rightarrow> 's KeyframeAnimation \<times> 's CompositeAnimation)
     \<Rightarrow> 's CompositeAnimation \<Rightarrow> 's CompositeAnimation" where
  "forKeyframeAnimation key f c =
     (case map_of (m_keyframeAnimations c) key of
        None \<Rightarrow> c
      | Some anim \<Rightarrow>
          (case f (anim, c) of
             (anim', c') \<Rightarrow>
               c'\<lparr>m_keyframeAnimations := AList.update key anim' (m_keyframeAnimations c')\<rparr>))"

definition overrideImplicitAnimations ::
  "'s Env \<Rightarrow> real \<Rightarrow> int \<Rightarrow> 's CompositeAnimation \<Rightarrow> 's CompositeAnimation" where
  "overrideImplicitAnimations env now prop c =
     fold (\<lambda>key. forTransition key
                   (\<lambda>ac. if m_animatingProperty (fst ac) = prop
                         then setOverridden env now True ac else ac))
       (map fst (m_transitions c)) c"

definition resumeOverriddenImplicitAnimations ::
  "'s Env \<Rightarrow> real \<Rightarrow> int \<Rightarrow> 's CompositeAnimation \<Rightarrow> 's CompositeAnimation" where
  "resumeOverriddenImplicitAnimations env now prop c =
     fold (\<lambda>key. forTransition key
                   (\<lambda>ac. if m_animatingProperty (fst ac) = prop
                         then setOverridden env now False ac else ac))
       (map fst (m_transitions c)) c"

text \<open>The properties from \<^verbatim>\<open>m_keyframes->beginProperties()\<close> on; none for a null list.\<close>

definition keyframeProperties :: "'s KeyframeAnimation \<Rightarrow> int list" where
  "keyframeProperties a = (case m_keyframes a of None \<Rightarrow> [] | Some kl \<Rightarrow> properties kl)"

definition KeyframeAnimation_overrideAnimations ::
  "'s Env \<Rightarrow> real \<Rightarrow> 's KeyframeAnimation \<Rightarrow> 's CompositeAnimation \<Rightarrow> 's CompositeAnimation" where
  "KeyframeAnimation_overrideAnimations env now a c =
     fold (overrideImplicitAnimations env now) (keyframeProperties a) c"

definition KeyframeAnimation_resumeOverriddenAnimations ::
  "'s Env \<Rightarrow> real \<Rightarrow> 's KeyframeAnimation \<Rightarrow> 's CompositeAnimation \<Rightarrow> 's CompositeAnimation" where
  "KeyframeAnimation_resumeOverriddenAnimations env now a c =
     fold (resumeOverriddenImplicitAnimations env now) (keyframeProperties a) c"

definition KeyframeAnimation_affectsProperty :: "'s KeyframeAnimation \<Rightarrow> int \<Rightarrow> bool" where
  "KeyframeAnimation_affectsProperty a prop \<longleftrightarrow> prop \<in> set (keyframeProperties a)"

definition KeyframeAnimation_vtable :: "'s Env \<Rightarrow> ('s KeyframeAnimation, 's) vtable" where
  "KeyframeAnimation_vtable env =
     \<lparr> v_overridden = (\<lambda>a. False),
       v_startAnimation = (\<lambda>beginTime a. False),
       v_endAnimation = KeyframeAnimation_endAnimation,
       v_overrideAnimations = KeyframeAnimation_overrideAnimations env,
       v_resumeOverriddenAnimations = KeyframeAnimation_resumeOverriddenAnimations env,
       v_onAnimationStart = KeyframeAnimation_onAnimationStart,
       v_onAnimationIteration = KeyframeAnimation_onAnimationIteration,
       v_onAnimationEnd = KeyframeAnimation_onAnimationEnd \<rparr>"

definition delete_KeyframeAnimation ::
  "'s Env \<Rightarrow> real \<Rightarrow> 's KeyframeAnimation \<times> 's CompositeAnimation \<Rightarrow> 's CompositeAnimation" where
  "delete_KeyframeAnimation env now ac =
     (let (a, c) = (if \<not> postactive (fst ac)
                    then updateStateMachine (KeyframeAnimation_vtable env)
                           STATE_INPUT_END_ANIMATION (- 1) now ac
                    else ac)
      in if m_animState a = STATE_START_WAIT_STYLE_AVAILABLE
         then setWaitingForStyleAvailable False c else c)"

text \<open>
  The search of \<^verbatim>\<open>KeyframeAnimation::animate\<close> for the two keyframes around \<open>t\<close>. The state
  of the loop is \<^verbatim>\<open>fromStyle\<close>, \<^verbatim>\<open>toStyle\<close>, \<^verbatim>\<open>scale\<close> and \<^verbatim>\<open>offset\<close>.
\<close>

fun findKeyframes ::
  "real \<Rightarrow> (real \<times> 's) list \<Rightarrow> 's option \<times> 's option \<times> real \<times> real \<Rightarrow>
   's option \<times> 's option \<times> real \<times> real" where
  "findKeyframes t [] st = st"
| "findKeyframes t ((key, kstyle) # rest) (fromStyle, toStyle, scale, offset) =
     (if t < key
      then (if fromStyle = None then (fromStyle, toStyle, scale, offset)
            else (fromStyle, Some kstyle, 1 / (key - offset), offset))
      else findKeyframes t rest (Some kstyle, toStyle, scale, key))"

text \<open>The loop over the properties of the keyframes at the end of \<^verbatim>\<open>animate\<close>.\<close>

fun blendKeyframeProperties ::
  "'s Env \<Rightarrow> int list \<Rightarrow> 's option \<Rightarrow> 's option \<Rightarrow> real \<Rightarrow> 's KeyframeAnimation \<times> 's \<times> 's StylePtr \<Rightarrow>
   ('s KeyframeAnimation \<times> 's \<times> 's StylePtr) option" where
  "blendKeyframeProperties env [] fromStyle toStyle prog ast = Some ast"
| "blendKeyframeProperties env (p # ps) fromStyle toStyle prog (a, st) =
     (case blendPropertiesInto env p fromStyle toStyle prog st of
        None \<Rightarrow> None
      | Some (needsAnim, st') \<Rightarrow>
          blendKeyframeProperties env ps fromStyle toStyle prog
            (if needsAnim then setAnimating True a else a, st'))"

text \<open>
  \<^verbatim>\<open>KeyframeAnimation::animate\<close>, in the order of the C++ function. Its first statement
  starts a new animation that is to play:
\<close>

definition KeyframeAnimation_startIfNew ::
  "'s Env \<Rightarrow> real \<Rightarrow> 's KeyframeAnimation \<times> 's CompositeAnimation \<Rightarrow>
   's KeyframeAnimation \<times> 's CompositeAnimation" where
  "KeyframeAnimation_startIfNew env now ac =
     (if isnew (fst ac) \<and> playState (m_animation (fst ac)) = AnimPlayStatePlaying
      then updateStateMachine (KeyframeAnimation_vtable env) STATE_INPUT_START_ANIMATION (- 1)
             now ac
      else ac)"

text \<open>The position \<^verbatim>\<open>t\<close> in the iteration, from \<^verbatim>\<open>elapsedTime\<close> and the direction.\<close>

definition keyframeTime :: "real \<Rightarrow> 's KeyframeAnimation \<Rightarrow> real" where
  "keyframeTime now a =
     (let elapsedTime =
            (if m_startTime a > 0
             then (if \<not> paused a then now else m_pauseTime a) - m_startTime a else 0);
          elapsedTime = (if elapsedTime < 0 then 0 else elapsedTime);
          t = (if duration (m_animation a) \<noteq> 0
               then elapsedTime / duration (m_animation a) else 1);
          i = double_to_int t;
          t = t - of_int i
      in if direction (m_animation a) \<and> i AND 1 \<noteq> 0 then 1 - t else t)"

text \<open>
  \<^verbatim>\<open>fromStyle\<close>, \<^verbatim>\<open>toStyle\<close>, \<^verbatim>\<open>scale\<close> and \<^verbatim>\<open>offset\<close> after the search, which is made
  only if \<^verbatim>\<open>m_keyframes\<close> is not null.
\<close>

definition bracketingKeyframes ::
  "real \<Rightarrow> 's KeyframeAnimation \<Rightarrow> 's option \<times> 's option \<times> real \<times> real" where
  "bracketingKeyframes t a =
     (case m_keyframes a of
        None \<Rightarrow> (None, None, 1, 0)
      | Some kl \<Rightarrow> findKeyframes t (keyframes kl) (None, None, 1, 0))"

definition KeyframeAnimation_animate ::
  "'s Env \<Rightarrow> real \<Rightarrow> 's KeyframeAnimation \<times> 's CompositeAnimation \<times> 's \<times> 's StylePtr \<Rightarrow>
   ('s KeyframeAnimation \<times> 's CompositeAnimation \<times> 's \<times> 's StylePtr) option" where
  "KeyframeAnimation_animate env now acs =
     (case acs of (a0, c0, st) \<Rightarrow>
        let (a, c) = KeyframeAnimation_startIfNew env now (a0, c0)
        in if postactive a
           then Some (a, c, (case snd st of NullStyle \<Rightarrow> (fst st, TargetStyle) | _ \<Rightarrow> st))
           else if waitingToStart a \<and> delay (m_animation a) > 0 then Some (a, c, st)
           else
             let (fromStyle, toStyle, scale, offset) =
                   bracketingKeyframes (keyframeTime now a) a
             in if fromStyle = None \<or> toStyle = None
                then (case updateStateMachine (KeyframeAnimation_vtable env)
                             STATE_INPUT_END_ANIMATION (- 1) now (a, c) of
                        (a', c') \<Rightarrow> Some (a', c', st))
                else
                  let st = allocateAnimatedStyle st;
                      prog = progress env now scale offset a
                  in case blendKeyframeProperties env (keyframeProperties a) fromStyle toStyle
                            prog (a, st) of
                       None \<Rightarrow> None
                     | Some (a', st') \<Rightarrow> Some (a', c, st'))"

subsection \<open>CompositeAnimation\<close>

text \<open>
  The body of the inner loop of \<^verbatim>\<open>updateTransitions\<close> for the declaration \<open>anim\<close> and the
  property \<open>prop\<close>.
\<close>

definition updateTransitionForProperty ::
  "'s Env \<Rightarrow> real \<Rightarrow> 's RenderObject \<Rightarrow> 's \<Rightarrow> 's \<Rightarrow> 's Animation \<Rightarrow> int \<Rightarrow>
   's CompositeAnimation \<Rightarrow> 's CompositeAnimation option" where
  "updateTransitionForProperty env now renderer currentStyle targetStyle anim prop c =
     (case map_of (m_transitions c) prop of
        Some implAnim \<Rightarrow>
          (case isTargetPropertyEqual env prop targetStyle implAnim of
             None \<Rightarrow> None
           | Some True \<Rightarrow> Some c
           | Some False \<Rightarrow>
               let c = delete_ImplicitAnimation env now
                         (ImplicitAnimation_reset env now None None (implAnim, c));
                   c = c\<lparr>m_transitions := AList.delete prop (m_transitions c)\<rparr>
               in Some (c\<lparr>m_transitions :=
                            AList.update prop (new_ImplicitAnimation env anim prop renderer)
                              (m_transitions c)\<rparr>))
      | None \<Rightarrow>
          (case propertiesEqual env prop (Some currentStyle) (Some targetStyle) of
             None \<Rightarrow> None
           | Some True \<Rightarrow> Some c
           | Some False \<Rightarrow>
               Some (c\<lparr>m_transitions :=
                         AList.update prop (new_ImplicitAnimation env anim prop renderer)
                           (m_transitions c)\<rparr>)))"

text \<open>A loop whose body may fail.\<close>

fun foldOption :: "('x \<Rightarrow> 'c \<Rightarrow> 'c option) \<Rightarrow> 'x list \<Rightarrow> 'c \<Rightarrow> 'c option" where
  "foldOption f [] c = Some c"
| "foldOption f (x # xs) c = (case f x c of None \<Rightarrow> None | Some c' \<Rightarrow> foldOption f xs c')"

text \<open>The body of the outer loop of \<^verbatim>\<open>updateTransitions\<close> for the declaration \<open>anim\<close>.\<close>

definition updateTransition ::
  "'s Env \<Rightarrow> real \<Rightarrow> 's RenderObject \<Rightarrow> 's \<Rightarrow> 's \<Rightarrow> 's Animation \<Rightarrow>
   's CompositeAnimation \<Rightarrow> 's CompositeAnimation option" where
  "updateTransition env now renderer currentStyle targetStyle anim c =
     (if duration anim = 0 \<and> delay anim \<le> 0 then Some c
      else if property anim = cAnimateAll env
      then foldOption
             (\<lambda>propertyIndex.
                updateTransitionForProperty env now renderer currentStyle targetStyle anim
                  (getPropertyAtIndex env (int propertyIndex)))
             [0 ..< nat (getNumProperties env)] c
      else updateTransitionForProperty env now renderer currentStyle targetStyle anim
             (property anim) c)"

definition updateTransitions ::
  "'s Env \<Rightarrow> real \<Rightarrow> 's RenderObject \<Rightarrow> 's option \<Rightarrow> 's \<Rightarrow>
   's CompositeAnimation \<Rightarrow> 's CompositeAnimation option" where
  "updateTransitions env now renderer currentStyle targetStyle c =
     (case currentStyle of
        None \<Rightarrow> Some c
      | Some cur \<Rightarrow>
          (case transitions env targetStyle of
             None \<Rightarrow> Some c
           | Some ts \<Rightarrow> foldOption (updateTransition env now renderer cur targetStyle) ts c))"

text \<open>\<^verbatim>\<open>resetAnimations\<close>: \<^verbatim>\<open>deleteAllValues(m_keyframeAnimations)\<close>, then \<^verbatim>\<open>clear()\<close>.\<close>

definition resetAnimations :: "'s Env \<Rightarrow> real \<Rightarrow> 's CompositeAnimation \<Rightarrow> 's CompositeAnimation" where
  "resetAnimations env now c =
     (fold (\<lambda>kv c. delete_KeyframeAnimation env now (snd kv, c)) (m_keyframeAnimations c) c)
       \<lparr>m_keyframeAnimations := []\<rparr>"

text \<open>
  The first loop of \<^verbatim>\<open>updateKeyframeAnimations\<close>, over the declared animations; the state
  is \<^verbatim>\<open>animsChanged\<close>, \<^verbatim>\<open>numAnims\<close> and the \<^verbatim>\<open>CompositeAnimation\<close>.
\<close>

definition matchKeyframeAnimation ::
  "'s Env \<Rightarrow> real \<Rightarrow> 's Animation \<Rightarrow> bool \<times> int \<times> 's CompositeAnimation \<Rightarrow>
   bool \<times> int \<times> 's CompositeAnimation" where
  "matchKeyframeAnimation env now anim st =
     (case st of (animsChanged, numAnims, c) \<Rightarrow>
        if \<not> isValidAnimation anim then (True, numAnims + 1, c)
        else
          (case map_of (m_keyframeAnimations c) (name anim) of
             None \<Rightarrow> (True, numAnims + 1, c)
           | Some kfAnim \<Rightarrow>
               if \<not> animationsMatch env (m_animation kfAnim) anim then (True, numAnims + 1, c)
               else (animsChanged, numAnims + 1,
                     forKeyframeAnimation (name anim)
                       (\<lambda>ac. case updatePlayState (KeyframeAnimation_vtable env) now
                                    (playState anim = AnimPlayStatePlaying) ac of
                               (a, c') \<Rightarrow> (a\<lparr>m_animation := anim\<rparr>, c'))
                       c)))"

text \<open>The second loop: the new keyframe animations; the state is \<^verbatim>\<open>index\<close> and the map.\<close>

definition addKeyframeAnimation ::
  "'s Env \<Rightarrow> 's RenderObject \<Rightarrow> 's Animation \<Rightarrow> int \<times> 's CompositeAnimation \<Rightarrow>
   int \<times> 's CompositeAnimation" where
  "addKeyframeAnimation env renderer anim st =
     (case st of (index, c) \<Rightarrow>
        if \<not> isValidAnimation anim then (index, c)
        else if (duration anim \<noteq> 0 \<or> delay anim \<noteq> 0) \<and> iterationCount anim \<noteq> 0 \<and>
                (case keyframeList anim of None \<Rightarrow> False | Some kl \<Rightarrow> \<not> isEmpty kl)
        then (index + 1,
              c\<lparr>m_keyframeAnimations :=
                  AList.update (name anim) (new_KeyframeAnimation env anim renderer index)
                    (m_keyframeAnimations c)\<rparr>)
        else (index, c))"

definition updateKeyframeAnimations ::
  "'s Env \<Rightarrow> real \<Rightarrow> 's RenderObject \<Rightarrow> 's option \<Rightarrow> 's \<Rightarrow>
   's CompositeAnimation \<Rightarrow> 's CompositeAnimation" where
  "updateKeyframeAnimations env now renderer currentStyle targetStyle c =
     (if m_keyframeAnimations c = [] \<and> \<not> hasAnimations env targetStyle then c
      else if (case currentStyle of
                 None \<Rightarrow> False
               | Some cur \<Rightarrow>
                   hasAnimations env cur \<and> hasAnimations env targetStyle \<and>
                   (case (animations env cur, animations env targetStyle) of
                      (Some l1, Some l2) \<Rightarrow> animationListsEqual env l1 l2
                    | _ \<Rightarrow> False))
      then c
      else
        let (animsChanged, numAnims, c) =
              (case animations env targetStyle of
                 None \<Rightarrow> (False, 0, c)
               | Some l \<Rightarrow> fold (matchKeyframeAnimation env now) l (False, 0, c));
            animsChanged =
              (animsChanged \<or> int (length (m_keyframeAnimations c)) \<noteq> numAnims)
        in if \<not> animsChanged then c
           else
             let c = resetAnimations env now c
             in case animations env targetStyle of
                  None \<Rightarrow> c
                | Some l \<Rightarrow> snd (fold (addKeyframeAnimation env renderer) l (0, c)))"

text \<open>
  \<^verbatim>\<open>cleanupFinishedAnimations\<close>. A finished animation is deleted in the postactive state, so
  its destructor does nothing; \<^verbatim>\<open>reset(renderer)\<close> of a transition releases its two styles.
\<close>

definition cleanupFinishedAnimations :: "'s CompositeAnimation \<Rightarrow> 's CompositeAnimation" where
  "cleanupFinishedAnimations c =
     (if m_suspended c then c
      else
        let finishedTransitions =
              map (\<lambda>kv. m_animatingProperty (snd kv))
                (filter (\<lambda>kv. postactive (snd kv) \<and> \<not> waitingForEndEvent (snd kv))
                   (m_transitions c));
            c = fold (\<lambda>p c. c\<lparr>m_transitions := AList.delete p (m_transitions c)\<rparr>)
                  finishedTransitions c;
            finishedAnimations =
              map (\<lambda>kv. m_name (snd kv))
                (filter (\<lambda>kv. postactive (snd kv) \<and> \<not> waitingForEndEvent (snd kv))
                   (m_keyframeAnimations c))
        in fold (\<lambda>n c. c\<lparr>m_keyframeAnimations := AList.delete n (m_keyframeAnimations c)\<rparr>)
             finishedAnimations c)"

text \<open>
  The two loops of \<^verbatim>\<open>CompositeAnimation::animate\<close> that call \<^verbatim>\<open>animate\<close> on a transition and
  on a keyframe animation. Each call is recorded in \<open>calls\<close>.
\<close>

definition animateTransition ::
  "'s Env \<Rightarrow> real \<Rightarrow> 's \<Rightarrow> int \<Rightarrow> 's CompositeAnimation \<times> 's \<times> 's StylePtr \<Rightarrow>
   ('s CompositeAnimation \<times> 's \<times> 's StylePtr) option" where
  "animateTransition env now currentStyle key cst =
     (case cst of (c, st) \<Rightarrow>
        (case map_of (m_transitions c) key of
           None \<Rightarrow> Some (c, st)
         | Some anim \<Rightarrow>
             (case ImplicitAnimation_animate env now currentStyle
                     (anim, call (AnimateTransition key) c, st) of
                None \<Rightarrow> None
              | Some (anim', c', st') \<Rightarrow>
                  Some (c'\<lparr>m_transitions := AList.update key anim' (m_transitions c')\<rparr>, st'))))"

definition animateKeyframeAnimation ::
  "'s Env \<Rightarrow> real \<Rightarrow> 's Animation \<Rightarrow> 's CompositeAnimation \<times> 's \<times> 's StylePtr \<Rightarrow>
   ('s CompositeAnimation \<times> 's \<times> 's StylePtr) option" where
  "animateKeyframeAnimation env now anim cst =
     (case cst of (c, st) \<Rightarrow>
        if isValidAnimation anim
        then (case map_of (m_keyframeAnimations c) (name anim) of
                None \<Rightarrow> Some (c, st)
              | Some keyframeAnim \<Rightarrow>
                  (case KeyframeAnimation_animate env now
                          (keyframeAnim, call (AnimateKeyframeAnimation (name anim)) c, st) of
                     None \<Rightarrow> None
                   | Some (anim', c', st') \<Rightarrow>
                       Some (c'\<lparr>m_keyframeAnimations :=
                                  AList.update (name anim) anim' (m_keyframeAnimations c')\<rparr>,
                             st')))
        else Some (c, st))"

text \<open>
  \<open>CompositeAnimation_animate\<close> returns the \<^verbatim>\<open>CompositeAnimation\<close>, the target style, and
  the pointer it returns: \<open>TargetStyle\<close> for \<^verbatim>\<open>targetStyle\<close>, \<open>NewStyle s\<close> for a style it has
  allocated.
\<close>

definition CompositeAnimation_animate ::
  "'s Env \<Rightarrow> real \<Rightarrow> 's RenderObject \<Rightarrow> 's option \<Rightarrow> 's \<Rightarrow> 's CompositeAnimation \<Rightarrow>
   ('s CompositeAnimation \<times> 's \<times> 's StylePtr) option" where
  "CompositeAnimation_animate env now renderer currentStyle targetStyle c =
     (case updateTransitions env now renderer currentStyle targetStyle c of
        None \<Rightarrow> None
      | Some c \<Rightarrow>
          (case (case currentStyle of
                   None \<Rightarrow> Some (c, targetStyle, NullStyle)
                 | Some cur \<Rightarrow>
                     foldOption (animateTransition env now cur) (map fst (m_transitions c))
                       (c, targetStyle, NullStyle)) of
             None \<Rightarrow> None
           | Some (c, st) \<Rightarrow>
               let c = updateKeyframeAnimations env now renderer currentStyle (fst st) c
               in case (if hasAnimations env (fst st)
                        then foldOption (animateKeyframeAnimation env now)
                               (case animations env (fst st) of None \<Rightarrow> [] | Some l \<Rightarrow> l) (c, st)
                        else Some (c, st)) of
                    None \<Rightarrow> None
                  | Some (c, st) \<Rightarrow>
                      Some (cleanupFinishedAnimations c, fst st,
                            (case snd st of NullStyle \<Rightarrow> TargetStyle | p \<Rightarrow> p))))"

definition CompositeAnimation_setAnimating ::
  "bool \<Rightarrow> 's CompositeAnimation \<Rightarrow> 's CompositeAnimation" where
  "CompositeAnimation_setAnimating inAnimating c =
     c\<lparr>m_transitions := map (\<lambda>kv. (fst kv, setAnimating inAnimating (snd kv))) (m_transitions c),
       m_keyframeAnimations :=
         map (\<lambda>kv. (fst kv, setAnimating inAnimating (snd kv))) (m_keyframeAnimations c)\<rparr>"

definition CompositeAnimation_animating :: "'s CompositeAnimation \<Rightarrow> bool" where
  "CompositeAnimation_animating c \<longleftrightarrow>
     list_ex (\<lambda>kv. animating (snd kv) \<and> running (snd kv)) (m_transitions c) \<or>
     list_ex (\<lambda>kv. \<not> paused (snd kv) \<and> animating (snd kv) \<and> active (snd kv))
       (m_keyframeAnimations c)"

definition CompositeAnimation_isAnimatingProperty ::
  "'s CompositeAnimation \<Rightarrow> int \<Rightarrow> bool \<Rightarrow> bool" where
  "CompositeAnimation_isAnimatingProperty c prop isRunningNow \<longleftrightarrow>
     list_ex (\<lambda>kv. isAnimatingProperty KeyframeAnimation_affectsProperty (snd kv) prop isRunningNow)
       (m_keyframeAnimations c) \<or>
     list_ex (\<lambda>kv. isAnimatingProperty ImplicitAnimation_affectsProperty (snd kv) prop isRunningNow)
       (m_transitions c)"




subsection \<open>AnimationController\<close>

text \<open>
  \<^verbatim>\<open>AnimationControllerPrivate\<close>: the map from renderers to their \<^verbatim>\<open>CompositeAnimation\<close>,
  with a number for the address of a renderer, and whether the repeating animation timer is
  active.
\<close>

record 's AnimationControllerPrivate =
  m_compositeAnimations :: "(nat \<times> 's CompositeAnimation) list"
  m_animationTimer :: bool

definition accessCompositeAnimation ::
  "nat \<Rightarrow> 's AnimationControllerPrivate \<Rightarrow> 's CompositeAnimation \<times> 's AnimationControllerPrivate" where
  "accessCompositeAnimation renderer d =
     (case map_of (m_compositeAnimations d) renderer of
        Some animation \<Rightarrow> (animation, d)
      | None \<Rightarrow>
          (new_CompositeAnimation,
           d\<lparr>m_compositeAnimations :=
               AList.update renderer new_CompositeAnimation (m_compositeAnimations d)\<rparr>))"

definition updateAnimationTimer :: "'s AnimationControllerPrivate \<Rightarrow> 's AnimationControllerPrivate" where
  "updateAnimationTimer d =
     (let animating =
            list_ex (\<lambda>kv. \<not> m_suspended (snd kv) \<and> CompositeAnimation_animating (snd kv))
              (m_compositeAnimations d)
      in if animating
         then (if \<not> m_animationTimer d then d\<lparr>m_animationTimer := True\<rparr> else d)
         else if m_animationTimer d then d\<lparr>m_animationTimer := False\<rparr>
         else d)"

text \<open>
  \<open>updateAnimations env now addr renderer newStyle d\<close>: \<open>addr\<close> is the address of
  \<open>renderer\<close>. The result is the controller, the style \<^verbatim>\<open>newStyle\<close> points to, and the
  returned pointer with the style it points to: \<open>TargetStyle\<close> is the pointer \<^verbatim>\<open>newStyle\<close>.
\<close>

definition updateAnimations ::
  "'s Env \<Rightarrow> real \<Rightarrow> nat \<Rightarrow> 's RenderObject \<Rightarrow> 's \<Rightarrow> 's AnimationControllerPrivate \<Rightarrow>
   ('s AnimationControllerPrivate \<times> 's \<times> 's StylePtr) option" where
  "updateAnimations env now addr renderer newStyle d =
     (if (case document renderer of None \<Rightarrow> True | Some doc \<Rightarrow> inPageCache doc)
      then Some (d, newStyle, TargetStyle)
      else
        let oldStyle = style renderer
        in if (case oldStyle of
                 None \<Rightarrow> True
               | Some old \<Rightarrow> animations env old = None \<and> transitions env old = None) \<and>
              (animations env newStyle = None \<and> transitions env newStyle = None)
           then Some (d, newStyle, TargetStyle)
           else
             (case accessCompositeAnimation addr d of
                (rendererAnimations, d) \<Rightarrow>
                  (case CompositeAnimation_animate env now renderer oldStyle newStyle
                          rendererAnimations of
                     None \<Rightarrow> None
                   | Some (rendererAnimations, newStyle, blendedStyle) \<Rightarrow>
                       let d = updateAnimationTimer
                                 (d\<lparr>m_compositeAnimations :=
                                      AList.update addr rendererAnimations
                                        (m_compositeAnimations d)\<rparr>)
                       in (case blendedStyle of
                             NewStyle b \<Rightarrow>
                               Some (d, newStyle,
                                     NewStyle (if hasAutoZIndex env b \<and>
                                                  (opacity env b < 1 \<or> hasTransform env b)
                                               then setZIndex env 0 b else b))
                           | p \<Rightarrow> Some (d, newStyle, p)))))"


subsection \<open>Predicates and examples used in the statements\<close>

text \<open>The channels of a \<^verbatim>\<open>Color\<close> are bytes.\<close>

definition Color_channels :: "Color \<Rightarrow> bool" where
  "Color_channels c \<longleftrightarrow>
     0 \<le> red c \<and> red c \<le> 255 \<and> 0 \<le> green c \<and> green c \<le> 255 \<and>
     0 \<le> blue c \<and> blue c \<le> 255 \<and> 0 \<le> alpha c \<and> alpha c \<le> 255"

text \<open>
  The progress of an animation as the specification words it. The elapsed time is
  \<open>pauseTime - startTime\<close> for a paused animation and \<open>now - startTime\<close> for one that is not
  paused.
\<close>

definition progress_spec ::
  "'s Env \<Rightarrow> real \<Rightarrow> real \<Rightarrow> real \<Rightarrow> ('s, 'm) AnimationBase_scheme \<Rightarrow> real" where
  "progress_spec env now scale offset a =
     (let elapsed = (if paused a then m_pauseTime a - m_startTime a else now - m_startTime a);
          d = duration (m_animation a);
          n = iterationCount (m_animation a)
      in if preactive a \<or> (running a \<and> elapsed < 0) then 0
         else if postactive a \<or> d = 0 \<or> (n > 0 \<and> elapsed \<ge> d * of_int n) then 1
         else
           let f = frac (elapsed / d);
               f = (if direction (m_animation a) \<and> odd \<lfloor>elapsed / d\<rfloor> then 1 - f else f);
               f = (f - offset) * scale
           in case timingFunction (m_animation a) of
                LinearTimingFunction \<Rightarrow> f
              | CubicBezierTimingFunction x1 y1 x2 y2 \<Rightarrow>
                  UnitBezier_solve env x1 y1 x2 y2 f (1 / (200 * d)))"


text \<open>A sequence of inputs, each with its parameter and the time at which it arrives.\<close>

definition runStateMachine ::
  "(('s, 'm) AnimationBase_scheme, 's) vtable \<Rightarrow> (AnimStateInput \<times> real \<times> real) list \<Rightarrow>
   ('s, 'm) AnimationBase_scheme \<times> 's CompositeAnimation \<Rightarrow>
   ('s, 'm) AnimationBase_scheme \<times> 's CompositeAnimation" where
  "runStateMachine vt inputs ac =
     fold (\<lambda>i. updateStateMachine vt (fst i) (fst (snd i)) (snd (snd i))) inputs ac"


text \<open>
  What holds of \<open>m_pauseTime\<close> in every reachable state: it is \<open>-1\<close> before the style is
  available, and not negative in the three paused states.
\<close>

definition pauseTimeInvariant :: "('s, 'm) AnimationBase_scheme \<Rightarrow> bool" where
  "pauseTimeInvariant a \<longleftrightarrow>
     (m_animState a \<in> {STATE_NEW, STATE_START_WAIT_TIMER, STATE_START_WAIT_STYLE_AVAILABLE}
        \<longrightarrow> m_pauseTime a = - 1) \<and>
     (m_animState a \<in> {STATE_PAUSED_WAIT_TIMER, STATE_PAUSED_WAIT_RESPONSE, STATE_PAUSED_RUN}
        \<longrightarrow> m_pauseTime a \<ge> 0)"

definition hooksKeepTimes :: "(('s, 'm) AnimationBase_scheme, 's) vtable \<Rightarrow> bool" where
  "hooksKeepTimes vt \<longleftrightarrow>
     (\<forall>t ac. m_animState (fst (v_onAnimationStart vt t ac)) = m_animState (fst ac) \<and>
             m_pauseTime (fst (v_onAnimationStart vt t ac)) = m_pauseTime (fst ac) \<and>
             m_animState (fst (v_onAnimationIteration vt t ac)) = m_animState (fst ac) \<and>
             m_pauseTime (fst (v_onAnimationIteration vt t ac)) = m_pauseTime (fst ac) \<and>
             m_animState (fst (v_onAnimationEnd vt t ac)) = m_animState (fst ac) \<and>
             m_pauseTime (fst (v_onAnimationEnd vt t ac)) = m_pauseTime (fst ac))"


text \<open>
  An example: styles with one animatable property, an opacity in percent, and a flag for an
  automatic z-index; one registered wrapper, for the property 1002.
\<close>

type_synonym ExampleStyle = "int \<times> bool"

definition example_transition :: "ExampleStyle Animation" where
  "example_transition =
     \<lparr> duration = 2, delay = 0, iterationCount = 1, direction = False,
       timingFunction = LinearTimingFunction, playState = AnimPlayStatePlaying,
       property = 1002, name = [], keyframeList = None, isValidAnimation = True \<rparr>"

definition example_wrapper :: "ExampleStyle PropertyWrapperBase" where
  "example_wrapper =
     \<lparr> m_prop = 1002, equals = (\<lambda>a b. fst a = fst b),
       blend = (\<lambda>dst a b prog. (blendFunc_int (fst a) (fst b) prog, snd dst)) \<rparr>"

definition example_Env :: "ExampleStyle Env" where
  "example_Env =
     \<lparr> firstCSSProperty = 1001, numCSSProperties = 3, CSSPropertyInvalid = - 1,
       cAnimateAll = - 2, getPropertyName = (\<lambda>p. ''opacity''),
       registeredWrappers = [example_wrapper],
       animations = (\<lambda>s. None), transitions = (\<lambda>s. Some [example_transition]),
       hasAutoZIndex = snd, opacity = (\<lambda>s. real_of_int (fst s) / 100),
       hasTransform = (\<lambda>s. False), setZIndex = (\<lambda>z s. (fst s, False)),
       animationsMatch = (=), animationListsEqual = (=),
       UnitBezier_solve = (\<lambda>p1x p1y p2x p2y t eps. t) \<rparr>"

definition example_Document :: Document where
  "example_Document = \<lparr> inPageCache = False, hasListenerType = (\<lambda>t. False) \<rparr>"

definition example_RenderObject :: "ExampleStyle RenderObject" where
  "example_RenderObject =
     \<lparr> document = Some example_Document, isElementNode = True, style = Some (100, True) \<rparr>"


text \<open>The transition of the example, running since time 1.\<close>

definition example_running_transition :: "ExampleStyle ImplicitAnimation" where
  "example_running_transition =
     (new_ImplicitAnimation example_Env example_transition 1002 example_RenderObject)
       \<lparr>m_animState := STATE_LOOPING, m_startTime := 1\<rparr>"

text \<open>The transition of the example, waiting for its start time.\<close>

definition example_waiting_transition :: "ExampleStyle ImplicitAnimation" where
  "example_waiting_transition =
     (new_ImplicitAnimation example_Env example_transition 1002 example_RenderObject)
       \<lparr>m_animState := STATE_START_WAIT_RESPONSE\<rparr>"


text \<open>
  Two states of a \<^verbatim>\<open>CompositeAnimation\<close> with the same transitions, keyframe animations
  and suspension.
\<close>

definition sameAnimations :: "'s CompositeAnimation \<Rightarrow> 's CompositeAnimation \<Rightarrow> bool" where
  "sameAnimations c c' \<longleftrightarrow>
     m_transitions c' = m_transitions c \<and>
     m_keyframeAnimations c' = m_keyframeAnimations c \<and>
     m_suspended c' = m_suspended c"

text \<open>A transition declaration that \<^verbatim>\<open>updateTransitions\<close> calls empty.\<close>

definition emptyTransition :: "'s Animation \<Rightarrow> bool" where
  "emptyTransition anim \<longleftrightarrow> duration anim = 0 \<and> delay anim \<le> 0"

text \<open>
  The \<^verbatim>\<open>CompositeAnimation\<close> of the example: the transition of the opacity towards 0 is
  running.
\<close>

definition example_CompositeAnimation :: "ExampleStyle CompositeAnimation" where
  "example_CompositeAnimation =
     new_CompositeAnimation
       \<lparr>m_transitions :=
          [(1002, example_running_transition
                    \<lparr>m_fromStyle := Some (100, True), m_toStyle := Some (0, True)\<rparr>)]\<rparr>"

text \<open>A declaration of a transition of the opacity with no duration and no delay.\<close>

definition example_empty_transition :: "ExampleStyle Animation" where
  "example_empty_transition = example_transition\<lparr>duration := 0\<rparr>"

text \<open>
  From \<open>c\<close> to \<open>c'\<close> the keyframe animations stay, and every transition in \<open>c'\<close> that
  is not in \<open>c\<close> has a declaration that is not empty.
\<close>

definition addsNoEmptyTransition :: "'s CompositeAnimation \<Rightarrow> 's CompositeAnimation \<Rightarrow> bool" where
  "addsNoEmptyTransition c c' \<longleftrightarrow>
     m_keyframeAnimations c' = m_keyframeAnimations c \<and>
     (\<forall>p ia. map_of (m_transitions c') p = Some ia \<longrightarrow>
        map_of (m_transitions c) p = Some ia \<or> \<not> emptyTransition (m_animation ia))"

text \<open>The example with the empty declaration in the place of the declared transition.\<close>

definition example_Env_empty :: "ExampleStyle Env" where
  "example_Env_empty = example_Env\<lparr>transitions := (\<lambda>s. Some [example_empty_transition])\<rparr>"


text \<open>
  A keyframe animation of the opacity that is running and whose list of keyframes is empty.
\<close>

definition example_animation :: "ExampleStyle Animation" where
  "example_animation =
     example_transition
       \<lparr>name := ''fade'', keyframeList := Some \<lparr>keyframes = [], properties = [1002]\<rparr>\<rparr>"

definition example_KeyframeAnimation :: "ExampleStyle KeyframeAnimation" where
  "example_KeyframeAnimation =
     (new_KeyframeAnimation example_Env example_animation example_RenderObject 0)
       \<lparr>m_animState := STATE_LOOPING, m_startTime := 1\<rparr>"


text \<open>
  The controller of the example: the renderer at address 7 has the \<^verbatim>\<open>CompositeAnimation\<close>
  of the example.
\<close>

definition example_AnimationControllerPrivate :: "ExampleStyle AnimationControllerPrivate" where
  "example_AnimationControllerPrivate =
     \<lparr> m_compositeAnimations = [(7, example_CompositeAnimation)], m_animationTimer = False \<rparr>"

text \<open>A renderer whose document is in the page cache.\<close>

definition example_cached_RenderObject :: "ExampleStyle RenderObject" where
  "example_cached_RenderObject =
     example_RenderObject\<lparr>document := Some (example_Document\<lparr>inPageCache := True\<rparr>)\<rparr>"

text \<open>The example without any declared transition.\<close>

definition example_Env_plain :: "ExampleStyle Env" where
  "example_Env_plain = example_Env\<lparr>transitions := (\<lambda>s. None)\<rparr>"


text \<open>
  The calls that an animation makes on its collaborators, and an extension of the record of
  calls by calls of a given kind.
\<close>

definition collaboratorCall :: "Call \<Rightarrow> bool" where
  "collaboratorCall e \<longleftrightarrow>
     e = SetChanged \<or> e = StartUpdateRenderingDispatcher \<or>
     (\<exists>b. e = ControllerSetWaitingForStyleAvailable b)"

definition callsExtended ::
  "(Call \<Rightarrow> bool) \<Rightarrow> 's CompositeAnimation \<Rightarrow> 's CompositeAnimation \<Rightarrow> bool" where
  "callsExtended P c c' \<longleftrightarrow> (\<exists>xs. calls c' = calls c @ xs \<and> list_all P xs)"



text \<open>
  The transition of the example, started at time 1 and paused at time 2: a new transition
  that is given \<^verbatim>\<open>STATE_INPUT_START_ANIMATION\<close>, whose start timer fires, whose style is
  available, and that is then given \<^verbatim>\<open>STATE_INPUT_PLAY_STATE_PAUSED\<close>.
\<close>

definition example_paused_transition :: "ExampleStyle ImplicitAnimation" where
  "example_paused_transition =
     fst (runStateMachine (ImplicitAnimation_vtable example_Env)
            [(STATE_INPUT_START_ANIMATION, - 1, 1), (STATE_INPUT_START_TIMER_FIRED, 0, 1),
             (STATE_INPUT_STYLE_AVAILABLE, - 1, 1), (STATE_INPUT_PLAY_STATE_PAUSED, - 1, 2)]
            (new_ImplicitAnimation example_Env example_transition 1002 example_RenderObject,
             new_CompositeAnimation))"


text \<open>
  The example with the sentinel 0: \<^verbatim>\<open>CSSPropertyInvalid\<close> is the first enumerator of the
  enumeration of the CSS properties, which starts at 0, and the properties themselves start
  at \<^verbatim>\<open>firstCSSProperty\<close>.
\<close>

definition example_Env_sentinel :: "ExampleStyle Env" where
  "example_Env_sentinel = example_Env\<lparr>CSSPropertyInvalid := 0\<rparr>"











section \<open>Properties\<close>

lemma double_to_int_of_int [simp]: "double_to_int (of_int i) = i"
  by (simp add: double_to_int_def)

lemma blendFunc_int_0: "blendFunc_int from to 0 = from"
  by (simp add: blendFunc_int_def)

lemma blendFunc_int_1: "blendFunc_int from to 1 = to"
proof -
  have "(of_int from :: real) + of_int (to - from) * 1 = of_int to"
    by simp
  then show ?thesis
    unfolding blendFunc_int_def by (simp only: double_to_int_of_int)
qed

subsection \<open>Blend functions\<close>

lemma blendFunc_Color_0: "blendFunc_Color cf ct 0 = cf"
  by (simp add: blendFunc_Color_def blendFunc_int_0)

lemma blendFunc_Color_1: "blendFunc_Color cf ct 1 = ct"
  by (simp add: blendFunc_Color_def blendFunc_int_1)

lemma map_filter_Some_nth:
  "(\<forall>i < length ys. f i = Some (ys ! i)) \<Longrightarrow> List.map_filter f [0 ..< length ys] = ys"
proof (induction ys arbitrary: f rule: rev_induct)
  case Nil
  then show ?case by (simp add: List.map_filter_simps)
next
  case (snoc y ys)
  have "\<forall>i < length ys. f i = Some (ys ! i)"
    using snoc.prems by (auto simp: nth_append)
  then have "List.map_filter f [0 ..< length ys] = ys"
    by (rule snoc.IH)
  moreover have "f (length ys) = Some y"
    using snoc.prems by (auto simp: nth_append)
  ultimately show ?case
    by (simp add: List.map_filter_def)
qed

lemma blendFunc_TransformOperations_same_length:
  assumes "length fs = length ts"
    and "\<forall>i < length ts. op_blend (ts ! i) (Some (fs ! i)) p False = Some (rs ! i)"
    and "length rs = length ts"
  shows "blendFunc_TransformOperations op_blend fs ts p = rs"
proof -
  have "List.map_filter
          (\<lambda>i. let fromOp = (if i < length fs then Some (fs ! i) else None);
                   toOp = (if i < length ts then Some (ts ! i) else None)
               in case toOp of
                    Some t \<Rightarrow> op_blend t fromOp p False
                  | None \<Rightarrow> (case fromOp of
                               Some f \<Rightarrow> op_blend f None p True
                             | None \<Rightarrow> None))
          [0 ..< length rs] = rs"
    by (rule map_filter_Some_nth) (use assms in auto)
  then show ?thesis
    using assms by (simp add: blendFunc_TransformOperations_def)
qed

lemma blendFunc_EVisibility_1: "blendFunc_EVisibility vf vt 1 = vt"
  by (cases vf; cases vt) (simp_all add: blendFunc_EVisibility_def blendFunc_double_def)

lemma blendFunc_EVisibility_0:
  "vf = VISIBLE \<or> vt = VISIBLE \<or> vf = vt \<Longrightarrow> blendFunc_EVisibility vf vt 0 = vf"
  by (cases vf; cases vt) (simp_all add: blendFunc_EVisibility_def blendFunc_double_def)

lemma blendFunc_EVisibility_hidden:
  "vf \<noteq> VISIBLE \<Longrightarrow> vt \<noteq> VISIBLE \<Longrightarrow> blendFunc_EVisibility vf vt p = vt"
  by (simp add: blendFunc_EVisibility_def)

text \<open>
  C2, as stated, fails: for the visibility strategy, a blend from \<^verbatim>\<open>HIDDEN\<close> to
  \<^verbatim>\<open>COLLAPSE\<close> at progress 0 gives \<^verbatim>\<open>COLLAPSE\<close>, the value blended to, and not
  \<^verbatim>\<open>HIDDEN\<close>, the value blended from.
\<close>

theorem blendFunc_EVisibility_from_counterexample:
  "blendFunc_EVisibility HIDDEN COLLAPSE 0 = COLLAPSE \<and>
   blendFunc_EVisibility HIDDEN COLLAPSE 0 \<noteq> HIDDEN"
  by (simp add: blendFunc_EVisibility_def)

text \<open>
  C2, amended. At progress 0 the blend is the value blended from, and at progress 1 the value
  blended to,
  \<^item> for \<^verbatim>\<open>int\<close> values whose difference is an \<^verbatim>\<open>int\<close>, and so for the \<^verbatim>\<open>IntSize\<close> and
    shadow strategies, which blend their \<^verbatim>\<open>int\<close> components;
  \<^item> for colours, channel by channel;
  \<^item> for two transform lists of the same length, when the blend of each pair of operations at
    the same position has this property.

  For visibility, progress 1 gives the value blended to; progress 0 gives the value blended
  from when one of the two values is \<^verbatim>\<open>VISIBLE\<close> or both are the same; when neither is
  \<^verbatim>\<open>VISIBLE\<close>, every progress gives the value blended to. The strategy for \<^verbatim>\<open>Length\<close> is
  \<^verbatim>\<open>Length::blend\<close> with its arguments exchanged. (The \<^verbatim>\<open>float\<close> and \<^verbatim>\<open>double\<close>
  strategies round; nothing is said about them.)
\<close>

theorem blendFunc_endpoints:
  "(fitsInt (t - f) \<longrightarrow> blendFunc_int f t 0 = f \<and> blendFunc_int f t 1 = t) \<and>
   (Color_channels cf \<and> Color_channels ct \<longrightarrow>
      blendFunc_Color cf ct 0 = cf \<and> blendFunc_Color cf ct 1 = ct) \<and>
   (fitsInt (width zt - width zf) \<and> fitsInt (height zt - height zf) \<longrightarrow>
      blendFunc_IntSize zf zt 0 = zf \<and> blendFunc_IntSize zf zt 1 = zt) \<and>
   (fitsInt (shadow_x st - shadow_x sf) \<and> fitsInt (shadow_y st - shadow_y sf) \<and>
    fitsInt (shadow_blur st - shadow_blur sf) \<and>
    Color_channels (shadow_color sf) \<and> Color_channels (shadow_color st) \<longrightarrow>
      blendFunc_ShadowData sf st 0 = sf \<and> blendFunc_ShadowData sf st 1 = st) \<and>
   (length tf = length tt \<and>
    (\<forall>i < length tt. op_blend (tt ! i) (Some (tf ! i)) 0 False = Some (tf ! i) \<and>
                     op_blend (tt ! i) (Some (tf ! i)) 1 False = Some (tt ! i)) \<longrightarrow>
      blendFunc_TransformOperations op_blend tf tt 0 = tf \<and>
      blendFunc_TransformOperations op_blend tf tt 1 = tt) \<and>
   blendFunc_Length Length_blend lf lt p = Length_blend lt lf p \<and>
   blendFunc_EVisibility vf vt 1 = vt \<and>
   (vf = VISIBLE \<or> vt = VISIBLE \<or> vf = vt \<longrightarrow> blendFunc_EVisibility vf vt 0 = vf) \<and>
   (vf \<noteq> VISIBLE \<and> vt \<noteq> VISIBLE \<longrightarrow> blendFunc_EVisibility vf vt p = vt)"
proof -
  have transform:
    "blendFunc_TransformOperations op_blend tf tt 0 = tf \<and>
     blendFunc_TransformOperations op_blend tf tt 1 = tt"
    if "length tf = length tt"
      and "\<forall>i < length tt. op_blend (tt ! i) (Some (tf ! i)) 0 False = Some (tf ! i) \<and>
                            op_blend (tt ! i) (Some (tf ! i)) 1 False = Some (tt ! i)"
    using that by (simp add: blendFunc_TransformOperations_same_length)
  show ?thesis
    using transform
    by (simp add: blendFunc_int_0 blendFunc_int_1 blendFunc_Color_0 blendFunc_Color_1
        blendFunc_IntSize_def blendFunc_ShadowData_def blendFunc_Length_def
        blendFunc_EVisibility_1 blendFunc_EVisibility_0 blendFunc_EVisibility_hidden)
qed

theorem blendFunc_endpoints_witness:
  "blendFunc_int 3 10 0 = 3 \<and> blendFunc_int 3 10 1 = 10 \<and>
   blendFunc_Color \<lparr>red = 0, green = 10, blue = 20, alpha = 255\<rparr>
     \<lparr>red = 255, green = 0, blue = 20, alpha = 0\<rparr> 1 =
     \<lparr>red = 255, green = 0, blue = 20, alpha = 0\<rparr> \<and>
   blendFunc_IntSize \<lparr>width = 1, height = 2\<rparr> \<lparr>width = 5, height = 0\<rparr> 0 =
     \<lparr>width = 1, height = 2\<rparr> \<and>
   blendFunc_ShadowData
     \<lparr>shadow_x = 0, shadow_y = 0, shadow_blur = 0,
      shadow_color = \<lparr>red = 0, green = 0, blue = 0, alpha = 0\<rparr>\<rparr>
     \<lparr>shadow_x = 4, shadow_y = - 4, shadow_blur = 2,
      shadow_color = \<lparr>red = 9, green = 9, blue = 9, alpha = 255\<rparr>\<rparr> 1 =
     \<lparr>shadow_x = 4, shadow_y = - 4, shadow_blur = 2,
      shadow_color = \<lparr>red = 9, green = 9, blue = 9, alpha = 255\<rparr>\<rparr> \<and>
   blendFunc_TransformOperations
     (\<lambda>t f pr toIdentity. Some (blendFunc_int (case f of None \<Rightarrow> 0 | Some v \<Rightarrow> v) t pr))
     [7] [9] 0 = [7 :: int] \<and>
   blendFunc_EVisibility HIDDEN VISIBLE 0 = HIDDEN \<and>
   blendFunc_EVisibility HIDDEN COLLAPSE (1 / 2) = COLLAPSE"
proof -
  let ?cf = "\<lparr>red = 0, green = 10, blue = 20, alpha = 255\<rparr>"
  let ?ct = "\<lparr>red = 255, green = 0, blue = 20, alpha = 0\<rparr>"
  let ?zf = "\<lparr>width = 1, height = 2\<rparr>"
  let ?zt = "\<lparr>width = 5, height = 0\<rparr>"
  let ?sf = "\<lparr>shadow_x = 0, shadow_y = 0, shadow_blur = 0,
              shadow_color = \<lparr>red = 0, green = 0, blue = 0, alpha = 0\<rparr>\<rparr>"
  let ?st = "\<lparr>shadow_x = 4, shadow_y = - 4, shadow_blur = 2,
              shadow_color = \<lparr>red = 9, green = 9, blue = 9, alpha = 255\<rparr>\<rparr>"
  let ?ob = "\<lambda>t f pr toIdentity.
               Some (blendFunc_int (case f of None \<Rightarrow> 0 | Some v \<Rightarrow> v) t pr)"
  let ?lb = "\<lambda>(t :: int) (f :: int) (pr :: real). t"
  have ops: "\<forall>i < length [9 :: int].
      ?ob ([9] ! i) (Some ([7] ! i)) 0 False = Some ([7] ! i) \<and>
      ?ob ([9] ! i) (Some ([7] ! i)) 1 False = Some ([9] ! i)"
    by (simp add: blendFunc_int_0 blendFunc_int_1)
  have hyps:
    "fitsInt (10 - 3)" "Color_channels ?cf" "Color_channels ?ct"
    "fitsInt (width ?zt - width ?zf)" "fitsInt (height ?zt - height ?zf)"
    "fitsInt (shadow_x ?st - shadow_x ?sf)" "fitsInt (shadow_y ?st - shadow_y ?sf)"
    "fitsInt (shadow_blur ?st - shadow_blur ?sf)"
    "Color_channels (shadow_color ?sf)" "Color_channels (shadow_color ?st)"
    by (simp_all add: fitsInt_def Color_channels_def)
  have visible: "blendFunc_EVisibility HIDDEN VISIBLE 0 = HIDDEN"
    using blendFunc_endpoints
      [where f = 3 and t = 10 and cf = ?cf and ct = ?ct and zf = ?zf and zt = ?zt
         and sf = ?sf and st = ?st and tf = "[7 :: int]" and tt = "[9]" and op_blend = ?ob
         and Length_blend = ?lb and lf = 0 and lt = 0 and p = "1 / 2"
         and vf = HIDDEN and vt = VISIBLE]
    by simp
  have rest:
    "blendFunc_int 3 10 0 = 3 \<and> blendFunc_int 3 10 1 = 10 \<and>
     blendFunc_Color ?cf ?ct 1 = ?ct \<and> blendFunc_IntSize ?zf ?zt 0 = ?zf \<and>
     blendFunc_ShadowData ?sf ?st 1 = ?st \<and>
     blendFunc_TransformOperations ?ob [7] [9] 0 = [7 :: int] \<and>
     blendFunc_EVisibility HIDDEN COLLAPSE (1 / 2) = COLLAPSE"
    using hyps ops
      blendFunc_endpoints
      [where f = 3 and t = 10 and cf = ?cf and ct = ?ct and zf = ?zf and zt = ?zt
         and sf = ?sf and st = ?st and tf = "[7 :: int]" and tt = "[9]" and op_blend = ?ob
         and Length_blend = ?lb and lf = 0 and lt = 0 and p = "1 / 2"
         and vf = HIDDEN and vt = COLLAPSE]
    by (simp del: One_nat_def)
  from rest visible show ?thesis by simp
qed

subsection \<open>AnimationBase::progress\<close>

lemma double_to_int_nonneg: "0 \<le> v \<Longrightarrow> double_to_int v = \<lfloor>v\<rfloor>"
  by (simp add: double_to_int_def)

lemma and_one_odd: "(i :: int) AND 1 \<noteq> 0 \<longleftrightarrow> odd i"
  by (simp add: and_one_eq odd_iff_mod_2_eq_one)

text \<open>
  For an animation that is not paused \<open>progress\<close> is what the specification says: 0 while
  the animation is preactive or, running, has a negative elapsed time; 1 when the animation is
  postactive, or its duration is 0, or the elapsed time has reached the duration times a
  positive iteration count; otherwise the fractional part of elapsed time over duration, taken
  from 1 on odd iterations of an alternating animation, mapped by scale and offset and given
  to the timing function. The duration is not negative, and the number of the iteration is an
  \<^verbatim>\<open>int\<close>.
\<close>

lemma progress_of_unpaused:
  assumes d: "0 \<le> duration (m_animation a)"
    and i: "fitsInt (double_to_int ((now - m_startTime a) / duration (m_animation a)))"
    and np: "\<not> paused a"
  shows "progress env now scale offset a = progress_spec env now scale offset a"
proof (cases "preactive a \<or> (running a \<and> now - m_startTime a < 0)")
  case True
  then show ?thesis
    using np by (auto simp: progress_def progress_spec_def Let_def)
next
  case early: False
  show ?thesis
  proof (cases "postactive a")
    case True
    then show ?thesis
      using early np by (simp add: progress_def progress_spec_def Let_def running_def)
  next
    case False
    with early have run: "running a" and el: "0 \<le> now - m_startTime a"
      by (auto simp: running_def preactive_def isnew_def)
    show ?thesis
    proof (cases "duration (m_animation a) = 0 \<or>
        (iterationCount (m_animation a) > 0 \<and>
         now - m_startTime a \<ge> duration (m_animation a) * of_int (iterationCount (m_animation a)))")
      case True
      then show ?thesis
        using early run np by (auto simp: progress_def progress_spec_def Let_def)
    next
      case mid: False
      with d have dpos: "0 < duration (m_animation a)" by simp
      with el have q: "0 \<le> (now - m_startTime a) / duration (m_animation a)" by simp
      have fl: "double_to_int ((now - m_startTime a) / duration (m_animation a)) =
          \<lfloor>(now - m_startTime a) / duration (m_animation a)\<rfloor>"
        using q by (rule double_to_int_nonneg)
      show ?thesis
      proof (cases "direction (m_animation a) \<and>
          odd \<lfloor>(now - m_startTime a) / duration (m_animation a)\<rfloor>")
        case True
        with early False run mid np show ?thesis
          by (simp add: progress_def progress_spec_def Let_def fl frac_def
              solveCubicBezierFunction_def solveEpsilon_def and_one_odd del: and_one_eq
              split: TimingFunction.splits)
      next
        case noflip: False
        then have nf: "(direction (m_animation a) \<and>
          odd \<lfloor>(now - m_startTime a) / duration (m_animation a)\<rfloor>) = False"
          by simp
        from early False run mid np show ?thesis
          by (simp add: progress_def progress_spec_def Let_def fl frac_def nf
              solveCubicBezierFunction_def solveEpsilon_def and_one_odd del: and_one_eq
              split: TimingFunction.splits)
      qed
    qed
  qed
qed

text \<open>
  C1. \<^verbatim>\<open>progress\<close> takes \<^verbatim>\<open>m_pauseTime - m_startTime\<close> for the elapsed time only when
  \<^verbatim>\<open>running()\<close> is false, and \<^verbatim>\<open>running()\<close> is true in the paused states. The transition of
  the example starts at time 1 with the duration 2 and is paused at time 2 in the state
  \<^verbatim>\<open>STATE_PAUSED_RUN\<close>. Its progress is \<open>1 / 2\<close> at time 2 and 1 at time 3: it follows the
  clock, where the specification gives \<open>1 / 2\<close>, from \<open>pauseTime - startTime\<close>, at every time.
\<close>

theorem progress_of_paused_follows_clock:
  "m_animState example_paused_transition = STATE_PAUSED_RUN \<and>
   paused example_paused_transition \<and>
   m_startTime example_paused_transition = 1 \<and>
   m_pauseTime example_paused_transition = 2 \<and>
   duration (m_animation example_paused_transition) = 2 \<and>
   progress example_Env 2 1 0 example_paused_transition = 1 / 2 \<and>
   progress example_Env 3 1 0 example_paused_transition = 1 \<and>
   progress_spec example_Env 2 1 0 example_paused_transition = 1 / 2 \<and>
   progress_spec example_Env 3 1 0 example_paused_transition = 1 / 2"
proof -
  have fields: "m_animState example_paused_transition = STATE_PAUSED_RUN"
    "m_startTime example_paused_transition = 1" "m_pauseTime example_paused_transition = 2"
    "m_animation example_paused_transition = example_transition"
    by (simp_all add: example_paused_transition_def runStateMachine_def updateStateMachine.simps
        new_ImplicitAnimation_def new_AnimationBase_def AnimationBase.extend_def
        ImplicitAnimation.fields_def ImplicitAnimation_vtable_def primeEventTimers_def
        example_transition_def cancelTimers_def Let_def split_beta fmod_def double_to_int_def)
  have states: "\<not> preactive example_paused_transition" "running example_paused_transition"
    "\<not> postactive example_paused_transition" "paused example_paused_transition"
    by (simp_all add: preactive_def running_def postactive_def isnew_def paused_def fields)
  have decl: "duration example_transition = 2" "iterationCount example_transition = 1"
    "\<not> direction example_transition" "timingFunction example_transition = LinearTimingFunction"
    by (simp_all add: example_transition_def)
  have "progress example_Env 2 1 0 example_paused_transition = 1 / 2"
    by (simp add: progress_def Let_def fields states decl double_to_int_def)
  moreover have "progress example_Env 3 1 0 example_paused_transition = 1"
    by (simp add: progress_def Let_def fields states decl)
  moreover have "progress_spec example_Env 2 1 0 example_paused_transition = 1 / 2"
    by (simp add: progress_spec_def Let_def fields states decl frac_def)
  moreover have "progress_spec example_Env 3 1 0 example_paused_transition = 1 / 2"
    by (simp add: progress_spec_def Let_def fields states decl frac_def)
  ultimately show ?thesis
    by (simp add: fields states decl)
qed

theorem progress_of_paused_follows_clock_witness:
  "progress example_Env 2 1 0 example_paused_transition \<noteq>
     progress example_Env 3 1 0 example_paused_transition \<and>
   progress example_Env 3 1 0 example_paused_transition \<noteq>
     progress_spec example_Env 3 1 0 example_paused_transition"
  using progress_of_paused_follows_clock by simp



subsection \<open>AnimationBase::updateStateMachine\<close>

lemma updateStateMachine_START_ANIMATION_NEW:
  "m_animState a = STATE_NEW \<Longrightarrow>
   updateStateMachine vt STATE_INPUT_START_ANIMATION param now (a, c) =
     (a\<lparr>m_waitedForResponse := False,
        m_animState := STATE_START_WAIT_TIMER,
        m_animationTimerCallback :=
          startTimer_callback (delay (m_animation a)) webkitAnimationStartEvent
            (delay (m_animation a)) (m_animationTimerCallback a)\<rparr>, c)"
  by (subst updateStateMachine.simps) simp

lemma updateStateMachine_START_TIME_SET_RESPONSE:
  "m_animState a = STATE_START_WAIT_RESPONSE \<Longrightarrow>
   updateStateMachine vt STATE_INPUT_START_TIME_SET param now (a, c) =
     (primeEventTimers now (if m_startTime a \<le> 0 then a\<lparr>m_startTime := param\<rparr> else a),
      startUpdateRenderingDispatcher (setChanged c))"
  by (subst updateStateMachine.simps) (simp add: Let_def)

lemma updateStateMachine_END_ANIMATION:
  "updateStateMachine vt STATE_INPUT_END_ANIMATION param now (a, c) =
     ((cancelTimers a)\<lparr>m_animState := STATE_DONE\<rparr>,
      v_endAnimation vt True ((cancelTimers a)\<lparr>m_animState := STATE_DONE\<rparr>)
        (if m_animState a = STATE_START_WAIT_STYLE_AVAILABLE
         then setWaitingForStyleAvailable False c else c))"
  by (subst updateStateMachine.simps) (simp add: Let_def cancelTimers_def)

lemma primeEventTimers_state:
  "m_animState (primeEventTimers now a) = STATE_LOOPING \<or>
   m_animState (primeEventTimers now a) = STATE_ENDING"
  by (simp add: primeEventTimers_def Let_def)

lemma primeEventTimers_fields [simp]:
  "m_startTime (primeEventTimers now a) = m_startTime a"
  "m_pauseTime (primeEventTimers now a) = m_pauseTime a"
  by (simp_all add: primeEventTimers_def Let_def)

lemma cancelTimers_fields [simp]:
  "m_animState (cancelTimers a) = m_animState a"
  "m_startTime (cancelTimers a) = m_startTime a"
  "m_pauseTime (cancelTimers a) = m_pauseTime a"
  by (simp_all add: cancelTimers_def)

lemma START_TIME_SET_running_keeps_startTime:
  "m_animState a = STATE_LOOPING \<or> m_animState a = STATE_ENDING \<Longrightarrow>
   m_startTime (fst (updateStateMachine vt STATE_INPUT_START_TIME_SET t now (a, c))) = m_startTime a"
  by (subst updateStateMachine.simps) (auto simp: Let_def)

lemma pauseTimeInvariant_running:
  "m_animState a = STATE_LOOPING \<or> m_animState a = STATE_ENDING \<or>
   m_animState a = STATE_START_WAIT_RESPONSE \<or> m_animState a = STATE_DONE \<Longrightarrow>
   pauseTimeInvariant a"
  by (auto simp: pauseTimeInvariant_def)

lemma pauseTimeInvariant_prime: "pauseTimeInvariant (primeEventTimers now a)"
  using primeEventTimers_state [of now a] by (auto intro: pauseTimeInvariant_running)

lemma updateStateMachine_pauseTimeInvariant:
  assumes inv: "pauseTimeInvariant a" and now: "0 \<le> now" and hk: "hooksKeepTimes vt"
  shows "pauseTimeInvariant (fst (updateStateMachine vt input param now (a, c)))"
proof -
  have h [simp]:
    "\<And>t ac. m_animState (fst (v_onAnimationStart vt t ac)) = m_animState (fst ac)"
    "\<And>t ac. m_pauseTime (fst (v_onAnimationStart vt t ac)) = m_pauseTime (fst ac)"
    "\<And>t ac. m_animState (fst (v_onAnimationIteration vt t ac)) = m_animState (fst ac)"
    "\<And>t ac. m_pauseTime (fst (v_onAnimationIteration vt t ac)) = m_pauseTime (fst ac)"
    "\<And>t ac. m_animState (fst (v_onAnimationEnd vt t ac)) = m_animState (fst ac)"
    "\<And>t ac. m_pauseTime (fst (v_onAnimationEnd vt t ac)) = m_pauseTime (fst ac)"
    using hk unfolding hooksKeepTimes_def by blast+
  note rules = Let_def split_beta updateStateMachine_START_ANIMATION_NEW
    updateStateMachine_START_TIME_SET_RESPONSE pauseTimeInvariant_prime paused_def
  show ?thesis
  proof (cases "m_animState a")
    case STATE_NEW
    with inv now show ?thesis
      by (subst updateStateMachine.simps) (simp add: rules, simp add: pauseTimeInvariant_def)
  next
    case STATE_START_WAIT_TIMER
    with inv now show ?thesis
      by (subst updateStateMachine.simps) (simp add: rules, simp add: pauseTimeInvariant_def)
  next
    case STATE_START_WAIT_STYLE_AVAILABLE
    with inv now show ?thesis
      by (subst updateStateMachine.simps) (simp add: rules, simp add: pauseTimeInvariant_def)
  next
    case STATE_START_WAIT_RESPONSE
    with inv now show ?thesis
      by (subst updateStateMachine.simps) (simp add: rules, simp add: pauseTimeInvariant_def)
  next
    case STATE_LOOPING
    with inv now show ?thesis
      by (subst updateStateMachine.simps) (simp add: rules, simp add: pauseTimeInvariant_def)
  next
    case STATE_ENDING
    with inv now show ?thesis
      by (subst updateStateMachine.simps) (simp add: rules, simp add: pauseTimeInvariant_def)
  next
    case STATE_PAUSED_WAIT_TIMER
    with inv now show ?thesis
      by (subst updateStateMachine.simps) (simp add: rules, simp add: pauseTimeInvariant_def)
  next
    case STATE_PAUSED_WAIT_RESPONSE
    with inv now show ?thesis
      by (subst updateStateMachine.simps) (simp add: rules, simp add: pauseTimeInvariant_def)
  next
    case STATE_PAUSED_RUN
    with inv now show ?thesis
      by (subst updateStateMachine.simps) (simp add: rules, simp add: pauseTimeInvariant_def)
  next
    case STATE_DONE
    with inv now show ?thesis
      by (subst updateStateMachine.simps) (simp add: rules, simp add: pauseTimeInvariant_def)
  qed
qed

lemma runStateMachine_pauseTimeInvariant:
  assumes "hooksKeepTimes vt" "\<forall>i \<in> set inputs. 0 \<le> snd (snd i)" "pauseTimeInvariant (fst ac)"
  shows "pauseTimeInvariant (fst (runStateMachine vt inputs ac))"
  using assms(2,3)
proof (induction inputs arbitrary: ac)
  case Nil
  then show ?case by (simp add: runStateMachine_def)
next
  case (Cons i inputs)
  have "pauseTimeInvariant
      (fst (updateStateMachine vt (fst i) (fst (snd i)) (snd (snd i)) (fst ac, snd ac)))"
    using Cons.prems assms(1) by (intro updateStateMachine_pauseTimeInvariant) simp_all
  then have "pauseTimeInvariant (fst (runStateMachine vt inputs
      (updateStateMachine vt (fst i) (fst (snd i)) (snd (snd i)) ac)))"
    using Cons.prems by (intro Cons.IH) simp_all
  then show ?case by (simp add: runStateMachine_def)
qed

lemma hooksKeepTimes_ImplicitAnimation: "hooksKeepTimes (ImplicitAnimation_vtable env)"
  by (simp add: hooksKeepTimes_def ImplicitAnimation_vtable_def
      ImplicitAnimation_onAnimationEnd_def sendTransitionEvent_def Let_def split_beta)

lemma hooksKeepTimes_KeyframeAnimation: "hooksKeepTimes (KeyframeAnimation_vtable env)"
  by (simp add: hooksKeepTimes_def KeyframeAnimation_vtable_def
      KeyframeAnimation_onAnimationStart_def KeyframeAnimation_onAnimationIteration_def
      KeyframeAnimation_onAnimationEnd_def sendAnimationEvent_def Let_def split_beta)

lemma pauseTimeInvariant_new:
  "pauseTimeInvariant (new_ImplicitAnimation env transition prop renderer)"
  "pauseTimeInvariant (new_KeyframeAnimation env animation renderer index)"
  by (simp_all add: pauseTimeInvariant_def new_ImplicitAnimation_def new_KeyframeAnimation_def
      new_AnimationBase_def AnimationBase.extend_def)

text \<open>
  C5, as stated, fails: a transition that is started, paused while it waits for its start
  timer, and then ended (three inputs that the assertions of the state machine admit) is in
  \<^verbatim>\<open>STATE_DONE\<close> with \<open>m_pauseTime = 11\<close>, so it is done and paused at once.
\<close>

theorem paused_and_done_counterexample:
  "m_animState (fst (runStateMachine (ImplicitAnimation_vtable example_Env)
      [(STATE_INPUT_START_ANIMATION, - 1, 10), (STATE_INPUT_PLAY_STATE_PAUSED, - 1, 11),
       (STATE_INPUT_END_ANIMATION, - 1, 12)]
      (new_ImplicitAnimation example_Env example_transition 1002 example_RenderObject,
       new_CompositeAnimation))) = STATE_DONE \<and>
   paused (fst (runStateMachine (ImplicitAnimation_vtable example_Env)
      [(STATE_INPUT_START_ANIMATION, - 1, 10), (STATE_INPUT_PLAY_STATE_PAUSED, - 1, 11),
       (STATE_INPUT_END_ANIMATION, - 1, 12)]
      (new_ImplicitAnimation example_Env example_transition 1002 example_RenderObject,
       new_CompositeAnimation)))"
  by (simp add: runStateMachine_def updateStateMachine.simps new_ImplicitAnimation_def
      new_AnimationBase_def AnimationBase.extend_def ImplicitAnimation.fields_def paused_def
      cancelTimers_def Let_def)

text \<open>
  C5, amended. In every state that a new transition or a new keyframe animation reaches by
  a sequence of inputs, at times that are not negative, \<open>m_pauseTime\<close> is \<open>-1\<close> in the states
  \<^verbatim>\<open>STATE_NEW\<close>, \<^verbatim>\<open>STATE_START_WAIT_TIMER\<close> and \<^verbatim>\<open>STATE_START_WAIT_STYLE_AVAILABLE\<close>, and it
  is not negative in the three states \<^verbatim>\<open>STATE_PAUSED_WAIT_TIMER\<close>,
  \<^verbatim>\<open>STATE_PAUSED_WAIT_RESPONSE\<close> and \<^verbatim>\<open>STATE_PAUSED_RUN\<close>. (In the other states, the
  terminal one among them, it may be either.)
\<close>

theorem pauseTime_in_reachable_states:
  assumes "\<forall>i \<in> set inputs. 0 \<le> snd (snd i)"
  shows "pauseTimeInvariant (fst (runStateMachine (ImplicitAnimation_vtable env) inputs
           (new_ImplicitAnimation env transition prop renderer, c))) \<and>
         pauseTimeInvariant (fst (runStateMachine (KeyframeAnimation_vtable env) inputs
           (new_KeyframeAnimation env animation renderer index, c)))"
  using assms
  by (simp add: runStateMachine_pauseTimeInvariant hooksKeepTimes_ImplicitAnimation
      hooksKeepTimes_KeyframeAnimation pauseTimeInvariant_new)

theorem pauseTime_in_reachable_states_witness:
  "list_all (\<lambda>i. 0 \<le> snd (snd i))
     [(STATE_INPUT_START_ANIMATION, - 1, 10 :: real), (STATE_INPUT_PLAY_STATE_PAUSED, - 1, 11)] \<and>
   pauseTimeInvariant (fst (runStateMachine (ImplicitAnimation_vtable example_Env)
      [(STATE_INPUT_START_ANIMATION, - 1, 10), (STATE_INPUT_PLAY_STATE_PAUSED, - 1, 11)]
      (new_ImplicitAnimation example_Env example_transition 1002 example_RenderObject,
       new_CompositeAnimation))) \<and>
   m_animState (fst (runStateMachine (ImplicitAnimation_vtable example_Env)
      [(STATE_INPUT_START_ANIMATION, - 1, 10), (STATE_INPUT_PLAY_STATE_PAUSED, - 1, 11)]
      (new_ImplicitAnimation example_Env example_transition 1002 example_RenderObject,
       new_CompositeAnimation))) = STATE_PAUSED_WAIT_TIMER \<and>
   m_pauseTime (fst (runStateMachine (ImplicitAnimation_vtable example_Env)
      [(STATE_INPUT_START_ANIMATION, - 1, 10), (STATE_INPUT_PLAY_STATE_PAUSED, - 1, 11)]
      (new_ImplicitAnimation example_Env example_transition 1002 example_RenderObject,
       new_CompositeAnimation))) = 11"
proof -
  have times: "\<forall>i \<in> set [(STATE_INPUT_START_ANIMATION, - 1, 10 :: real),
                (STATE_INPUT_PLAY_STATE_PAUSED, - 1, 11)]. 0 \<le> snd (snd i)"
    by simp
  have state: "m_animState (fst (runStateMachine (ImplicitAnimation_vtable example_Env)
      [(STATE_INPUT_START_ANIMATION, - 1, 10), (STATE_INPUT_PLAY_STATE_PAUSED, - 1, 11)]
      (new_ImplicitAnimation example_Env example_transition 1002 example_RenderObject,
       new_CompositeAnimation))) = STATE_PAUSED_WAIT_TIMER \<and>
   m_pauseTime (fst (runStateMachine (ImplicitAnimation_vtable example_Env)
      [(STATE_INPUT_START_ANIMATION, - 1, 10), (STATE_INPUT_PLAY_STATE_PAUSED, - 1, 11)]
      (new_ImplicitAnimation example_Env example_transition 1002 example_RenderObject,
       new_CompositeAnimation))) = 11"
    by (simp add: runStateMachine_def updateStateMachine.simps new_ImplicitAnimation_def
        new_AnimationBase_def AnimationBase.extend_def ImplicitAnimation.fields_def
        cancelTimers_def Let_def)
  show ?thesis
    using pauseTime_in_reachable_states [OF times, of example_Env example_transition 1002
        example_RenderObject new_CompositeAnimation] times state
    by simp
qed

text \<open>
  C7. In \<^verbatim>\<open>STATE_START_WAIT_RESPONSE\<close> the input \<^verbatim>\<open>STATE_INPUT_START_TIME_SET\<close> with time
  \<open>t\<close> sets \<open>m_startTime\<close> to \<open>t\<close> only if no start time is set (\<open>m_startTime \<le> 0\<close>), and
  after a first start time \<open>t > 0\<close> a second \<^verbatim>\<open>STATE_INPUT_START_TIME_SET\<close> leaves it as it
  is.
\<close>

theorem start_time_set_once:
  assumes "m_animState a = STATE_START_WAIT_RESPONSE"
  shows "m_startTime (fst (updateStateMachine vt STATE_INPUT_START_TIME_SET t now (a, c))) =
           (if m_startTime a \<le> 0 then t else m_startTime a) \<and>
         (m_startTime a \<le> 0 \<and> 0 < t \<longrightarrow>
            m_startTime (fst (updateStateMachine vt STATE_INPUT_START_TIME_SET t' now'
              (updateStateMachine vt STATE_INPUT_START_TIME_SET t now (a, c)))) = t)"
proof -
  let ?a1 = "primeEventTimers now (if m_startTime a \<le> 0 then a\<lparr>m_startTime := t\<rparr> else a)"
  let ?c1 = "startUpdateRenderingDispatcher (setChanged c)"
  have first: "updateStateMachine vt STATE_INPUT_START_TIME_SET t now (a, c) = (?a1, ?c1)"
    using assms by (rule updateStateMachine_START_TIME_SET_RESPONSE)
  have second:
    "m_startTime (fst (updateStateMachine vt STATE_INPUT_START_TIME_SET t' now' (?a1, ?c1))) =
      m_startTime ?a1"
    using primeEventTimers_state by (rule START_TIME_SET_running_keeps_startTime)
  have "m_startTime ?a1 = (if m_startTime a \<le> 0 then t else m_startTime a)"
    by simp
  with first second show ?thesis
    by (cases "m_startTime a \<le> 0") simp_all
qed

theorem start_time_set_once_witness:
  "m_animState example_waiting_transition = STATE_START_WAIT_RESPONSE \<and>
   m_startTime example_waiting_transition \<le> 0 \<and>
   m_startTime (fst (updateStateMachine (ImplicitAnimation_vtable example_Env)
      STATE_INPUT_START_TIME_SET 5 5 (example_waiting_transition, new_CompositeAnimation))) = 5 \<and>
   m_startTime (fst (updateStateMachine (ImplicitAnimation_vtable example_Env)
      STATE_INPUT_START_TIME_SET 9 9
      (updateStateMachine (ImplicitAnimation_vtable example_Env)
         STATE_INPUT_START_TIME_SET 5 5 (example_waiting_transition, new_CompositeAnimation)))) = 5"
proof -
  have st: "m_animState example_waiting_transition = STATE_START_WAIT_RESPONSE"
    and t0: "m_startTime example_waiting_transition = 0"
    by (simp_all add: example_waiting_transition_def new_ImplicitAnimation_def
        new_AnimationBase_def AnimationBase.extend_def)
  show ?thesis
    using start_time_set_once [OF st, of "ImplicitAnimation_vtable example_Env" 5 5
        new_CompositeAnimation 9 9] st t0
    by simp
qed

subsection \<open>The property wrappers\<close>

lemma ensurePropertyMap_prefix:
  assumes "\<forall>w \<in> set (registeredWrappers env).
             0 \<le> m_prop w - firstCSSProperty env \<and>
             m_prop w - firstCSSProperty env < numCSSProperties env"
    and "k \<le> length (registeredWrappers env)"
  shows "\<exists>arr.
           fold (registerWrapper env) [0 ..< k]
             (Some (replicate (nat (numCSSProperties env)) (CSSPropertyInvalid env))) = Some arr \<and>
           length arr = nat (numCSSProperties env) \<and>
           (\<forall>j < length arr.
              arr ! j = CSSPropertyInvalid env \<or>
              (\<exists>i < k. arr ! j = int i \<and>
                 m_prop (registeredWrappers env ! i) - firstCSSProperty env = int j))"
  using assms(2)
proof (induction k)
  case 0
  then show ?case by simp
next
  case (Suc k)
  then have "k \<le> length (registeredWrappers env)"
    by simp
  from Suc.IH [OF this] obtain arr where
    arr: "fold (registerWrapper env) [0 ..< k]
             (Some (replicate (nat (numCSSProperties env)) (CSSPropertyInvalid env))) = Some arr"
    and len: "length arr = nat (numCSSProperties env)"
    and slots: "\<forall>j < length arr.
              arr ! j = CSSPropertyInvalid env \<or>
              (\<exists>i < k. arr ! j = int i \<and>
                 m_prop (registeredWrappers env ! i) - firstCSSProperty env = int j)"
    by blast
  let ?slot = "m_prop (registeredWrappers env ! k) - firstCSSProperty env"
  have "registeredWrappers env ! k \<in> set (registeredWrappers env)"
    using Suc.prems by simp
  with assms(1) have range: "0 \<le> ?slot" "?slot < numCSSProperties env"
    by auto
  have "\<forall>j < length (arr[nat ?slot := int k]).
          arr[nat ?slot := int k] ! j = CSSPropertyInvalid env \<or>
          (\<exists>i < Suc k. arr[nat ?slot := int k] ! j = int i \<and>
             m_prop (registeredWrappers env ! i) - firstCSSProperty env = int j)"
  proof (intro allI impI)
    fix j
    assume j: "j < length (arr[nat ?slot := int k])"
    show "arr[nat ?slot := int k] ! j = CSSPropertyInvalid env \<or>
          (\<exists>i < Suc k. arr[nat ?slot := int k] ! j = int i \<and>
             m_prop (registeredWrappers env ! i) - firstCSSProperty env = int j)"
    proof (cases "j = nat ?slot")
      case True
      then have "arr[nat ?slot := int k] ! j = int k" "?slot = int j"
        using j range by simp_all
      then show ?thesis by blast
    next
      case False
      then have "arr[nat ?slot := int k] ! j = arr ! j"
        by simp
      with slots j show ?thesis
        using less_Suc_eq by auto
    qed
  qed
  moreover have "registerWrapper env k (Some arr) = Some (arr[nat ?slot := int k])"
    using range by (simp add: registerWrapper_def Let_def)
  ultimately show ?case
    using arr len by simp
qed

lemma ensurePropertyMap_slots:
  assumes "\<forall>w \<in> set (registeredWrappers env).
             0 \<le> m_prop w - firstCSSProperty env \<and>
             m_prop w - firstCSSProperty env < numCSSProperties env"
  shows "\<exists>arr. ensurePropertyMap env = Some arr \<and>
           length arr = nat (numCSSProperties env) \<and>
           (\<forall>j < length arr.
              arr ! j = CSSPropertyInvalid env \<or>
              (\<exists>i < length (registeredWrappers env). arr ! j = int i \<and>
                 m_prop (registeredWrappers env ! i) - firstCSSProperty env = int j))"
  unfolding ensurePropertyMap_def
  using ensurePropertyMap_prefix [OF assms, of "length (registeredWrappers env)"] by simp

lemma gPropertyWrapperMap_unregistered:
  assumes wf: "\<forall>w \<in> set (registeredWrappers env).
             0 \<le> m_prop w - firstCSSProperty env \<and>
             m_prop w - firstCSSProperty env < numCSSProperties env"
    and unreg: "prop \<notin> m_prop ` set (registeredWrappers env)"
    and range: "0 \<le> prop - firstCSSProperty env" "prop - firstCSSProperty env < numCSSProperties env"
  shows "gPropertyWrapperMap env (prop - firstCSSProperty env) = Some (CSSPropertyInvalid env)"
proof -
  from ensurePropertyMap_slots [OF wf] obtain arr where
    arr: "ensurePropertyMap env = Some arr"
    and len: "length arr = nat (numCSSProperties env)"
    and slots: "\<forall>j < length arr.
              arr ! j = CSSPropertyInvalid env \<or>
              (\<exists>i < length (registeredWrappers env). arr ! j = int i \<and>
                 m_prop (registeredWrappers env ! i) - firstCSSProperty env = int j)"
    by blast
  let ?j = "nat (prop - firstCSSProperty env)"
  have j: "?j < length arr"
    using len range by simp
  have "arr ! ?j = CSSPropertyInvalid env"
  proof (rule ccontr)
    assume "arr ! ?j \<noteq> CSSPropertyInvalid env"
    with slots j obtain i where i: "i < length (registeredWrappers env)"
      and "m_prop (registeredWrappers env ! i) - firstCSSProperty env = int ?j"
      by blast
    then have "m_prop (registeredWrappers env ! i) = prop"
      using range by simp
    with i unreg show False
      by (metis image_eqI nth_mem)
  qed
  with arr j range show ?thesis
    by (simp add: gPropertyWrapperMap_def)
qed

lemma propertiesEqual_unregistered:
  assumes "CSSPropertyInvalid env < 0"
    and "\<forall>w \<in> set (registeredWrappers env).
             0 \<le> m_prop w - firstCSSProperty env \<and>
             m_prop w - firstCSSProperty env < numCSSProperties env"
    and "prop \<noteq> cAnimateAll env"
    and "prop \<notin> m_prop ` set (registeredWrappers env)"
  shows "propertiesEqual env prop a b = Some True"
  using assms gPropertyWrapperMap_unregistered [of env "prop"]
  by (simp add: propertiesEqual_def Let_def)

lemma blendProperties_unregistered:
  assumes "CSSPropertyInvalid env < 0"
    and "\<forall>w \<in> set (registeredWrappers env).
             0 \<le> m_prop w - firstCSSProperty env \<and>
             m_prop w - firstCSSProperty env < numCSSProperties env"
    and "prop \<noteq> cAnimateAll env"
    and "prop \<notin> m_prop ` set (registeredWrappers env)"
  shows "blendProperties env prop dst a b prog = Some (False, dst)"
  using assms gPropertyWrapperMap_unregistered [of env "prop"]
  by (simp add: blendProperties_def Let_def)

text \<open>
  When the sentinel \<^verbatim>\<open>CSSPropertyInvalid\<close> that fills the unused slots of
  \<^verbatim>\<open>gPropertyWrapperMap\<close> is negative, as the tests \<^verbatim>\<open>i >= 0\<close> of the two functions take
  it to be, and the registered properties lie in the array, then for every property other
  than \<^verbatim>\<open>cAnimateAll\<close> that has no registered wrapper, in or out of the range of the array,
  \<^verbatim>\<open>propertiesEqual\<close> returns true and \<^verbatim>\<open>blendProperties\<close> returns false and leaves the
  destination style as it is, for all style pointers, null ones too; no transition starts for
  the property, and no array is read out of its bounds (the results are not \<open>None\<close>).
\<close>

lemma unregistered_property_inert_for_negative_sentinel:
  assumes "CSSPropertyInvalid env < 0"
    and "\<forall>w \<in> set (registeredWrappers env).
             0 \<le> m_prop w - firstCSSProperty env \<and>
             m_prop w - firstCSSProperty env < numCSSProperties env"
    and "prop \<noteq> cAnimateAll env"
    and "prop \<notin> m_prop ` set (registeredWrappers env)"
  shows "propertiesEqual env prop a b = Some True \<and>
         blendProperties env prop dst a b prog = Some (False, dst) \<and>
         (map_of (m_transitions c) prop = None \<longrightarrow>
            updateTransitionForProperty env now renderer currentStyle targetStyle anim prop c =
              Some c)"
  using propertiesEqual_unregistered [OF assms] blendProperties_unregistered [OF assms]
  by (simp add: updateTransitionForProperty_def)

lemma example_Env_fields:
  "CSSPropertyInvalid example_Env = - 1" "cAnimateAll example_Env = - 2"
  "firstCSSProperty example_Env = 1001" "numCSSProperties example_Env = 3"
  "registeredWrappers example_Env = [example_wrapper]"
  "m_prop example_wrapper = 1002"
  by (simp_all add: example_Env_def example_wrapper_def)

lemma unregistered_property_inert_example:
  "CSSPropertyInvalid example_Env < 0 \<and>
   list_all (\<lambda>w. 0 \<le> m_prop w - firstCSSProperty example_Env \<and>
                 m_prop w - firstCSSProperty example_Env < numCSSProperties example_Env)
     (registeredWrappers example_Env) \<and>
   1003 \<noteq> cAnimateAll example_Env \<and>
   1003 \<notin> m_prop ` set (registeredWrappers example_Env) \<and>
   propertiesEqual example_Env 1003 (Some (0, True)) (Some (100, True)) = Some True \<and>
   blendProperties example_Env 1003 (100, True) (Some (0, True)) (Some (100, True)) (1 / 2) =
     Some (False, (100, True)) \<and>
   propertiesEqual example_Env 5000 None None = Some True"
proof -
  have hyps: "CSSPropertyInvalid example_Env < 0"
    "\<forall>w \<in> set (registeredWrappers example_Env).
      0 \<le> m_prop w - firstCSSProperty example_Env \<and>
      m_prop w - firstCSSProperty example_Env < numCSSProperties example_Env"
    "1003 \<noteq> cAnimateAll example_Env" "1003 \<notin> m_prop ` set (registeredWrappers example_Env)"
    "5000 \<noteq> cAnimateAll example_Env" "5000 \<notin> m_prop ` set (registeredWrappers example_Env)"
    by (simp_all add: example_Env_fields)
  show ?thesis
    using hyps
      unregistered_property_inert_for_negative_sentinel [OF hyps(1,2,3,4), of "Some (0, True)" "Some (100, True)"
        "(100, True)" "1 / 2" new_CompositeAnimation]
      unregistered_property_inert_for_negative_sentinel [OF hyps(1,2,5,6), of None None]
    by (simp add: list_all_iff)
qed

text \<open>
  C9. The unused slots of \<^verbatim>\<open>gPropertyWrapperMap\<close> hold \<^verbatim>\<open>CSSPropertyInvalid\<close>, and
  \<^verbatim>\<open>propertiesEqual\<close> and \<^verbatim>\<open>blendProperties\<close> take a slot \<^verbatim>\<open>i >= 0\<close> for the index of a
  wrapper. With the sentinel 0 an unused slot stands for the first registered wrapper. In the
  example the only wrapper is registered for the property 1002, and the property 1003 lies in
  the array and has no wrapper; for two styles that differ in the property 1002,
  \<^verbatim>\<open>propertiesEqual\<close> returns false for the property 1003, \<^verbatim>\<open>blendProperties\<close> blends the
  property 1002 into the destination and returns true, and \<^verbatim>\<open>updateTransitions\<close> starts a
  transition for the property 1003.
\<close>

theorem unregistered_property_reads_first_wrapper:
  "CSSPropertyInvalid example_Env_sentinel = 0 \<and>
   1003 \<noteq> cAnimateAll example_Env_sentinel \<and>
   1003 \<notin> m_prop ` set (registeredWrappers example_Env_sentinel) \<and>
   0 \<le> 1003 - firstCSSProperty example_Env_sentinel \<and>
   1003 - firstCSSProperty example_Env_sentinel < numCSSProperties example_Env_sentinel \<and>
   propertiesEqual example_Env_sentinel 1003 (Some (0, True)) (Some (100, True)) = Some False \<and>
   blendProperties example_Env_sentinel 1003 (100, True) (Some (0, True)) (Some (100, True))
     (1 / 2) = Some (True, (50, True)) \<and>
   map_option (\<lambda>c. map fst (m_transitions c))
     (updateTransitionForProperty example_Env_sentinel 2 example_RenderObject (0, True)
        (100, True) example_transition 1003 new_CompositeAnimation) = Some [1003]"
proof -
  have env: "CSSPropertyInvalid example_Env_sentinel = 0"
    "cAnimateAll example_Env_sentinel = - 2" "firstCSSProperty example_Env_sentinel = 1001"
    "numCSSProperties example_Env_sentinel = 3"
    "registeredWrappers example_Env_sentinel = [example_wrapper]"
    "m_prop example_wrapper = 1002"
    by (simp_all add: example_Env_sentinel_def example_Env_def example_wrapper_def)
  have eq: "propertiesEqual example_Env_sentinel 1003 (Some (0, True)) (Some (100, True)) =
      Some False"
    by (simp add: propertiesEqual_def gPropertyWrapperMap_def ensurePropertyMap_def
        registerWrapper_def wrapperAt_def wrapper_equals_def env example_wrapper_def Let_def
        eval_nat_numeral)
  have bl: "blendProperties example_Env_sentinel 1003 (100, True) (Some (0, True))
      (Some (100, True)) (1 / 2) = Some (True, (50, True))"
    by (simp add: blendProperties_def gPropertyWrapperMap_def ensurePropertyMap_def
        registerWrapper_def wrapperAt_def wrapper_blend_def env example_wrapper_def Let_def
        eval_nat_numeral blendFunc_int_def double_to_int_def)
  have tr: "map_option (\<lambda>c. map fst (m_transitions c))
     (updateTransitionForProperty example_Env_sentinel 2 example_RenderObject (0, True)
        (100, True) example_transition 1003 new_CompositeAnimation) = Some [1003]"
    by (simp add: updateTransitionForProperty_def eq new_CompositeAnimation_def)
  show ?thesis
    using eq bl tr by (simp add: env)
qed

theorem unregistered_property_reads_first_wrapper_witness:
  "propertiesEqual example_Env_sentinel 1003 (Some (0, True)) (Some (100, True)) \<noteq> Some True \<and>
   blendProperties example_Env_sentinel 1003 (100, True) (Some (0, True)) (Some (100, True))
     (1 / 2) \<noteq> Some (False, (100, True))"
  using unregistered_property_reads_first_wrapper by simp

subsection \<open>What an input changes outside the animation\<close>

lemma updateStateMachine_frame:
  fixes R :: "'s CompositeAnimation \<Rightarrow> 's CompositeAnimation \<Rightarrow> bool"
    and vt :: "(('s, 'm) AnimationBase_scheme, 's) vtable"
  assumes refl: "\<And>c. R c c"
    and trans: "\<And>c c' c''. R c c' \<Longrightarrow> R c' c'' \<Longrightarrow> R c c''"
    and changed: "\<And>c. R c (call SetChanged c)"
    and dispatcher: "\<And>c. R c (call StartUpdateRenderingDispatcher c)"
    and waiters: "\<And>c b. R c (setWaitingForStyleAvailable b c)"
    and endAnimation: "\<And>c r a. R c (v_endAnimation vt r a c)"
    and overrideAnimations: "\<And>c t a. R c (v_overrideAnimations vt t a c)"
    and resumeOverriddenAnimations: "\<And>c t a. R c (v_resumeOverriddenAnimations vt t a c)"
    and onAnimationStart: "\<And>c t a. R c (snd (v_onAnimationStart vt t (a, c)))"
    and onAnimationIteration: "\<And>c t a. R c (snd (v_onAnimationIteration vt t (a, c)))"
    and onAnimationEnd: "\<And>c t a. R c (snd (v_onAnimationEnd vt t (a, c)))"
  shows "R c (snd (updateStateMachine vt input param now (a, c)))"
proof -
  have 0: "R c (call SetChanged c')" if "R c c'" for c'
    using that changed trans by blast
  have 1: "R c (call StartUpdateRenderingDispatcher c')" if "R c c'" for c'
    using that dispatcher trans by blast
  have 2: "R c (setWaitingForStyleAvailable b c')" if "R c c'" for c' b
    using that waiters trans by blast
  have 3: "R c (v_endAnimation vt r a' c')" if "R c c'" for c' r a'
    using that endAnimation trans by blast
  have 4: "R c (v_overrideAnimations vt t a' c')" if "R c c'" for c' t a'
    using that overrideAnimations trans by blast
  have 5: "R c (v_resumeOverriddenAnimations vt t a' c')" if "R c c'" for c' t a'
    using that resumeOverriddenAnimations trans by blast
  have 6: "R c (snd (v_onAnimationStart vt t (a', c')))" if "R c c'" for c' t a'
    using that onAnimationStart trans by blast
  have 7: "R c (snd (v_onAnimationIteration vt t (a', c')))" if "R c c'" for c' t a'
    using that onAnimationIteration trans by blast
  have 8: "R c (snd (v_onAnimationEnd vt t (a', c')))" if "R c c'" for c' t a'
    using that onAnimationEnd trans by blast
  note rules = Let_def split_beta updateStateMachine_START_ANIMATION_NEW
    updateStateMachine_START_TIME_SET_RESPONSE setChanged_def
    startUpdateRenderingDispatcher_def
  note intros = refl 0 1 2 3 4 5 6 7 8
  show ?thesis
  proof (cases "m_animState a")
    case STATE_NEW
    then show ?thesis
      by (subst updateStateMachine.simps) (simp add: rules intros)
  next
    case STATE_START_WAIT_TIMER
    then show ?thesis
      by (subst updateStateMachine.simps) (simp add: rules intros)
  next
    case STATE_START_WAIT_STYLE_AVAILABLE
    then show ?thesis
      by (subst updateStateMachine.simps) (simp add: rules intros)
  next
    case STATE_START_WAIT_RESPONSE
    then show ?thesis
      by (subst updateStateMachine.simps) (simp add: rules intros)
  next
    case STATE_LOOPING
    then show ?thesis
      by (subst updateStateMachine.simps) (simp add: rules intros)
  next
    case STATE_ENDING
    then show ?thesis
      by (subst updateStateMachine.simps) (simp add: rules intros)
  next
    case STATE_PAUSED_WAIT_TIMER
    then show ?thesis
      by (subst updateStateMachine.simps) (simp add: rules intros)
  next
    case STATE_PAUSED_WAIT_RESPONSE
    then show ?thesis
      by (subst updateStateMachine.simps) (simp add: rules intros)
  next
    case STATE_PAUSED_RUN
    then show ?thesis
      by (subst updateStateMachine.simps) (simp add: rules intros)
  next
    case STATE_DONE
    then show ?thesis
      by (subst updateStateMachine.simps) (simp add: rules intros)
  qed
qed

lemma sameAnimations_refl: "sameAnimations c c"
  by (simp add: sameAnimations_def)

lemma sameAnimations_trans: "sameAnimations c c' \<Longrightarrow> sameAnimations c' c'' \<Longrightarrow> sameAnimations c c''"
  by (simp add: sameAnimations_def)

lemma sameAnimations_call: "sameAnimations c (call e c)"
  by (simp add: sameAnimations_def call_def)

lemma sameAnimations_waiters: "sameAnimations c (setWaitingForStyleAvailable b c)"
  by (simp add: sameAnimations_def setWaitingForStyleAvailable_def call_def)

lemma ImplicitAnimation_updateStateMachine_sameAnimations:
  "sameAnimations c
     (snd (updateStateMachine (ImplicitAnimation_vtable env) input param now (a, c)))"
  by (rule updateStateMachine_frame)
    (simp_all add: sameAnimations_refl sameAnimations_call sameAnimations_waiters
      ImplicitAnimation_vtable_def ImplicitAnimation_onAnimationEnd_def
      AnimationBase_endAnimation_def split_beta,
     erule (1) sameAnimations_trans)

lemma delete_ImplicitAnimation_sameAnimations:
  "sameAnimations c (delete_ImplicitAnimation env now (a, c))"
proof -
  have "sameAnimations c
      (snd (updateStateMachine (ImplicitAnimation_vtable env) STATE_INPUT_END_ANIMATION (- 1)
         now (a, c)))"
    by (rule ImplicitAnimation_updateStateMachine_sameAnimations)
  then show ?thesis
    by (auto simp: delete_ImplicitAnimation_def Let_def split_beta sameAnimations_refl
        intro: sameAnimations_trans sameAnimations_waiters)
qed

subsection \<open>CompositeAnimation::updateTransitions\<close>

lemma foldOption_rel:
  assumes "foldOption f xs c = Some c'"
    and "\<And>c. R c c"
    and "\<And>c c' c''. R c c' \<Longrightarrow> R c' c'' \<Longrightarrow> R c c''"
    and "\<And>x c c'. x \<in> set xs \<Longrightarrow> f x c = Some c' \<Longrightarrow> R c c'"
  shows "R c c'"
  using assms(1,4)
proof (induction xs arbitrary: c)
  case Nil
  then show ?case using assms(2) by simp
next
  case (Cons x xs)
  from Cons.prems(1) obtain c1 where c1: "f x c = Some c1" and rest: "foldOption f xs c1 = Some c'"
    by (auto split: option.splits)
  have "R c c1"
    using c1 Cons.prems(2) [of x c c1] by simp
  moreover have "R c1 c'"
    using rest by (rule Cons.IH) (rule Cons.prems(2), simp_all)
  ultimately show ?case
    using assms(3) by blast
qed

lemma m_animation_new_ImplicitAnimation [simp]:
  "m_animation (new_ImplicitAnimation env anim prop renderer) = anim"
  by (simp add: new_ImplicitAnimation_def new_AnimationBase_def AnimationBase.extend_def)

lemma updateTransitionForProperty_entries:
  assumes "updateTransitionForProperty env now renderer cur tgt anim prop c = Some c'"
  shows "m_keyframeAnimations c' = m_keyframeAnimations c \<and> m_suspended c' = m_suspended c \<and>
         (\<forall>p. p \<noteq> prop \<longrightarrow> map_of (m_transitions c') p = map_of (m_transitions c) p) \<and>
         (map_of (m_transitions c') prop = map_of (m_transitions c) prop \<or>
          map_of (m_transitions c') prop = Some (new_ImplicitAnimation env anim prop renderer))"
proof (cases "map_of (m_transitions c) prop")
  case None
  with assms show ?thesis
    by (auto simp: updateTransitionForProperty_def update_conv' split: option.splits bool.splits)
next
  case (Some implAnim)
  let ?d = "delete_ImplicitAnimation env now (ImplicitAnimation_reset env now None None (implAnim, c))"
  have "sameAnimations c ?d"
    using delete_ImplicitAnimation_sameAnimations
      [of c env now "implAnim\<lparr>m_fromStyle := None, m_toStyle := None\<rparr>"]
    by (simp add: ImplicitAnimation_reset_def Let_def)
  then have d: "m_transitions ?d = m_transitions c" "m_keyframeAnimations ?d = m_keyframeAnimations c"
    "m_suspended ?d = m_suspended c"
    by (simp_all add: sameAnimations_def)
  from assms Some show ?thesis
    by (auto simp: updateTransitionForProperty_def Let_def d update_conv' delete_conv'
        split: option.splits bool.splits)
qed


lemma updateTransitionForProperty_absent:
  assumes "updateTransitionForProperty env now renderer cur tgt anim p c = Some c'"
    and "propertiesEqual env prop (Some cur) (Some tgt) = Some True"
    and "map_of (m_transitions c) prop = None"
  shows "map_of (m_transitions c') prop = None"
proof (cases "p = prop")
  case True
  with assms show ?thesis
    by (simp add: updateTransitionForProperty_def)
next
  case False
  with updateTransitionForProperty_entries [OF assms(1)] assms(3) show ?thesis
    by simp
qed

lemma updateTransition_absent:
  assumes "updateTransition env now renderer cur tgt anim c = Some c'"
    and "propertiesEqual env prop (Some cur) (Some tgt) = Some True"
    and "map_of (m_transitions c) prop = None"
  shows "map_of (m_transitions c') prop = None"
proof (cases "emptyTransition anim \<or> property anim \<noteq> cAnimateAll env")
  case True
  with assms show ?thesis
    by (auto simp: updateTransition_def emptyTransition_def
        dest: updateTransitionForProperty_absent split: if_splits)
next
  case False
  with assms(1) have all:
    "foldOption
       (\<lambda>propertyIndex.
          updateTransitionForProperty env now renderer cur tgt anim
            (getPropertyAtIndex env (int propertyIndex)))
       [0 ..< nat (getNumProperties env)] c = Some c'"
    by (auto simp: updateTransition_def emptyTransition_def split: if_splits)
  have "map_of (m_transitions c) prop = None \<longrightarrow> map_of (m_transitions c') prop = None"
    by (rule foldOption_rel [OF all]) (auto dest: updateTransitionForProperty_absent [OF _ assms(2)])
  with assms(3) show ?thesis by simp
qed

lemma updateTransitions_absent:
  assumes "updateTransitions env now renderer currentStyle tgt c = Some c'"
    and "currentStyle = None \<or>
         propertiesEqual env prop currentStyle (Some tgt) = Some True"
    and "map_of (m_transitions c) prop = None"
  shows "map_of (m_transitions c') prop = None"
proof (cases currentStyle)
  case None
  with assms show ?thesis by (simp add: updateTransitions_def)
next
  case (Some cur)
  show ?thesis
  proof (cases "transitions env tgt")
    case None
    with assms Some show ?thesis by (simp add: updateTransitions_def)
  next
    case (Some ts)
    with assms \<open>currentStyle = Some cur\<close>
    have all: "foldOption (updateTransition env now renderer cur tgt) ts c = Some c'"
      and eq: "propertiesEqual env prop (Some cur) (Some tgt) = Some True"
      by (simp_all add: updateTransitions_def)
    have "map_of (m_transitions c) prop = None \<longrightarrow> map_of (m_transitions c') prop = None"
      by (rule foldOption_rel [OF all]) (auto dest: updateTransition_absent [OF _ eq])
    with assms(3) show ?thesis by simp
  qed
qed


lemma example_wrapper_map:
  "gPropertyWrapperMap example_Env 1 = Some 0"
  by (simp add: gPropertyWrapperMap_def ensurePropertyMap_def registerWrapper_def
      example_Env_def example_wrapper_def Let_def eval_nat_numeral)

lemma example_propertiesEqual:
  "propertiesEqual example_Env 1002 (Some s) (Some s') = Some (fst s = fst s')"
  by (simp add: propertiesEqual_def example_wrapper_map wrapperAt_def wrapper_equals_def
      example_Env_fields Let_def)
    (simp add: example_wrapper_def)

lemma example_transition_fields:
  "duration example_transition = 2" "delay example_transition = 0"
  "property example_transition = 1002"
  by (simp_all add: example_transition_def)

lemma example_transitions:
  "transitions example_Env s = Some [example_transition]"
  "\<not> emptyTransition example_transition"
  by (simp_all add: example_Env_def emptyTransition_def example_transition_fields)

lemma example_updateTransitions_one:
  "updateTransitions example_Env 20 example_RenderObject (Some s) s' c =
     updateTransitionForProperty example_Env 20 example_RenderObject s s' example_transition
       1002 c"
  by (simp add: updateTransitions_def updateTransition_def example_transitions
      example_transition_fields example_Env_fields split: option.splits)

lemma example_updateTransitions_new:
  "updateTransitions example_Env 20 example_RenderObject (Some (50, True)) (50, True)
     new_CompositeAnimation = Some new_CompositeAnimation"
  by (simp add: example_updateTransitions_one updateTransitionForProperty_def
      example_propertiesEqual new_CompositeAnimation_def)

lemma example_isTargetPropertyEqual:
  "map_of (m_transitions example_CompositeAnimation) 1002 =
     Some (example_running_transition\<lparr>m_fromStyle := Some (100, True), m_toStyle := Some (0, True)\<rparr>)"
  "isTargetPropertyEqual example_Env 1002 (50, True)
     (example_running_transition\<lparr>m_fromStyle := Some (100, True), m_toStyle := Some (0, True)\<rparr>) =
     Some False"
  "isTargetPropertyEqual example_Env 1002 (0, True)
     (example_running_transition\<lparr>m_fromStyle := Some (100, True), m_toStyle := Some (0, True)\<rparr>) =
     Some True"
  by (simp_all add: example_CompositeAnimation_def isTargetPropertyEqual_def
      example_propertiesEqual new_CompositeAnimation_def)

lemma updateTransitionForProperty_replaces:
  assumes "map_of (m_transitions c) prop = Some implAnim"
    and "isTargetPropertyEqual env prop tgt implAnim = Some False"
  shows "map_option (\<lambda>d. map_of (m_transitions d) prop)
           (updateTransitionForProperty env now renderer cur tgt anim prop c) =
         Some (Some (new_ImplicitAnimation env anim prop renderer))"
  using assms by (simp add: updateTransitionForProperty_def Let_def update_conv')

text \<open>
  C3, as stated, fails: while the transition of the opacity towards 0 runs, the current style
  and the new target style have the same opacity, and \<^verbatim>\<open>updateTransitions\<close> still makes
  a new \<^verbatim>\<open>ImplicitAnimation\<close> for the opacity, in place of the running one, because the
  target has changed.
\<close>

theorem equal_styles_new_transition_counterexample:
  "propertiesEqual example_Env 1002 (Some (50, True)) (Some (50, True)) = Some True \<and>
   \<not> emptyTransition example_transition \<and>
   map_option (\<lambda>d. map_of (m_transitions d) 1002)
     (updateTransitions example_Env 20 example_RenderObject (Some (50, True)) (50, True)
        example_CompositeAnimation) =
     Some (Some (new_ImplicitAnimation example_Env example_transition 1002 example_RenderObject)) \<and>
   map_of (m_transitions example_CompositeAnimation) 1002 \<noteq>
     Some (new_ImplicitAnimation example_Env example_transition 1002 example_RenderObject)"
proof -
  let ?old = "example_running_transition
      \<lparr>m_fromStyle := Some (100, True), m_toStyle := Some (0, True)\<rparr>"
  let ?new = "new_ImplicitAnimation example_Env example_transition 1002 example_RenderObject"
  have "m_startTime ?new = 0"
    by (simp add: new_ImplicitAnimation_def new_AnimationBase_def AnimationBase.extend_def)
  moreover have "m_startTime ?old = 1"
    by (simp add: example_running_transition_def)
  ultimately have "m_startTime ?old \<noteq> m_startTime ?new"
    by simp
  then have "?old \<noteq> ?new"
    by (rule contrapos_nn) (rule arg_cong)
  then have differ: "map_of (m_transitions example_CompositeAnimation) 1002 \<noteq> Some ?new"
    unfolding example_isTargetPropertyEqual(1) by simp
  have "map_option (\<lambda>d. map_of (m_transitions d) 1002)
     (updateTransitions example_Env 20 example_RenderObject (Some (50, True)) (50, True)
        example_CompositeAnimation) =
     Some (Some (new_ImplicitAnimation example_Env example_transition 1002 example_RenderObject))"
    unfolding example_updateTransitions_one
    by (rule updateTransitionForProperty_replaces [OF example_isTargetPropertyEqual(1,2)])
  with differ show ?thesis
    by (simp add: example_propertiesEqual example_transitions)
qed

text \<open>
  C3, amended. When the current and the target style are equal on a property for which the
  map holds no \<^verbatim>\<open>ImplicitAnimation\<close>, \<^verbatim>\<open>updateTransitions\<close> creates none: the map has no
  entry for the property afterwards. For a property that has an \<^verbatim>\<open>ImplicitAnimation\<close>,
  what counts is the target of that animation: if the new target style differs from it on
  the property, the animation is replaced by a new one, and if not, nothing changes; the
  current style is not looked at.
\<close>

theorem no_transition_for_equal_property:
  "(updateTransitions env now renderer (Some cur) tgt c = Some c' \<and>
    propertiesEqual env prop (Some cur) (Some tgt) = Some True \<and>
    map_of (m_transitions c) prop = None \<longrightarrow>
      map_of (m_transitions c') prop = None) \<and>
   (map_of (m_transitions c) prop = Some implAnim \<and>
    isTargetPropertyEqual env prop tgt implAnim = Some False \<longrightarrow>
      map_option (\<lambda>d. map_of (m_transitions d) prop)
        (updateTransitionForProperty env now renderer cur tgt anim prop c) =
      Some (Some (new_ImplicitAnimation env anim prop renderer))) \<and>
   (map_of (m_transitions c) prop = Some implAnim \<and>
    isTargetPropertyEqual env prop tgt implAnim = Some True \<longrightarrow>
      updateTransitionForProperty env now renderer cur tgt anim prop c = Some c)"
  using updateTransitions_absent [of env now renderer "Some cur" tgt c c' "prop"]
    updateTransitionForProperty_replaces [of c "prop" implAnim env tgt now renderer cur anim]
  by (auto simp: updateTransitionForProperty_def)

theorem no_transition_for_equal_property_witness:
  "updateTransitions example_Env 20 example_RenderObject (Some (50, True)) (50, True)
     new_CompositeAnimation = Some new_CompositeAnimation \<and>
   propertiesEqual example_Env 1002 (Some (50, True)) (Some (50, True)) = Some True \<and>
   map_of (m_transitions (new_CompositeAnimation :: ExampleStyle CompositeAnimation)) 1002 = None \<and>
   map_of (m_transitions example_CompositeAnimation) 1002 =
     Some (example_running_transition\<lparr>m_fromStyle := Some (100, True), m_toStyle := Some (0, True)\<rparr>) \<and>
   isTargetPropertyEqual example_Env 1002 (50, True)
     (example_running_transition\<lparr>m_fromStyle := Some (100, True), m_toStyle := Some (0, True)\<rparr>) =
     Some False \<and>
   isTargetPropertyEqual example_Env 1002 (0, True)
     (example_running_transition\<lparr>m_fromStyle := Some (100, True), m_toStyle := Some (0, True)\<rparr>) =
     Some True \<and>
   map_option (\<lambda>d. map_of (m_transitions d) 1002)
     (updateTransitionForProperty example_Env 20 example_RenderObject (50, True) (50, True)
        example_transition 1002 example_CompositeAnimation) =
     Some (Some (new_ImplicitAnimation example_Env example_transition 1002 example_RenderObject)) \<and>
   updateTransitionForProperty example_Env 20 example_RenderObject (50, True) (0, True)
     example_transition 1002 example_CompositeAnimation = Some example_CompositeAnimation"
proof -
  let ?a = "example_running_transition\<lparr>m_fromStyle := Some (100, True), m_toStyle := Some (0, True)\<rparr>"
  have absent:
    "map_of (m_transitions (new_CompositeAnimation :: ExampleStyle CompositeAnimation)) 1002 = None"
    by (simp add: new_CompositeAnimation_def)
  have eq: "propertiesEqual example_Env 1002 (Some (50, True)) (Some (50, True)) = Some True"
    by (simp add: example_propertiesEqual)
  note inst1 = no_transition_for_equal_property
      [of example_Env 20 example_RenderObject "(50, True)" "(50, True)" new_CompositeAnimation
        new_CompositeAnimation 1002 ?a example_transition]
  note inst2 = no_transition_for_equal_property
      [of example_Env 20 example_RenderObject "(50, True)" "(50, True)"
        example_CompositeAnimation example_CompositeAnimation 1002 ?a example_transition]
  note inst3 = no_transition_for_equal_property
      [of example_Env 20 example_RenderObject "(50, True)" "(0, True)"
        example_CompositeAnimation example_CompositeAnimation 1002 ?a example_transition]
  have r1: "map_of (m_transitions (new_CompositeAnimation :: ExampleStyle CompositeAnimation))
      1002 = None"
    using inst1 example_updateTransitions_new eq absent by blast
  have r2: "map_option (\<lambda>d. map_of (m_transitions d) 1002)
     (updateTransitionForProperty example_Env 20 example_RenderObject (50, True) (50, True)
        example_transition 1002 example_CompositeAnimation) =
     Some (Some (new_ImplicitAnimation example_Env example_transition 1002 example_RenderObject))"
    using inst2 example_isTargetPropertyEqual(1,2) by blast
  have r3: "updateTransitionForProperty example_Env 20 example_RenderObject (50, True) (0, True)
     example_transition 1002 example_CompositeAnimation = Some example_CompositeAnimation"
    using inst3 example_isTargetPropertyEqual(1,3) by blast
  show ?thesis
    using example_updateTransitions_new eq r1 r2 r3 example_isTargetPropertyEqual
    by (intro conjI)
qed


lemma addsNoEmptyTransition_refl: "addsNoEmptyTransition c c"
  by (simp add: addsNoEmptyTransition_def)

lemma addsNoEmptyTransition_trans:
  "addsNoEmptyTransition c c' \<Longrightarrow> addsNoEmptyTransition c' c'' \<Longrightarrow> addsNoEmptyTransition c c''"
  unfolding addsNoEmptyTransition_def by metis

lemma updateTransitionForProperty_addsNoEmptyTransition:
  assumes "updateTransitionForProperty env now renderer cur tgt anim prop c = Some c'"
    and "\<not> emptyTransition anim"
  shows "addsNoEmptyTransition c c'"
  unfolding addsNoEmptyTransition_def
proof (intro conjI allI impI)
  show "m_keyframeAnimations c' = m_keyframeAnimations c"
    using updateTransitionForProperty_entries [OF assms(1)] by simp
next
  fix p ia
  assume entry: "map_of (m_transitions c') p = Some ia"
  show "map_of (m_transitions c) p = Some ia \<or> \<not> emptyTransition (m_animation ia)"
  proof (cases "map_of (m_transitions c') p = map_of (m_transitions c) p")
    case True
    with entry show ?thesis by simp
  next
    case False
    with updateTransitionForProperty_entries [OF assms(1)]
    have "map_of (m_transitions c') p = Some (new_ImplicitAnimation env anim prop renderer)"
      by metis
    with entry assms(2) show ?thesis by auto
  qed
qed

lemma updateTransition_empty:
  "emptyTransition anim \<Longrightarrow> updateTransition env now renderer cur tgt anim c = Some c"
  by (simp add: updateTransition_def emptyTransition_def)

lemma updateTransition_addsNoEmptyTransition:
  assumes "updateTransition env now renderer cur tgt anim c = Some c'"
  shows "addsNoEmptyTransition c c'"
proof (cases "emptyTransition anim")
  case True
  with assms show ?thesis
    by (simp add: updateTransition_empty addsNoEmptyTransition_refl)
next
  case False
  show ?thesis
  proof (cases "property anim = cAnimateAll env")
    case True
    with assms False have all:
      "foldOption
         (\<lambda>propertyIndex.
            updateTransitionForProperty env now renderer cur tgt anim
              (getPropertyAtIndex env (int propertyIndex)))
         [0 ..< nat (getNumProperties env)] c = Some c'"
      by (auto simp: updateTransition_def emptyTransition_def split: if_splits)
    show ?thesis
      by (rule foldOption_rel [OF all])
        (auto intro: addsNoEmptyTransition_refl addsNoEmptyTransition_trans
          updateTransitionForProperty_addsNoEmptyTransition [OF _ False])
  next
    case single: False
    with assms False
    have "updateTransitionForProperty env now renderer cur tgt anim (property anim) c = Some c'"
      by (auto simp: updateTransition_def emptyTransition_def split: if_splits)
    then show ?thesis
      using False by (rule updateTransitionForProperty_addsNoEmptyTransition)
  qed
qed

lemma updateTransitions_addsNoEmptyTransition:
  assumes "updateTransitions env now renderer currentStyle tgt c = Some c'"
  shows "addsNoEmptyTransition c c'"
proof (cases "currentStyle = None \<or> transitions env tgt = None")
  case True
  with assms show ?thesis
    by (auto simp: updateTransitions_def addsNoEmptyTransition_refl split: option.splits)
next
  case False
  then obtain cur ts where "currentStyle = Some cur" "transitions env tgt = Some ts"
    by auto
  with assms have all: "foldOption (updateTransition env now renderer cur tgt) ts c = Some c'"
    by (simp add: updateTransitions_def)
  show ?thesis
    by (rule foldOption_rel [OF all])
      (auto intro: addsNoEmptyTransition_refl addsNoEmptyTransition_trans
        updateTransition_addsNoEmptyTransition)
qed

lemma foldOption_skip:
  assumes "\<And>x c. x \<in> set xs \<Longrightarrow> \<not> P x \<Longrightarrow> f x c = Some c"
  shows "foldOption f xs c = foldOption f (filter P xs) c"
  using assms
proof (induction xs arbitrary: c)
  case Nil
  show ?case by simp
next
  case (Cons x xs)
  have rest: "foldOption f xs d = foldOption f (filter P xs) d" for d
    by (rule Cons.IH) (simp add: Cons.prems)
  show ?case
  proof (cases "P x")
    case True
    then show ?thesis
      by (simp add: rest split: option.splits)
  next
    case False
    then have "f x c = Some c"
      by (simp add: Cons.prems)
    with False show ?thesis
      by (simp add: rest)
  qed
qed

text \<open>
  C4. \<^verbatim>\<open>updateTransitions\<close> skips a transition declaration with duration 0 and a delay
  that is not positive: the declaration leaves the \<^verbatim>\<open>CompositeAnimation\<close> as it is, and the
  declared list gives what it gives without its empty declarations. Whatever is declared, a
  transition in the map that was not there before has a declaration that is not empty. When
  all declarations are empty, \<^verbatim>\<open>updateTransitions\<close> changes nothing, and
  \<^verbatim>\<open>isAnimatingProperty\<close> answers as before.
\<close>

theorem empty_transition_is_skipped:
  "(emptyTransition anim \<longrightarrow> updateTransition env now renderer cur tgt anim c = Some c) \<and>
   foldOption (updateTransition env now renderer cur tgt) ts c =
     foldOption (updateTransition env now renderer cur tgt)
       (filter (\<lambda>anim. \<not> emptyTransition anim) ts) c \<and>
   (updateTransitions env now renderer currentStyle tgt c = Some c' \<longrightarrow>
      (\<forall>p ia. map_of (m_transitions c') p = Some ia \<longrightarrow>
         map_of (m_transitions c) p = Some ia \<or> \<not> emptyTransition (m_animation ia))) \<and>
   ((\<forall>anim \<in> set (case transitions env tgt of None \<Rightarrow> [] | Some ts \<Rightarrow> ts).
       emptyTransition anim) \<longrightarrow>
      updateTransitions env now renderer currentStyle tgt c = Some c \<and>
      map_option (\<lambda>d. CompositeAnimation_isAnimatingProperty d p isRunningNow)
        (updateTransitions env now renderer currentStyle tgt c) =
        Some (CompositeAnimation_isAnimatingProperty c p isRunningNow))"
proof -
  have skip: "foldOption (updateTransition env now renderer cur tgt) ts c =
     foldOption (updateTransition env now renderer cur tgt)
       (filter (\<lambda>anim. \<not> emptyTransition anim) ts) c"
    by (rule foldOption_skip) (simp add: updateTransition_empty)
  have entries: "\<forall>p ia. map_of (m_transitions c') p = Some ia \<longrightarrow>
         map_of (m_transitions c) p = Some ia \<or> \<not> emptyTransition (m_animation ia)"
    if "updateTransitions env now renderer currentStyle tgt c = Some c'"
    using updateTransitions_addsNoEmptyTransition [OF that]
    by (simp add: addsNoEmptyTransition_def)
  have none: "updateTransitions env now renderer currentStyle tgt c = Some c"
    if all: "\<forall>anim \<in> set (case transitions env tgt of None \<Rightarrow> [] | Some ts \<Rightarrow> ts).
       emptyTransition anim"
  proof (cases "currentStyle = None \<or> transitions env tgt = None")
    case True
    then show ?thesis
      by (auto simp: updateTransitions_def split: option.splits)
  next
    case False
    then obtain cur' ts' where some: "currentStyle = Some cur'" "transitions env tgt = Some ts'"
      by auto
    have "foldOption (updateTransition env now renderer cur' tgt) ts' c =
        foldOption (updateTransition env now renderer cur' tgt)
          (filter (\<lambda>anim. \<not> emptyTransition anim) ts') c"
      by (rule foldOption_skip) (simp add: updateTransition_empty)
    moreover have "filter (\<lambda>anim. \<not> emptyTransition anim) ts' = []"
      using all some by (simp add: filter_empty_conv)
    ultimately show ?thesis
      using some by (simp add: updateTransitions_def)
  qed
  show ?thesis
    using skip entries none by (simp add: updateTransition_empty)
qed

lemma example_Env_empty_fields:
  "transitions example_Env_empty s = Some [example_empty_transition]"
  "emptyTransition example_empty_transition"
  by (simp_all add: example_Env_empty_def example_Env_def example_empty_transition_def
      example_transition_def emptyTransition_def)

theorem empty_transition_is_skipped_witness:
  "emptyTransition example_empty_transition \<and>
   list_all emptyTransition
     (case transitions example_Env_empty (0, True) of None \<Rightarrow> [] | Some ts \<Rightarrow> ts) \<and>
   updateTransition example_Env_empty 20 example_RenderObject (100, True) (0, True)
     example_empty_transition new_CompositeAnimation = Some new_CompositeAnimation \<and>
   updateTransitions example_Env_empty 20 example_RenderObject (Some (100, True)) (0, True)
     new_CompositeAnimation = Some new_CompositeAnimation \<and>
   \<not> CompositeAnimation_isAnimatingProperty
       (new_CompositeAnimation :: ExampleStyle CompositeAnimation) 1002 False"
proof -
  have declared:
    "\<forall>anim \<in> set (case transitions example_Env_empty (0, True) of None \<Rightarrow> [] | Some ts \<Rightarrow> ts).
      emptyTransition anim"
    by (simp add: example_Env_empty_fields)
  then have listed: "list_all emptyTransition
     (case transitions example_Env_empty (0, True) of None \<Rightarrow> [] | Some ts \<Rightarrow> ts)"
    by (simp add: list_all_iff)
  note inst = empty_transition_is_skipped
    [of example_empty_transition example_Env_empty 20 example_RenderObject "(100, True)"
      "(0, True)" new_CompositeAnimation "[example_empty_transition]" "Some (100, True)"
      new_CompositeAnimation 1002 False]
  have r1: "updateTransition example_Env_empty 20 example_RenderObject (100, True) (0, True)
     example_empty_transition new_CompositeAnimation = Some new_CompositeAnimation"
    using inst example_Env_empty_fields(2) by blast
  have r2: "updateTransitions example_Env_empty 20 example_RenderObject (Some (100, True))
     (0, True) new_CompositeAnimation = Some new_CompositeAnimation"
    using inst declared by blast
  have r4: "\<not> CompositeAnimation_isAnimatingProperty
       (new_CompositeAnimation :: ExampleStyle CompositeAnimation) 1002 False"
    by (simp add: CompositeAnimation_isAnimatingProperty_def new_CompositeAnimation_def)
  show ?thesis
    using example_Env_empty_fields(2) listed r1 r2 r4 by (intro conjI)
qed

subsection \<open>KeyframeAnimation::animate\<close>

text \<open>
  C6. When the search of \<^verbatim>\<open>KeyframeAnimation::animate\<close> comes back with \<^verbatim>\<open>fromStyle\<close> or
  \<^verbatim>\<open>toStyle\<close> null (the animation is not postactive, and is not waiting to start with a
  positive delay), the animation takes \<^verbatim>\<open>STATE_INPUT_END_ANIMATION\<close> and is in
  \<^verbatim>\<open>STATE_DONE\<close>, and \<^verbatim>\<open>animate\<close> returns with the target style and the pointer
  \<^verbatim>\<open>animatedStyle\<close> as they were: nothing is blended. A null or empty list of keyframes is
  such a case.
\<close>

theorem missing_keyframes_end_animation:
  assumes "KeyframeAnimation_startIfNew env now (a, c) = (a1, c1)"
    and "\<not> postactive a1"
    and "\<not> (waitingToStart a1 \<and> delay (m_animation a1) > 0)"
    and "fst (bracketingKeyframes (keyframeTime now a1) a1) = None \<or>
         fst (snd (bracketingKeyframes (keyframeTime now a1) a1)) = None \<or>
         m_keyframes a1 = None \<or>
         (\<exists>kl. m_keyframes a1 = Some kl \<and> keyframes kl = [])"
  shows "KeyframeAnimation_animate env now (a, c, st) =
           Some (fst (updateStateMachine (KeyframeAnimation_vtable env)
                        STATE_INPUT_END_ANIMATION (- 1) now (a1, c1)),
                 snd (updateStateMachine (KeyframeAnimation_vtable env)
                        STATE_INPUT_END_ANIMATION (- 1) now (a1, c1)),
                 st) \<and>
         m_animState (fst (updateStateMachine (KeyframeAnimation_vtable env)
                        STATE_INPUT_END_ANIMATION (- 1) now (a1, c1))) = STATE_DONE"
proof -
  have missing: "fst (bracketingKeyframes (keyframeTime now a1) a1) = None \<or>
         fst (snd (bracketingKeyframes (keyframeTime now a1) a1)) = None"
    using assms(4) by (auto simp: bracketingKeyframes_def)
  obtain fromStyle toStyle scale offset where
    b: "bracketingKeyframes (keyframeTime now a1) a1 = (fromStyle, toStyle, scale, offset)"
    by (metis prod_cases4)
  with missing have "fromStyle = None \<or> toStyle = None"
    by simp
  with assms(1-3) b show ?thesis
    by (auto simp: KeyframeAnimation_animate_def Let_def split_beta
        updateStateMachine_END_ANIMATION)
qed

theorem missing_keyframes_end_animation_witness:
  "KeyframeAnimation_startIfNew example_Env 2 (example_KeyframeAnimation, new_CompositeAnimation) =
     (example_KeyframeAnimation, new_CompositeAnimation) \<and>
   \<not> postactive example_KeyframeAnimation \<and>
   \<not> (waitingToStart example_KeyframeAnimation \<and>
        delay (m_animation example_KeyframeAnimation) > 0) \<and>
   (\<exists>kl. m_keyframes example_KeyframeAnimation = Some kl \<and> keyframes kl = []) \<and>
   map_option (\<lambda>r. (m_animState (fst r), snd (snd r)))
     (KeyframeAnimation_animate example_Env 2
        (example_KeyframeAnimation, new_CompositeAnimation, (0, True), NullStyle)) =
     Some (STATE_DONE, (0, True), NullStyle)"
proof -
  have st: "m_animState example_KeyframeAnimation = STATE_LOOPING"
    and kf: "m_keyframes example_KeyframeAnimation = Some \<lparr>keyframes = [], properties = [1002]\<rparr>"
    by (simp_all add: example_KeyframeAnimation_def new_KeyframeAnimation_def
        AnimationBase.extend_def KeyframeAnimation.fields_def example_animation_def)
  have start: "KeyframeAnimation_startIfNew example_Env 2
      (example_KeyframeAnimation, new_CompositeAnimation) =
     (example_KeyframeAnimation, new_CompositeAnimation)"
    by (simp add: KeyframeAnimation_startIfNew_def isnew_def st)
  have post: "\<not> postactive example_KeyframeAnimation"
    and wait: "\<not> (waitingToStart example_KeyframeAnimation \<and>
        delay (m_animation example_KeyframeAnimation) > 0)"
    by (simp_all add: postactive_def waitingToStart_def st)
  have empty: "\<exists>kl. m_keyframes example_KeyframeAnimation = Some kl \<and> keyframes kl = []"
    by (simp add: kf)
  from empty have hyp: "fst (bracketingKeyframes (keyframeTime 2 example_KeyframeAnimation)
        example_KeyframeAnimation) = None \<or>
      fst (snd (bracketingKeyframes (keyframeTime 2 example_KeyframeAnimation)
        example_KeyframeAnimation)) = None \<or>
      m_keyframes example_KeyframeAnimation = None \<or>
      (\<exists>kl. m_keyframes example_KeyframeAnimation = Some kl \<and> keyframes kl = [])"
    by blast
  show ?thesis
    using missing_keyframes_end_animation [OF start post wait hyp, of "((0, True), NullStyle)"]
      start post wait empty
    by simp
qed

subsection \<open>AnimationController::updateAnimations\<close>

text \<open>
  C10. \<^verbatim>\<open>updateAnimations\<close> returns the pointer \<^verbatim>\<open>newStyle\<close>, with the style and the
  controller as they were, when the renderer has no document or its document is in the page
  cache, and when neither the renderer's style (if it has one) nor \<^verbatim>\<open>newStyle\<close> declares
  animations or transitions. When it returns another pointer, the style it points to is the
  style \<open>b\<close> that \<^verbatim>\<open>CompositeAnimation::animate\<close> has returned, with its z-index set to 0 if
  \<open>b\<close> has an automatic z-index and an opacity below 1 or a transform.
\<close>

theorem updateAnimations_result:
  "((case document renderer of None \<Rightarrow> True | Some doc \<Rightarrow> inPageCache doc) \<longrightarrow>
      updateAnimations env now addr renderer newStyle d = Some (d, newStyle, TargetStyle)) \<and>
   ((case style renderer of
       None \<Rightarrow> True
     | Some old \<Rightarrow> animations env old = None \<and> transitions env old = None) \<and>
    animations env newStyle = None \<and> transitions env newStyle = None \<longrightarrow>
      updateAnimations env now addr renderer newStyle d = Some (d, newStyle, TargetStyle)) \<and>
   (updateAnimations env now addr renderer newStyle d = Some (d', newStyle', NewStyle blended) \<longrightarrow>
      (\<exists>c' b. CompositeAnimation_animate env now renderer (style renderer) newStyle
                 (fst (accessCompositeAnimation addr d)) = Some (c', newStyle', NewStyle b) \<and>
              blended = (if hasAutoZIndex env b \<and> (opacity env b < 1 \<or> hasTransform env b)
                         then setZIndex env 0 b else b)))"
  by (auto simp: updateAnimations_def Let_def split_beta
      split: option.splits if_splits StylePtr.splits)

lemma example_running_fields:
  "m_animState example_running_transition = STATE_LOOPING"
  "m_startTime example_running_transition = 1"
  "m_pauseTime example_running_transition = - 1"
  "m_animation example_running_transition = example_transition"
  "m_animatingProperty example_running_transition = 1002"
  "m_waitingForEndEvent example_running_transition = False"
  by (simp_all add: example_running_transition_def new_ImplicitAnimation_def
      new_AnimationBase_def AnimationBase.extend_def ImplicitAnimation.fields_def)

lemma example_transition_more:
  "iterationCount example_transition = 1" "direction example_transition = False"
  "timingFunction example_transition = LinearTimingFunction"
  by (simp_all add: example_transition_def)

lemma example_progress:
  "progress example_Env 2 1 0
     (example_running_transition\<lparr>m_fromStyle := Some (100, True), m_toStyle := Some (0, True)\<rparr>) =
   1 / 2"
  by (simp add: progress_def preactive_def postactive_def running_def isnew_def
      example_running_fields example_transition_fields example_transition_more Let_def
      double_to_int_def)

lemma example_blend:
  "blendPropertiesInto example_Env 1002 (Some (100, True)) (Some (0, True)) (1 / 2)
     ((0, True), NewStyle (0, True)) = Some (True, (0, True), NewStyle (50, True))"
proof -
  have "blendFunc_int 100 0 (1 / 2) = 50"
    by (simp add: blendFunc_int_def double_to_int_def)
  then have "blend example_wrapper (0, True) (100, True) (0, True) (1 / 2) = (50, True)"
    by (simp add: example_wrapper_def)
  then show ?thesis
    by (simp add: blendPropertiesInto_def blendProperties_def example_wrapper_map wrapperAt_def
        wrapper_blend_def example_Env_fields Let_def)
qed

lemma example_animate:
  "ImplicitAnimation_animate example_Env 2 (100, True)
     (example_running_transition\<lparr>m_fromStyle := Some (100, True), m_toStyle := Some (0, True)\<rparr>,
      c, (0, True), NullStyle) =
   Some (setAnimating True
           (example_running_transition\<lparr>m_fromStyle := Some (100, True), m_toStyle := Some (0, True)\<rparr>),
         c, (0, True), NewStyle (50, True))"
  by (simp add: ImplicitAnimation_animate_def paused_def postactive_def isnew_def
      example_running_fields allocateAnimatedStyle_def example_progress example_blend Let_def)


lemma example_CompositeAnimation_fields:
  "m_transitions example_CompositeAnimation =
     [(1002, example_running_transition
               \<lparr>m_fromStyle := Some (100, True), m_toStyle := Some (0, True)\<rparr>)]"
  "m_keyframeAnimations example_CompositeAnimation = []"
  "m_suspended example_CompositeAnimation = False"
  by (simp_all add: example_CompositeAnimation_def new_CompositeAnimation_def)

lemma example_updateTransitions_same:
  "updateTransitions example_Env 2 example_RenderObject (Some (100, True)) (0, True)
     example_CompositeAnimation = Some example_CompositeAnimation"
  by (simp add: updateTransitions_def updateTransition_def example_transitions
      example_transition_fields example_Env_fields updateTransitionForProperty_def
      example_isTargetPropertyEqual)

lemma example_no_animations:
  "animations example_Env s = None" "\<not> hasAnimations example_Env s"
  by (simp_all add: example_Env_def hasAnimations_def)

lemma example_CompositeAnimation_animate:
  "map_option (\<lambda>r. snd r)
     (CompositeAnimation_animate example_Env 2 example_RenderObject (Some (100, True)) (0, True)
        example_CompositeAnimation) =
   Some ((0, True), NewStyle (50, True))"
proof -
  let ?a = "example_running_transition
      \<lparr>m_fromStyle := Some (100, True), m_toStyle := Some (0, True)\<rparr>"
  let ?c1 = "(call (AnimateTransition 1002) example_CompositeAnimation)
      \<lparr>m_transitions := [(1002, setAnimating True ?a)]\<rparr>"
  have t: "animateTransition example_Env 2 (100, True) 1002
      (example_CompositeAnimation, (0, True), NullStyle) =
      Some (?c1, (0, True), NewStyle (50, True))"
    by (simp add: animateTransition_def example_CompositeAnimation_fields example_animate
        call_def)
  have k: "updateKeyframeAnimations example_Env 2 example_RenderObject (Some (100, True))
      (0, True) ?c1 = ?c1"
    by (simp add: updateKeyframeAnimations_def example_no_animations call_def
        example_CompositeAnimation_fields)
  show ?thesis
    by (simp add: CompositeAnimation_animate_def example_updateTransitions_same
        example_CompositeAnimation_fields t k example_no_animations)
qed

lemma example_updateAnimations:
  "map_option (\<lambda>r. snd r)
     (updateAnimations example_Env 2 7 example_RenderObject (0, True)
        example_AnimationControllerPrivate) =
   Some ((0, True), NewStyle (50, False))"
proof -
  have doc: "document example_RenderObject = Some example_Document"
    "inPageCache example_Document = False" "style example_RenderObject = Some (100, True)"
    by (simp_all add: example_RenderObject_def example_Document_def)
  have acc: "accessCompositeAnimation 7 example_AnimationControllerPrivate =
      (example_CompositeAnimation, example_AnimationControllerPrivate)"
    by (simp add: accessCompositeAnimation_def example_AnimationControllerPrivate_def)
  have z: "hasAutoZIndex example_Env (50, True)" "opacity example_Env (50, True) < 1"
    "setZIndex example_Env 0 (50, True) = (50, False)"
    by (simp_all add: example_Env_def)
  obtain c' where an: "CompositeAnimation_animate example_Env 2 example_RenderObject
      (Some (100, True)) (0, True) example_CompositeAnimation =
      Some (c', (0, True), NewStyle (50, True))"
    using example_CompositeAnimation_animate by (auto simp: map_option_case split: option.splits)
  show ?thesis
    by (simp add: updateAnimations_def doc acc an z example_transitions Let_def)
qed


theorem updateAnimations_result_witness:
  "(case document example_cached_RenderObject of None \<Rightarrow> True | Some doc \<Rightarrow> inPageCache doc) \<and>
   updateAnimations example_Env 2 7 example_cached_RenderObject (0, True)
     example_AnimationControllerPrivate =
     Some (example_AnimationControllerPrivate, (0, True), TargetStyle) \<and>
   ((case style example_RenderObject of
       None \<Rightarrow> True
     | Some old \<Rightarrow> animations example_Env_plain old = None \<and>
                  transitions example_Env_plain old = None) \<and>
    animations example_Env_plain (0, True) = None \<and>
    transitions example_Env_plain (0, True) = None) \<and>
   updateAnimations example_Env_plain 2 7 example_RenderObject (0, True)
     example_AnimationControllerPrivate =
     Some (example_AnimationControllerPrivate, (0, True), TargetStyle) \<and>
   map_option (\<lambda>r. snd r)
     (updateAnimations example_Env 2 7 example_RenderObject (0, True)
        example_AnimationControllerPrivate) =
     Some ((0, True), NewStyle (50, False)) \<and>
   (\<exists>c' b. CompositeAnimation_animate example_Env 2 example_RenderObject
              (style example_RenderObject) (0, True)
              (fst (accessCompositeAnimation 7 example_AnimationControllerPrivate)) =
              Some (c', (0, True), NewStyle b) \<and>
           (50, False) =
             (if hasAutoZIndex example_Env b \<and>
                 (opacity example_Env b < 1 \<or> hasTransform example_Env b)
              then setZIndex example_Env 0 b else b))"
proof -
  let ?d = example_AnimationControllerPrivate
  have cached:
    "case document example_cached_RenderObject of None \<Rightarrow> True | Some doc \<Rightarrow> inPageCache doc"
    by (simp add: example_cached_RenderObject_def)
  have plain:
    "(case style example_RenderObject of
       None \<Rightarrow> True
     | Some old \<Rightarrow> animations example_Env_plain old = None \<and>
                  transitions example_Env_plain old = None) \<and>
    animations example_Env_plain (0, True) = None \<and>
    transitions example_Env_plain (0, True) = None"
    by (simp add: example_Env_plain_def example_Env_def example_RenderObject_def)
  obtain d' where run:
    "updateAnimations example_Env 2 7 example_RenderObject (0, True) ?d =
       Some (d', (0, True), NewStyle (50, False))"
    using example_updateAnimations by (auto simp: map_option_case split: option.splits)
  have r1: "updateAnimations example_Env 2 7 example_cached_RenderObject (0, True) ?d =
     Some (?d, (0, True), TargetStyle)"
    using updateAnimations_result
      [of example_cached_RenderObject example_Env 2 7 "(0, True)" ?d ?d "(0, True)" "(0, True)"]
      cached by blast
  have r2: "updateAnimations example_Env_plain 2 7 example_RenderObject (0, True) ?d =
     Some (?d, (0, True), TargetStyle)"
    using updateAnimations_result
      [of example_RenderObject example_Env_plain 2 7 "(0, True)" ?d ?d "(0, True)" "(0, True)"]
      plain by blast
  have r3: "\<exists>c' b. CompositeAnimation_animate example_Env 2 example_RenderObject
              (style example_RenderObject) (0, True)
              (fst (accessCompositeAnimation 7 ?d)) =
              Some (c', (0, True), NewStyle b) \<and>
           (50, False) =
             (if hasAutoZIndex example_Env b \<and>
                 (opacity example_Env b < 1 \<or> hasTransform example_Env b)
              then setZIndex example_Env 0 b else b)"
    using updateAnimations_result
      [of example_RenderObject example_Env 2 7 "(0, True)" ?d d' "(0, True)" "(50, False)"]
      run by blast
  show ?thesis
    using cached r1 plain r2 example_updateAnimations r3 by blast
qed

subsection \<open>The order of the calls\<close>

lemma collaboratorCall_simps [simp]:
  "collaboratorCall SetChanged" "collaboratorCall StartUpdateRenderingDispatcher"
  "collaboratorCall (ControllerSetWaitingForStyleAvailable b)"
  "\<not> collaboratorCall (AnimateTransition k)" "\<not> collaboratorCall (AnimateKeyframeAnimation n)"
  "\<not> collaboratorCall (StyleAvailableTransition k)"
  "\<not> collaboratorCall (StyleAvailableKeyframeAnimation n)"
  by (simp_all add: collaboratorCall_def)

lemma callsExtended_refl: "callsExtended P c c"
  by (simp add: callsExtended_def)

lemma callsExtended_trans:
  "callsExtended P c c' \<Longrightarrow> callsExtended P c' c'' \<Longrightarrow> callsExtended P c c''"
  unfolding callsExtended_def by (metis append.assoc list_all_append)

lemma callsExtended_weaken:
  "callsExtended P c c' \<Longrightarrow> (\<And>e. P e \<Longrightarrow> Q e) \<Longrightarrow> callsExtended Q c c'"
  unfolding callsExtended_def by (metis list.pred_mono_strong)

lemma callsExtended_call: "P e \<Longrightarrow> callsExtended P c (call e c)"
  by (simp add: callsExtended_def call_def)

lemma callsExtended_same: "calls c' = calls c \<Longrightarrow> callsExtended P c c'"
  by (simp add: callsExtended_def)

lemma callsExtended_waiters:
  "callsExtended collaboratorCall c (setWaitingForStyleAvailable b c)"
  by (simp add: callsExtended_def setWaitingForStyleAvailable_def call_def collaboratorCall_def)

lemma callsExtended_setChanged: "callsExtended collaboratorCall c (setChanged c)"
  by (simp add: setChanged_def callsExtended_call collaboratorCall_def)

lemma fold_rel:
  assumes "\<And>c. R c c"
    and "\<And>c c' c''. R c c' \<Longrightarrow> R c' c'' \<Longrightarrow> R c c''"
    and "\<And>x c. x \<in> set xs \<Longrightarrow> R c (g x c)"
  shows "R c (fold g xs c)"
  using assms(3)
proof (induction xs arbitrary: c)
  case Nil
  show ?case using assms(1) by simp
next
  case (Cons x xs)
  have "R c (g x c)"
    using Cons.prems by simp
  moreover have "R (g x c) (fold g xs (g x c))"
    by (rule Cons.IH) (simp add: Cons.prems)
  ultimately show ?case
    using assms(2) by fastforce
qed

lemma ImplicitAnimation_updateStateMachine_calls:
  "callsExtended collaboratorCall c
     (snd (updateStateMachine (ImplicitAnimation_vtable env) input param now (a, c)))"
  by (rule updateStateMachine_frame)
    (simp_all add: callsExtended_refl callsExtended_call callsExtended_waiters
      ImplicitAnimation_vtable_def ImplicitAnimation_onAnimationEnd_def
      AnimationBase_endAnimation_def split_beta,
     erule (1) callsExtended_trans)

lemma forTransition_calls:
  assumes "\<And>a c. callsExtended P c (snd (f (a, c)))"
  shows "callsExtended P c (forTransition key f c)"
proof (cases "map_of (m_transitions c) key")
  case None
  then show ?thesis by (simp add: forTransition_def callsExtended_refl)
next
  case (Some anim)
  have "callsExtended P c (snd (f (anim, c)))"
    by (rule assms)
  then show ?thesis
    using Some by (simp add: forTransition_def split_beta callsExtended_def)
qed

lemma setOverridden_calls:
  "callsExtended collaboratorCall c (snd (setOverridden env now b (a, c)))"
  by (simp add: setOverridden_def ImplicitAnimation_updateStateMachine_calls
      callsExtended_refl)

lemma overrideImplicitAnimations_calls:
  "callsExtended collaboratorCall c (overrideImplicitAnimations env now prop c)"
  "callsExtended collaboratorCall c (resumeOverriddenImplicitAnimations env now prop c)"
  unfolding overrideImplicitAnimations_def resumeOverriddenImplicitAnimations_def
  by (rule fold_rel, rule callsExtended_refl, erule (1) callsExtended_trans,
      rule forTransition_calls, simp add: setOverridden_calls callsExtended_refl)+

lemma KeyframeAnimation_hooks_calls:
  "callsExtended collaboratorCall c (KeyframeAnimation_endAnimation r a c)"
  "callsExtended collaboratorCall c (KeyframeAnimation_overrideAnimations env now a c)"
  "callsExtended collaboratorCall c (KeyframeAnimation_resumeOverriddenAnimations env now a c)"
  "callsExtended collaboratorCall c (snd (KeyframeAnimation_onAnimationStart t (a, c)))"
  "callsExtended collaboratorCall c (snd (KeyframeAnimation_onAnimationIteration t (a, c)))"
  "callsExtended collaboratorCall c (snd (KeyframeAnimation_onAnimationEnd t (a, c)))"
proof -
  show "callsExtended collaboratorCall c (KeyframeAnimation_endAnimation r a c)"
    by (simp add: KeyframeAnimation_endAnimation_def callsExtended_setChanged)
  show "callsExtended collaboratorCall c (KeyframeAnimation_overrideAnimations env now a c)"
    unfolding KeyframeAnimation_overrideAnimations_def
    by (rule fold_rel, rule callsExtended_refl, erule (1) callsExtended_trans,
        rule overrideImplicitAnimations_calls)
  show "callsExtended collaboratorCall c
      (KeyframeAnimation_resumeOverriddenAnimations env now a c)"
    unfolding KeyframeAnimation_resumeOverriddenAnimations_def
    by (rule fold_rel, rule callsExtended_refl, erule (1) callsExtended_trans,
        rule overrideImplicitAnimations_calls)
  show "callsExtended collaboratorCall c (snd (KeyframeAnimation_onAnimationStart t (a, c)))"
    by (simp add: KeyframeAnimation_onAnimationStart_def callsExtended_refl)
  show "callsExtended collaboratorCall c (snd (KeyframeAnimation_onAnimationIteration t (a, c)))"
    by (simp add: KeyframeAnimation_onAnimationIteration_def callsExtended_refl)
  show "callsExtended collaboratorCall c (snd (KeyframeAnimation_onAnimationEnd t (a, c)))"
    by (simp add: KeyframeAnimation_onAnimationEnd_def KeyframeAnimation_endAnimation_def
        callsExtended_refl callsExtended_setChanged split_beta)
qed

lemma KeyframeAnimation_updateStateMachine_calls:
  "callsExtended collaboratorCall c
     (snd (updateStateMachine (KeyframeAnimation_vtable env) input param now (a, c)))"
  by (rule updateStateMachine_frame)
    (simp_all add: callsExtended_refl callsExtended_call callsExtended_waiters
      KeyframeAnimation_vtable_def KeyframeAnimation_hooks_calls,
     erule (1) callsExtended_trans)

lemma callsExtended_fields [simp]:
  "callsExtended P c (c'\<lparr>m_transitions := ts\<rparr>) = callsExtended P c c'"
  "callsExtended P c (c'\<lparr>m_keyframeAnimations := ks\<rparr>) = callsExtended P c c'"
  by (simp_all add: callsExtended_def)


lemma KeyframeAnimation_machine_calls:
  "callsExtended collaboratorCall (snd ac)
     (snd (updateStateMachine (KeyframeAnimation_vtable env) input param now ac))"
  by (cases ac) (simp add: KeyframeAnimation_updateStateMachine_calls)

lemma ImplicitAnimation_reset_calls:
  "callsExtended collaboratorCall (snd ac) (snd (ImplicitAnimation_reset env now from to ac))"
  using ImplicitAnimation_updateStateMachine_calls
    [of "snd ac" env STATE_INPUT_RESTART_ANIMATION "- 1" now
        "(fst ac)\<lparr>m_fromStyle := from, m_toStyle := to\<rparr>"]
  by (simp add: ImplicitAnimation_reset_def Let_def callsExtended_refl)






lemma ImplicitAnimation_animate_calls:
  assumes "ImplicitAnimation_animate env now currentStyle (a, c, st) = Some (a', c', st')"
  shows "callsExtended collaboratorCall c c'"
proof -
  have r: "callsExtended collaboratorCall c
      (snd (ImplicitAnimation_reset env now from to (a, c)))" for "from" to
    using ImplicitAnimation_reset_calls [of "(a, c)" env now "from" to] by simp
  show ?thesis
    using assms
    by (auto simp add: ImplicitAnimation_animate_def Let_def split_beta callsExtended_refl r
        split: if_splits option.splits)
qed

lemma animateTransition_calls:
  assumes "animateTransition env now currentStyle key cst = Some cst'"
  shows "callsExtended (\<lambda>e. collaboratorCall e \<or> (\<exists>k. e = AnimateTransition k))
           (fst cst) (fst cst')"
proof (cases "map_of (m_transitions (fst cst)) key")
  case None
  then show ?thesis
    using assms by (auto simp add: animateTransition_def split_beta callsExtended_refl)
next
  case (Some anim)
  let ?P = "\<lambda>e. collaboratorCall e \<or> (\<exists>k. e = AnimateTransition k)"
  from assms Some obtain a' c' st' where
    an: "ImplicitAnimation_animate env now currentStyle
           (anim, call (AnimateTransition key) (fst cst), snd cst) = Some (a', c', st')"
    and res: "cst' = (c'\<lparr>m_transitions := AList.update key a' (m_transitions c')\<rparr>, st')"
    by (auto simp add: animateTransition_def split_beta split: option.splits)
  have 1: "callsExtended ?P (fst cst) (call (AnimateTransition key) (fst cst))"
    by (rule callsExtended_call) blast
  have 2: "callsExtended ?P (call (AnimateTransition key) (fst cst)) c'"
    by (rule callsExtended_weaken [OF ImplicitAnimation_animate_calls [OF an]]) simp
  show ?thesis
    using callsExtended_trans [OF 1 2] by (simp add: res)
qed







lemma KeyframeAnimation_animate_calls:
  assumes "KeyframeAnimation_animate env now (a, c, st) = Some (a', c', st')"
  shows "callsExtended collaboratorCall c c'"
proof -
  have 1: "callsExtended collaboratorCall c (snd (KeyframeAnimation_startIfNew env now (a, c)))"
    using KeyframeAnimation_machine_calls [of "(a, c)" env STATE_INPUT_START_ANIMATION "- 1" now]
    by (simp add: KeyframeAnimation_startIfNew_def callsExtended_refl)
  have 2: "callsExtended collaboratorCall c
      (snd (updateStateMachine (KeyframeAnimation_vtable env) STATE_INPUT_END_ANIMATION (- 1) now
         (KeyframeAnimation_startIfNew env now (a, c))))"
    using callsExtended_trans [OF 1 KeyframeAnimation_machine_calls] by simp
  show ?thesis
    using assms 1 2
    unfolding KeyframeAnimation_animate_def
    by (auto simp add: Let_def split_beta split: if_splits option.splits)
qed

lemma animateKeyframeAnimation_calls:
  assumes "animateKeyframeAnimation env now anim cst = Some cst'"
  shows "callsExtended (\<lambda>e. collaboratorCall e \<or> (\<exists>n. e = AnimateKeyframeAnimation n))
           (fst cst) (fst cst')"
proof (cases "isValidAnimation anim \<and> map_of (m_keyframeAnimations (fst cst)) (name anim) \<noteq> None")
  case False
  then show ?thesis
    using assms
    by (auto simp add: animateKeyframeAnimation_def split_beta callsExtended_refl
        split: if_splits)
next
  case True
  then obtain ka where ka: "map_of (m_keyframeAnimations (fst cst)) (name anim) = Some ka"
    by blast
  let ?P = "\<lambda>e. collaboratorCall e \<or> (\<exists>n. e = AnimateKeyframeAnimation n)"
  from assms True ka obtain a' c' st' where
    an: "KeyframeAnimation_animate env now
           (ka, call (AnimateKeyframeAnimation (name anim)) (fst cst), snd cst) = Some (a', c', st')"
    and res: "cst' = (c'\<lparr>m_keyframeAnimations :=
                 AList.update (name anim) a' (m_keyframeAnimations c')\<rparr>, st')"
    by (auto simp add: animateKeyframeAnimation_def split_beta split: option.splits)
  have 1: "callsExtended ?P (fst cst) (call (AnimateKeyframeAnimation (name anim)) (fst cst))"
    by (rule callsExtended_call) blast
  have 2: "callsExtended ?P (call (AnimateKeyframeAnimation (name anim)) (fst cst)) c'"
    by (rule callsExtended_weaken [OF KeyframeAnimation_animate_calls [OF an]]) simp
  show ?thesis
    using callsExtended_trans [OF 1 2] by (simp add: res)
qed


subsection \<open>The order of CompositeAnimation::styleAvailable\<close>

















subsection \<open>The calls of animate\<close>














subsection \<open>The index of a keyframe animation\<close>






lemma m_index_new_KeyframeAnimation [simp]:
  "m_index (new_KeyframeAnimation env anim renderer i) = i"
  by (simp add: new_KeyframeAnimation_def AnimationBase.extend_def KeyframeAnimation.fields_def)










subsection \<open>The example with keyframe animations\<close>




















end
